theory Spec2Isabelle
  imports Complex_Main "HOL-Library.Log_Nat" "HOL-Library.Monad_Syntax"
begin

section \<open>Python values used by backend.py\<close>

subsection \<open>Floats\<close>

text \<open>
  A Python \<^verbatim>\<open>float\<close> is an IEEE 754 binary64 number. It is modelled by its exact
  value, a rational; every arithmetic operation computes the exact result and rounds it
  to the nearest binary64 number, ties to even, as the hardware does. \<open>ilog2 x\<close> is
  the binary exponent of a positive \<open>x\<close>; below \<open>2 powi (-1022)\<close> the spacing of
  the subnormal numbers is used. Overflow to infinity (above \<open>2 powi 1024\<close>) is not
  modelled: no quantity of this program comes near it. A Python \<^verbatim>\<open>int\<close> is an
  \<open>int\<close>.
\<close>

definition ilog2 :: "rat \<Rightarrow> int" where
  "ilog2 x = (let (p, q) = quotient_of x; d = bitlen p - bitlen q
              in if power_int 2 d \<le> x then d else d - 1)"

definition round_half_even :: "rat \<Rightarrow> int" where
  "round_half_even x = (let f = \<lfloor>x\<rfloor>; r = x - of_int f
     in if r < 1/2 then f else if 1/2 < r then f + 1 else if even f then f else f + 1)"

definition binary64 :: "rat \<Rightarrow> rat" where
  "binary64 x = (if x = 0 then 0 else
     let e = max (ilog2 \<bar>x\<bar>) (- 1022); u = power_int 2 (e - 52)
     in of_int (round_half_even (x / u)) * u)"

text \<open>
  A decimal float literal: \<open>float_literal m k\<close> is the float that the literal with
  the digits \<open>m\<close> and \<open>k\<close> decimal places denotes, so \<^verbatim>\<open>0.15\<close> is
  \<open>float_literal 15 2\<close>.
\<close>

definition float_literal :: "int \<Rightarrow> nat \<Rightarrow> rat" where
  "float_literal m k = binary64 (of_int m / 10 ^ k)"

text \<open>\<^verbatim>\<open>float(n)\<close>, and the conversion of an int operand in mixed arithmetic.\<close>

definition float_of_int :: "int \<Rightarrow> rat" where
  "float_of_int n = binary64 (of_int n)"

definition fadd :: "rat \<Rightarrow> rat \<Rightarrow> rat" where
  "fadd x y = binary64 (x + y)"

definition fsub :: "rat \<Rightarrow> rat \<Rightarrow> rat" where
  "fsub x y = binary64 (x - y)"

definition fmul :: "rat \<Rightarrow> rat \<Rightarrow> rat" where
  "fmul x y = binary64 (x * y)"

text \<open>
  True division \<^verbatim>\<open>/\<close>. It raises ZeroDivisionError on a zero divisor: the value
  \<open>None\<close>. On two ints the quotient of the integers is rounded once.
\<close>

definition int_truediv :: "int \<Rightarrow> int \<Rightarrow> rat option" where
  "int_truediv a b = (if b = 0 then None else Some (binary64 (of_int a / of_int b)))"

definition float_truediv :: "rat \<Rightarrow> rat \<Rightarrow> rat option" where
  "float_truediv x y = (if y = 0 then None else Some (binary64 (x / y)))"

text \<open>\<^verbatim>\<open>int(x)\<close> on a float truncates towards zero.\<close>

definition py_int :: "rat \<Rightarrow> int" where
  "py_int x = (if 0 \<le> x then \<lfloor>x\<rfloor> else \<lceil>x\<rceil>)"

text \<open>
  \<^verbatim>\<open>round(x, ndigits)\<close> on a float: the decimal with \<open>ndigits\<close> places nearest to
  the exact value of \<open>x\<close> (ties to even), converted back to the nearest float.
\<close>

definition py_round :: "rat \<Rightarrow> nat \<Rightarrow> rat" where
  "py_round x ndigits = binary64 (of_int (round_half_even (x * 10 ^ ndigits)) / 10 ^ ndigits)"

text \<open>
  The builtin \<^verbatim>\<open>sum\<close> over a list of ints and floats, as CPython 3.12 and later
  computes it (\<^verbatim>\<open>builtin_sum_impl\<close>). It starts from the int 0 and adds ints exactly
  for as long as the items are ints. The first float item is added to that int by an
  ordinary float addition, and from there on the sum is a float \<^verbatim>\<open>f_result\<close> with the
  compensation \<^verbatim>\<open>c\<close> of Neumaier's algorithm: a float item \<open>x\<close> gives
  \<^verbatim>\<open>t = f_result + x\<close>, then \<^verbatim>\<open>c += (f_result - t) + x\<close> when
  \<^verbatim>\<open>fabs(f_result) >= fabs(x)\<close> and \<^verbatim>\<open>c += (x - t) + f_result\<close> otherwise, then
  \<^verbatim>\<open>f_result = t\<close>; an int item is converted and added to \<^verbatim>\<open>f_result\<close> alone; at the
  end \<^verbatim>\<open>c\<close> is added when it is not zero. Every operation rounds. The result is an int
  when no item is a float. CPython up to 3.11 has no compensation: there the float part is
  the plain sum from the left, which is the same value whenever \<^verbatim>\<open>c\<close> ends as zero.
\<close>

datatype py_number = PyInt int | PyFloat rat

fun sum_float_phase :: "rat \<Rightarrow> rat \<Rightarrow> py_number list \<Rightarrow> rat" where
  "sum_float_phase f_result c [] = (if c \<noteq> 0 then fadd f_result c else f_result)"
| "sum_float_phase f_result c (PyFloat x # items) =
     (let t = fadd f_result x;
          c' = (if \<bar>x\<bar> \<le> \<bar>f_result\<bar> then fadd c (fadd (fsub f_result t) x)
                else fadd c (fadd (fsub x t) f_result))
      in sum_float_phase t c' items)"
| "sum_float_phase f_result c (PyInt n # items) =
     sum_float_phase (fadd f_result (float_of_int n)) c items"

fun sum_int_phase :: "int \<Rightarrow> py_number list \<Rightarrow> py_number" where
  "sum_int_phase i_result [] = PyInt i_result"
| "sum_int_phase i_result (PyInt n # items) = sum_int_phase (i_result + n) items"
| "sum_int_phase i_result (PyFloat x # items) =
     PyFloat (sum_float_phase (fadd (float_of_int i_result) x) 0 items)"

definition py_sum :: "py_number list \<Rightarrow> py_number" where
  "py_sum items = sum_int_phase 0 items"

text \<open>A sum divided by an int: \<^verbatim>\<open>sum(...) / n\<close>.\<close>

definition sum_truediv :: "py_number \<Rightarrow> int \<Rightarrow> rat option" where
  "sum_truediv s n = (case s of PyInt i \<Rightarrow> int_truediv i n
                      | PyFloat x \<Rightarrow> float_truediv x (float_of_int n))"

subsection \<open>The random module\<close>

text \<open>
  The generator of the \<^verbatim>\<open>random\<close> module is process-wide state that every draw
  advances. Its outcomes are an input of the model: a list of integers, one consumed by
  each draw and reduced into the range of that draw, continued by zeros when it is used
  up. The functions return the drawn value
  and the remaining supply. \<^verbatim>\<open>randint(a, b)\<close> is \<^verbatim>\<open>a + randbelow(b - a + 1)\<close>;
  \<^verbatim>\<open>random()\<close> is a multiple of \<open>2 powi (-53)\<close> in \<open>[0, 1)\<close>; and
  \<^verbatim>\<open>uniform(a, b)\<close> is \<^verbatim>\<open>a + (b - a) * random()\<close>, as in the standard library. Every
  call of \<^verbatim>\<open>randint\<close> in backend.py has constant bounds with \<open>a \<le> b\<close>.
\<close>

type_synonym rng = "int list"

definition next_raw :: "rng \<Rightarrow> int \<times> rng" where
  "next_raw g = (case g of [] \<Rightarrow> (0, []) | k # g' \<Rightarrow> (k, g'))"

definition randint :: "int \<Rightarrow> int \<Rightarrow> rng \<Rightarrow> int \<times> rng" where
  "randint a b g = (let (k, g') = next_raw g in (a + k mod (b - a + 1), g'))"

definition py_random :: "rng \<Rightarrow> rat \<times> rng" where
  "py_random g = (let (k, g') = next_raw g in (of_int (k mod 2 ^ 53) / 2 ^ 53, g'))"

definition uniform :: "rat \<Rightarrow> rat \<Rightarrow> rng \<Rightarrow> rat \<times> rng" where
  "uniform a b g = (let (r, g') = py_random g in (fadd a (fmul (fsub b a) r), g'))"

subsection \<open>Strings and lists\<close>

text \<open>\<^verbatim>\<open>str.upper\<close>, on the ASCII letters (the zone names have no others).\<close>

definition upper_char :: "char \<Rightarrow> char" where
  "upper_char c =
     (case map_of (zip ''abcdefghijklmnopqrstuvwxyz'' ''ABCDEFGHIJKLMNOPQRSTUVWXYZ'') c of
        None \<Rightarrow> c | Some u \<Rightarrow> u)"

definition upper :: "string \<Rightarrow> string" where
  "upper s = map upper_char s"

text \<open>\<^verbatim>\<open>str(i)\<close> of an int.\<close>

fun str_nat :: "nat \<Rightarrow> string" where
  "str_nat n = (if n < 10 then [''0123456789'' ! n]
                else str_nat (n div 10) @ [''0123456789'' ! (n mod 10)])"

definition str_int :: "int \<Rightarrow> string" where
  "str_int i = (if i < 0 then CHR ''-'' # str_nat (nat (- i)) else str_nat (nat i))"

text \<open>\<^verbatim>\<open>s.replace(old, new)\<close>: every occurrence, from the left, without overlap.\<close>

function replace_from :: "string \<Rightarrow> string \<Rightarrow> string \<Rightarrow> string" where
  "replace_from old new s =
     (if old = [] \<or> s = [] then s
      else if take (length old) s = old then new @ replace_from old new (drop (length old) s)
      else hd s # replace_from old new (tl s))"
  by pat_completeness auto
termination
  by (relation "measure (\<lambda>(old, new, s). length s)") (auto simp add: neq_Nil_conv)

definition replace :: "string \<Rightarrow> string \<Rightarrow> string \<Rightarrow> string" where
  "replace s old new =
     (if old = [] then new @ concat (map (\<lambda>c. c # new) s) else replace_from old new s)"

text \<open>\<^verbatim>\<open>s.split(sep)\<close> for a one-character separator.\<close>

fun split :: "string \<Rightarrow> char \<Rightarrow> string list" where
  "split [] sep = [[]]"
| "split (c # cs) sep =
     (if c = sep then [] # split cs sep
      else (case split cs sep of [] \<Rightarrow> [[c]] | w # ws \<Rightarrow> (c # w) # ws))"

text \<open>
  \<^verbatim>\<open>int(s)\<close> of a string of decimal digits; any other string is a ValueError
  (\<open>None\<close>). Python also accepts a sign, surrounding blanks and underscores, which the
  labels parsed here do not have.
\<close>

definition digit_of :: "char \<Rightarrow> nat option" where
  "digit_of c = map_of (zip ''0123456789'' [0, 1, 2, 3, 4, 5, 6, 7, 8, 9]) c"

fun int_of_digits :: "int \<Rightarrow> string \<Rightarrow> int option" where
  "int_of_digits acc [] = Some acc"
| "int_of_digits acc (c # cs) =
     (case digit_of c of None \<Rightarrow> None | Some d \<Rightarrow> int_of_digits (10 * acc + int d) cs)"

definition int_of_str :: "string \<Rightarrow> int option" where
  "int_of_str s = (if s = [] then None else int_of_digits 0 s)"

text \<open>\<^verbatim>\<open>xs[i]\<close> for \<open>i \<ge> 0\<close>; out of range it raises IndexError.\<close>

definition index :: "'a list \<Rightarrow> nat \<Rightarrow> 'a option" where
  "index xs i = (if i < length xs then Some (xs ! i) else None)"

text \<open>\<^verbatim>\<open>sub in s\<close> on strings.\<close>

fun contains :: "string \<Rightarrow> string \<Rightarrow> bool" where
  "contains [] sub = (sub = [])"
| "contains (c # cs) sub = (take (length sub) (c # cs) = sub \<or> contains cs sub)"

text \<open>
  \<^verbatim>\<open>max(xs, key=f)\<close>: the first element whose key is largest; ValueError on an empty
  list. \<^verbatim>\<open>next(x for x in xs if p(x))\<close>: the first element that satisfies \<open>p\<close>;
  StopIteration when there is none.
\<close>

definition max_by :: "('a \<Rightarrow> 'k::linorder) \<Rightarrow> 'a list \<Rightarrow> 'a option" where
  "max_by key xs =
     (case xs of [] \<Rightarrow> None
      | x # rest \<Rightarrow> Some (foldl (\<lambda>best y. if key best < key y then y else best) x rest))"

definition next_where :: "('a \<Rightarrow> bool) \<Rightarrow> 'a list \<Rightarrow> 'a option" where
  "next_where p xs = find p xs"

section \<open>Data generation helpers\<close>

definition generate_daily_data :: "int \<Rightarrow> rat \<Rightarrow> rng \<Rightarrow> int \<times> rng" where
  "generate_daily_data base_value variance g =
     (let (u, g') = uniform (- variance) variance g
      in (py_int (fmul (float_of_int base_value) (fadd 1 u)), g'))"

text \<open>
  \<^verbatim>\<open>get_date()\<close> formats the clock's reading; the reading, formatted as
  \<^verbatim>\<open>%Y-%m-%d\<close>, is the input \<open>today\<close>. Every endpoint starts with
  \<^verbatim>\<open>target_date = date or get_date()\<close>: an absent date and the empty string are both
  false for \<^verbatim>\<open>or\<close>.
\<close>

definition get_date :: "string \<Rightarrow> string" where
  "get_date today = today"

definition date_or :: "string option \<Rightarrow> string \<Rightarrow> string" where
  "date_or date dflt = (case date of None \<Rightarrow> dflt | Some d \<Rightarrow> if d = [] then dflt else d)"

text \<open>The expression \<^verbatim>\<open>round((count / total) * 100, 1)\<close> of every percentage.\<close>

definition percentage_of :: "int \<Rightarrow> int \<Rightarrow> nat \<Rightarrow> rat option" where
  "percentage_of part whole ndigits =
     do { q \<leftarrow> int_truediv part whole; Some (py_round (fmul q (float_of_int 100)) ndigits) }"


section \<open>Kategori 1: Operational Efficiency\<close>

record TrafficHourData =
  hour :: int
  count :: int
  period :: string

record GateUtilizationData =
  gate_id :: string
  zone :: string
  count :: int
  utilization_rate :: rat

record TrafficZoneData =
  zone :: string
  count :: int
  percentage :: rat

record DirectionBalanceData =
  zone :: string
  direction :: string
  count :: int
  percentage :: rat

text \<open>The \<^verbatim>\<open>summary\<close> dictionaries are records of their keys.\<close>

record OperationalEfficiencySummary =
  morning_peak_transactions :: int
  morning_peak_percentage :: rat
  evening_peak_transactions :: int
  evening_peak_percentage :: rat
  avg_gate_utilization_rate :: rat
  busiest_gate :: string
  busiest_zone :: string

record OperationalEfficiencyResponse =
  date :: string
  total_transactions :: int
  traffic_per_hour :: "TrafficHourData list"
  gate_utilization :: "GateUtilizationData list"
  traffic_by_zone :: "TrafficZoneData list"
  balance_direction :: "DirectionBalanceData list"
  summary :: OperationalEfficiencySummary

text \<open>1.1 Traffic per Jam: the loop over \<^verbatim>\<open>range(6, 23)\<close>.\<close>

fun traffic_per_hour_loop :: "int list \<Rightarrow> rng \<Rightarrow> TrafficHourData list \<times> rng" where
  "traffic_per_hour_loop [] g = ([], g)"
| "traffic_per_hour_loop (h # hours) g =
     (let (base_count, period, g1) =
            (if 7 \<le> h \<and> h \<le> 9
             then (let (b, g') = randint 400 600 g in (b, ''Morning Peak'', g'))
             else if 16 \<le> h \<and> h \<le> 19
             then (let (b, g') = randint 400 600 g in (b, ''Evening Peak'', g'))
             else (let (b, g') = randint 50 200 g in (b, '''', g')));
          (count, g2) = generate_daily_data base_count (float_literal 15 2) g1;
          (rest, g3) = traffic_per_hour_loop hours g2
      in (\<lparr>TrafficHourData.hour = h, TrafficHourData.count = count,
           TrafficHourData.period = period\<rparr> # rest, g3))"

text \<open>
  1.2 Gate Utilization: the loop over the zones, and inside it the loop over
  \<^verbatim>\<open>range(1, 5)\<close>.
\<close>

fun gate_loop :: "string \<Rightarrow> int list \<Rightarrow> int \<Rightarrow> rng \<Rightarrow> (GateUtilizationData list \<times> rng) option" where
  "gate_loop zone_name [] total_transactions' g = Some ([], g)"
| "gate_loop zone_name (i # is) total_transactions' g = do {
     let gate_id = ''TAP-'' @ upper zone_name @ ''-00'' @ str_int i;
     let (base_count, g1) =
           (if zone_name = ''North'' then randint 450 650 g else randint 400 600 g);
     let (count, g2) = generate_daily_data base_count (float_literal 2 1) g1;
     q \<leftarrow> int_truediv count total_transactions';
     let utilization_rate = fmul q (float_of_int 100);
     (rest, g3) \<leftarrow> gate_loop zone_name is total_transactions' g2;
     Some (\<lparr>GateUtilizationData.gate_id = gate_id, GateUtilizationData.zone = zone_name,
            GateUtilizationData.count = count,
            GateUtilizationData.utilization_rate = py_round utilization_rate 2\<rparr> # rest, g3)
   }"

fun gate_utilization_loop :: "string list \<Rightarrow> int \<Rightarrow> rng \<Rightarrow> (GateUtilizationData list \<times> rng) option" where
  "gate_utilization_loop [] total_transactions' g = Some ([], g)"
| "gate_utilization_loop (zone_name # zones) total_transactions' g = do {
     (gates, g1) \<leftarrow> gate_loop zone_name [1..4] total_transactions' g;
     (rest, g2) \<leftarrow> gate_utilization_loop zones total_transactions' g1;
     Some (gates @ rest, g2)
   }"

text \<open>1.3 Traffic by Zone.\<close>

definition traffic_by_zone_of :: "int \<Rightarrow> GateUtilizationData list \<Rightarrow> TrafficZoneData list option" where
  "traffic_by_zone_of total_transactions' gate_utilization' = do {
     let north_count = sum_list (map GateUtilizationData.count
           (filter (\<lambda>g. GateUtilizationData.zone g = ''North'') gate_utilization'));
     let west_count = sum_list (map GateUtilizationData.count
           (filter (\<lambda>g. GateUtilizationData.zone g = ''West'') gate_utilization'));
     north_percentage \<leftarrow> percentage_of north_count total_transactions' 1;
     west_percentage \<leftarrow> percentage_of west_count total_transactions' 1;
     Some [\<lparr>TrafficZoneData.zone = ''TAP-NORTH'', TrafficZoneData.count = north_count,
            TrafficZoneData.percentage = north_percentage\<rparr>,
           \<lparr>TrafficZoneData.zone = ''TAP-WEST'', TrafficZoneData.count = west_count,
            TrafficZoneData.percentage = west_percentage\<rparr>]
   }"

text \<open>
  1.4 Balance Direction per Zone: the loop over the zone records, and inside it the loop
  over the two directions. Each direction draws its own share of the zone's count.
\<close>

fun direction_loop :: "TrafficZoneData \<Rightarrow> string \<Rightarrow> string list \<Rightarrow> rng \<Rightarrow> (DirectionBalanceData list \<times> rng) option" where
  "direction_loop zone_data zone_name [] g = Some ([], g)"
| "direction_loop zone_data zone_name (direction' # directions) g = do {
     let (u, g1) = uniform (float_literal 45 2) (float_literal 55 2) g;
     let count = py_int (fmul (float_of_int (TrafficZoneData.count zone_data)) u);
     percentage \<leftarrow> percentage_of count (TrafficZoneData.count zone_data) 1;
     (rest, g2) \<leftarrow> direction_loop zone_data zone_name directions g1;
     Some (\<lparr>DirectionBalanceData.zone = zone_name, DirectionBalanceData.direction = direction',
            DirectionBalanceData.count = count,
            DirectionBalanceData.percentage = percentage\<rparr> # rest, g2)
   }"

fun balance_direction_loop :: "TrafficZoneData list \<Rightarrow> rng \<Rightarrow> (DirectionBalanceData list \<times> rng) option" where
  "balance_direction_loop [] g = Some ([], g)"
| "balance_direction_loop (zone_data # zs) g = do {
     let zone_name = replace (TrafficZoneData.zone zone_data) ''TAP-'' '''';
     (records, g1) \<leftarrow> direction_loop zone_data zone_name [''IN'', ''OUT''] g;
     (rest, g2) \<leftarrow> balance_direction_loop zs g1;
     Some (records @ rest, g2)
   }"

text \<open>The summary.\<close>

definition operational_efficiency_summary ::
  "int \<Rightarrow> TrafficHourData list \<Rightarrow> GateUtilizationData list \<Rightarrow> TrafficZoneData list
     \<Rightarrow> OperationalEfficiencySummary option" where
  "operational_efficiency_summary total_transactions' traffic_per_hour' gate_utilization'
       traffic_by_zone' = do {
     let morning_peak = sum_list (map TrafficHourData.count
           (filter (\<lambda>t. 7 \<le> TrafficHourData.hour t \<and> TrafficHourData.hour t \<le> 9)
              traffic_per_hour'));
     let evening_peak = sum_list (map TrafficHourData.count
           (filter (\<lambda>t. 16 \<le> TrafficHourData.hour t \<and> TrafficHourData.hour t \<le> 19)
              traffic_per_hour'));
     avg_gate_util \<leftarrow> sum_truediv
           (py_sum (map (\<lambda>g. PyFloat (GateUtilizationData.utilization_rate g))
              gate_utilization'))
           (int (length gate_utilization'));
     morning_peak_percentage \<leftarrow> percentage_of morning_peak total_transactions' 1;
     evening_peak_percentage \<leftarrow> percentage_of evening_peak total_transactions' 1;
     busiest_gate \<leftarrow> max_by GateUtilizationData.count gate_utilization';
     busiest_zone \<leftarrow> max_by TrafficZoneData.count traffic_by_zone';
     Some \<lparr>morning_peak_transactions = morning_peak,
           morning_peak_percentage = morning_peak_percentage,
           evening_peak_transactions = evening_peak,
           evening_peak_percentage = evening_peak_percentage,
           avg_gate_utilization_rate = py_round avg_gate_util 2,
           busiest_gate = GateUtilizationData.gate_id busiest_gate,
           busiest_zone = TrafficZoneData.zone busiest_zone\<rparr>
   }"

definition get_operational_efficiency ::
  "string \<Rightarrow> rng \<Rightarrow> string option \<Rightarrow> OperationalEfficiencyResponse option" where
  "get_operational_efficiency today g date' = do {
     let target_date = date_or date' (get_date today);
     let (total_transactions, g1) = randint 4000 6000 g;
     let (traffic_per_hour, g2) = traffic_per_hour_loop [6..22] g1;
     (gate_utilization, g3) \<leftarrow> gate_utilization_loop [''North'', ''West''] total_transactions g2;
     traffic_by_zone \<leftarrow> traffic_by_zone_of total_transactions gate_utilization;
     (balance_direction, g4) \<leftarrow> balance_direction_loop traffic_by_zone g3;
     summary \<leftarrow> operational_efficiency_summary total_transactions traffic_per_hour
                  gate_utilization traffic_by_zone;
     Some \<lparr>OperationalEfficiencyResponse.date = target_date,
           total_transactions = total_transactions,
           traffic_per_hour = traffic_per_hour,
           gate_utilization = gate_utilization,
           traffic_by_zone = traffic_by_zone,
           balance_direction = balance_direction,
           summary = summary\<rparr>
   }"

section \<open>Kategori 3: Profil Demografi Penumpang\<close>

record AgeDistributionData =
  age_range :: string
  count :: int
  percentage :: rat

record OccupationDistributionData =
  occupation :: string
  count :: int
  percentage :: rat

record GenderDistributionData =
  gender :: string
  count :: int
  percentage :: rat

record OriginStationData =
  station :: string
  count :: int
  percentage :: rat

record DemografiSummary =
  average_age :: rat
  productive_age_passengers :: int
  productive_age_percentage :: rat
  worker_passengers :: int
  worker_percentage :: rat
  dominant_origin_station :: string

record DemografiResponse =
  date :: string
  total_passengers :: int
  age_distribution :: "AgeDistributionData list"
  occupation_distribution :: "OccupationDistributionData list"
  gender_distribution :: "GenderDistributionData list"
  origin_station_distribution :: "OriginStationData list"
  summary :: DemografiSummary

text \<open>
  A list literal of pairs \<^verbatim>\<open>(label, random.randint(a, b))\<close>: the draws are made in
  the order of the entries.
\<close>

fun labelled_randints :: "(string \<times> int \<times> int) list \<Rightarrow> rng \<Rightarrow> (string \<times> int) list \<times> rng" where
  "labelled_randints [] g = ([], g)"
| "labelled_randints ((label, a, b) # entries) g =
     (let (n, g1) = randint a b g;
          (rest, g2) = labelled_randints entries g1
      in ((label, n) # rest, g2))"

text \<open>3.1 Distribusi Usia.\<close>

fun age_distribution_loop :: "(string \<times> int) list \<Rightarrow> int \<Rightarrow> rng \<Rightarrow> (AgeDistributionData list \<times> rng) option" where
  "age_distribution_loop [] total_passengers' g = Some ([], g)"
| "age_distribution_loop ((age_range', base_count) # age_ranges) total_passengers' g = do {
     let (count, g1) = generate_daily_data base_count (float_literal 1 1) g;
     percentage \<leftarrow> percentage_of count total_passengers' 1;
     (rest, g2) \<leftarrow> age_distribution_loop age_ranges total_passengers' g1;
     Some (\<lparr>AgeDistributionData.age_range = age_range', AgeDistributionData.count = count,
            AgeDistributionData.percentage = percentage\<rparr> # rest, g2)
   }"

text \<open>3.2 Distribusi Pekerjaan.\<close>

fun occupation_distribution_loop :: "(string \<times> int) list \<Rightarrow> int \<Rightarrow> rng \<Rightarrow> (OccupationDistributionData list \<times> rng) option" where
  "occupation_distribution_loop [] total_passengers' g = Some ([], g)"
| "occupation_distribution_loop ((occupation', base_count) # occupations) total_passengers' g = do {
     let (count, g1) = generate_daily_data base_count (float_literal 15 2) g;
     percentage \<leftarrow> percentage_of count total_passengers' 1;
     (rest, g2) \<leftarrow> occupation_distribution_loop occupations total_passengers' g1;
     Some (\<lparr>OccupationDistributionData.occupation = occupation',
            OccupationDistributionData.count = count,
            OccupationDistributionData.percentage = percentage\<rparr> # rest, g2)
   }"

text \<open>3.3 Distribusi Jenis Kelamin: the count of Wanita is what Pria leaves of the total.\<close>

definition gender_distribution_of :: "int \<Rightarrow> rng \<Rightarrow> (GenderDistributionData list \<times> rng) option" where
  "gender_distribution_of total_passengers' g = do {
     let (pria_count, g1) = generate_daily_data
           (py_int (fmul (float_of_int total_passengers') (float_literal 52 2)))
           (float_literal 5 2) g;
     let wanita_count = total_passengers' - pria_count;
     pria_percentage \<leftarrow> percentage_of pria_count total_passengers' 1;
     wanita_percentage \<leftarrow> percentage_of wanita_count total_passengers' 1;
     Some ([\<lparr>GenderDistributionData.gender = ''Pria'',
             GenderDistributionData.count = pria_count,
             GenderDistributionData.percentage = pria_percentage\<rparr>,
            \<lparr>GenderDistributionData.gender = ''Wanita'',
             GenderDistributionData.count = wanita_count,
             GenderDistributionData.percentage = wanita_percentage\<rparr>], g1)
   }"

text \<open>3.4 Distribusi Stasiun Asal.\<close>

fun origin_station_distribution_loop :: "(string \<times> int) list \<Rightarrow> int \<Rightarrow> rng \<Rightarrow> (OriginStationData list \<times> rng) option" where
  "origin_station_distribution_loop [] total_passengers' g = Some ([], g)"
| "origin_station_distribution_loop ((station', base_count) # stations) total_passengers' g = do {
     let (count, g1) = generate_daily_data base_count (float_literal 2 1) g;
     percentage \<leftarrow> percentage_of count total_passengers' 1;
     (rest, g2) \<leftarrow> origin_station_distribution_loop stations total_passengers' g1;
     Some (\<lparr>OriginStationData.station = station', OriginStationData.count = count,
            OriginStationData.percentage = percentage\<rparr> # rest, g2)
   }"

text \<open>
  The summary. One term of the sum for \<^verbatim>\<open>avg_age\<close>: the mean of the two numbers of
  a label that has a hyphen, and the int 60 for any other label.
\<close>

definition age_midpoint :: "string \<Rightarrow> py_number option" where
  "age_midpoint age_range' =
     (if CHR ''-'' \<in> set age_range' then do {
        lower_text \<leftarrow> index (split age_range' CHR ''-'') 0;
        lower \<leftarrow> int_of_str lower_text;
        upper_text \<leftarrow> index (split age_range' CHR ''-'') 1;
        upper_bound \<leftarrow> int_of_str upper_text;
        midpoint \<leftarrow> int_truediv (lower + upper_bound) 2;
        Some (PyFloat midpoint)
      }
      else Some (PyInt 60))"

definition demografi_summary ::
  "int \<Rightarrow> (string \<times> int) list \<Rightarrow> AgeDistributionData list
     \<Rightarrow> OccupationDistributionData list \<Rightarrow> OriginStationData list
     \<Rightarrow> DemografiSummary option" where
  "demografi_summary total_passengers' age_ranges age_distribution' occupation_distribution'
       origin_station_distribution' = do {
     midpoints \<leftarrow> those (map (\<lambda>(age_range', base_count). age_midpoint age_range') age_ranges);
     avg_age \<leftarrow> sum_truediv (py_sum midpoints) (int (length age_ranges));
     let productive_age = sum_list (map AgeDistributionData.count
           (filter (\<lambda>a. AgeDistributionData.age_range a \<in> set [''25-34'', ''35-44''])
              age_distribution'));
     let workers = sum_list (map OccupationDistributionData.count
           (filter (\<lambda>ocp. OccupationDistributionData.occupation ocp
                        \<in> set [''Karyawan Swasta'', ''PNS/BUMN''])
              occupation_distribution'));
     productive_age_percentage \<leftarrow> percentage_of productive_age total_passengers' 1;
     worker_percentage \<leftarrow> percentage_of workers total_passengers' 1;
     dominant \<leftarrow> max_by OriginStationData.count origin_station_distribution';
     Some \<lparr>average_age = py_round avg_age 1,
           productive_age_passengers = productive_age,
           productive_age_percentage = productive_age_percentage,
           worker_passengers = workers,
           worker_percentage = worker_percentage,
           dominant_origin_station = OriginStationData.station dominant\<rparr>
   }"

definition get_demografi :: "string \<Rightarrow> rng \<Rightarrow> string option \<Rightarrow> DemografiResponse option" where
  "get_demografi today g date' = do {
     let target_date = date_or date' (get_date today);
     let (total_passengers, g1) = randint 3500 5000 g;
     let (age_ranges, g2) = labelled_randints
           [(''18-24'', 300, 500), (''25-34'', 800, 1200), (''35-44'', 1000, 1500),
            (''45-54'', 700, 1000), (''55+'', 200, 400)] g1;
     (age_distribution, g3) \<leftarrow> age_distribution_loop age_ranges total_passengers g2;
     let (occupations, g4) = labelled_randints
           [(''Karyawan Swasta'', 1500, 2200), (''PNS/BUMN'', 600, 900),
            (''Pelajar/Mahasiswa'', 400, 700), (''Wiraswasta'', 500, 800),
            (''Wisatawan'', 100, 300)] g3;
     (occupation_distribution, g5) \<leftarrow>
        occupation_distribution_loop occupations total_passengers g4;
     (gender_distribution, g6) \<leftarrow> gender_distribution_of total_passengers g5;
     let (stations, g7) = labelled_randints
           [(''Bekasi'', 700, 1000), (''Cikarang'', 400, 600), (''Depok'', 500, 700),
            (''Bogor'', 400, 600), (''Tangerang'', 300, 500), (''Sudirman'', 300, 500),
            (''Karet'', 300, 500), (''Pasar Minggu'', 100, 300),
            (''Tanah Abang'', 200, 400)] g6;
     (origin_station_distribution, g8) \<leftarrow>
        origin_station_distribution_loop stations total_passengers g7;
     summary \<leftarrow> demografi_summary total_passengers age_ranges age_distribution
                  occupation_distribution origin_station_distribution;
     Some \<lparr>DemografiResponse.date = target_date,
           DemografiResponse.total_passengers = total_passengers,
           DemografiResponse.age_distribution = age_distribution,
           DemografiResponse.occupation_distribution = occupation_distribution,
           DemografiResponse.gender_distribution = gender_distribution,
           DemografiResponse.origin_station_distribution = origin_station_distribution,
           DemografiResponse.summary = summary\<rparr>
   }"

section \<open>Kategori 4: Segmentasi Perjalanan\<close>

record OriginDistributionData =
  station :: string
  count :: int
  percentage :: rat

record DirectionDistributionData =
  direction :: string
  count :: int
  percentage :: rat

record TimeTravelData =
  time_segment :: string
  count :: int
  percentage :: rat

record SegmentasiPerjalananSummary =
  top_origin_station :: string
  top_origin_count :: int
  top_origin_percentage :: rat
  dominant_direction :: string
  dominant_time_segment :: string
  dominant_time_percentage :: rat

record SegmentasiPerjalananResponse =
  date :: string
  total_transactions :: int
  origin_distribution :: "OriginDistributionData list"
  direction_distribution :: "DirectionDistributionData list"
  time_travel_distribution :: "TimeTravelData list"
  summary :: SegmentasiPerjalananSummary

text \<open>4.1 Distribusi Stasiun Awal.\<close>

fun origin_distribution_loop :: "(string \<times> int) list \<Rightarrow> int \<Rightarrow> rng \<Rightarrow> (OriginDistributionData list \<times> rng) option" where
  "origin_distribution_loop [] total_transactions' g = Some ([], g)"
| "origin_distribution_loop ((station', base_count) # stations) total_transactions' g = do {
     let (count, g1) = generate_daily_data base_count (float_literal 2 1) g;
     percentage \<leftarrow> percentage_of count total_transactions' 1;
     (rest, g2) \<leftarrow> origin_distribution_loop stations total_transactions' g1;
     Some (\<lparr>OriginDistributionData.station = station', OriginDistributionData.count = count,
            OriginDistributionData.percentage = percentage\<rparr> # rest, g2)
   }"

text \<open>4.2 Direction Distribution: the count of OUT is what IN leaves of the total.\<close>

definition direction_distribution_of :: "int \<Rightarrow> rng \<Rightarrow> (DirectionDistributionData list \<times> rng) option" where
  "direction_distribution_of total_transactions' g = do {
     let (in_count, g1) = generate_daily_data
           (py_int (fmul (float_of_int total_transactions') (float_literal 51 2)))
           (float_literal 3 2) g;
     let out_count = total_transactions' - in_count;
     in_percentage \<leftarrow> percentage_of in_count total_transactions' 1;
     out_percentage \<leftarrow> percentage_of out_count total_transactions' 1;
     Some ([\<lparr>DirectionDistributionData.direction = ''IN'',
             DirectionDistributionData.count = in_count,
             DirectionDistributionData.percentage = in_percentage\<rparr>,
            \<lparr>DirectionDistributionData.direction = ''OUT'',
             DirectionDistributionData.count = out_count,
             DirectionDistributionData.percentage = out_percentage\<rparr>], g1)
   }"

text \<open>
  4.3 Waktu Perjalanan: the three records are built with percentage 0, and a loop then
  stores each percentage.
\<close>

definition time_travel_distribution_of :: "rng \<Rightarrow> TimeTravelData list \<times> rng" where
  "time_travel_distribution_of g =
     (let (morning_base, g1) = randint 1200 1800 g;
          (evening_base, g2) = randint 1200 1800 g1;
          (off_peak_base, g3) = randint 600 1000 g2;
          (morning_count, g4) = generate_daily_data morning_base (float_literal 15 2) g3;
          (evening_count, g5) = generate_daily_data evening_base (float_literal 15 2) g4;
          (off_peak_count, g6) = generate_daily_data off_peak_base (float_literal 2 1) g5
      in ([\<lparr>TimeTravelData.time_segment = ''Morning (07:00-09:00)'',
             TimeTravelData.count = morning_count, TimeTravelData.percentage = 0\<rparr>,
           \<lparr>TimeTravelData.time_segment = ''Evening (16:00-19:00)'',
             TimeTravelData.count = evening_count, TimeTravelData.percentage = 0\<rparr>,
           \<lparr>TimeTravelData.time_segment = ''Off-Peak'',
             TimeTravelData.count = off_peak_count, TimeTravelData.percentage = 0\<rparr>], g6))"

fun time_percentages_loop :: "TimeTravelData list \<Rightarrow> int \<Rightarrow> TimeTravelData list option" where
  "time_percentages_loop [] total_transactions' = Some []"
| "time_percentages_loop (tt # tts) total_transactions' = do {
     p \<leftarrow> percentage_of (TimeTravelData.count tt) total_transactions' 1;
     rest \<leftarrow> time_percentages_loop tts total_transactions';
     Some (tt\<lparr>TimeTravelData.percentage := p\<rparr> # rest)
   }"

definition segmentasi_perjalanan_summary ::
  "OriginDistributionData list \<Rightarrow> DirectionDistributionData list \<Rightarrow> TimeTravelData list
     \<Rightarrow> SegmentasiPerjalananSummary option" where
  "segmentasi_perjalanan_summary origin_distribution' direction_distribution'
       time_travel_distribution' = do {
     top_origin \<leftarrow> max_by OriginDistributionData.count origin_distribution';
     dominant_direction' \<leftarrow> max_by DirectionDistributionData.count direction_distribution';
     dominant_time \<leftarrow> max_by TimeTravelData.count time_travel_distribution';
     Some \<lparr>top_origin_station = OriginDistributionData.station top_origin,
           top_origin_count = OriginDistributionData.count top_origin,
           top_origin_percentage = OriginDistributionData.percentage top_origin,
           dominant_direction = DirectionDistributionData.direction dominant_direction',
           dominant_time_segment = TimeTravelData.time_segment dominant_time,
           dominant_time_percentage = TimeTravelData.percentage dominant_time\<rparr>
   }"

definition get_segmentasi_perjalanan ::
  "string \<Rightarrow> rng \<Rightarrow> string option \<Rightarrow> SegmentasiPerjalananResponse option" where
  "get_segmentasi_perjalanan today g date' = do {
     let target_date = date_or date' (get_date today);
     let (total_transactions, g1) = randint 4000 6000 g;
     let (stations, g2) = labelled_randints
           [(''Bekasi'', 700, 1000), (''Cikarang'', 400, 600), (''Depok'', 500, 700),
            (''Bogor'', 400, 600), (''Tangerang'', 300, 500), (''Sudirman'', 300, 500),
            (''Karet'', 300, 500), (''Pasar Minggu'', 100, 300),
            (''Tanah Abang'', 200, 400)] g1;
     (origin_distribution, g3) \<leftarrow> origin_distribution_loop stations total_transactions g2;
     (direction_distribution, g4) \<leftarrow> direction_distribution_of total_transactions g3;
     let (time_travel_initial, g5) = time_travel_distribution_of g4;
     time_travel_distribution \<leftarrow> time_percentages_loop time_travel_initial total_transactions;
     summary \<leftarrow> segmentasi_perjalanan_summary origin_distribution direction_distribution
                  time_travel_distribution;
     Some \<lparr>SegmentasiPerjalananResponse.date = target_date,
           SegmentasiPerjalananResponse.total_transactions = total_transactions,
           SegmentasiPerjalananResponse.origin_distribution = origin_distribution,
           SegmentasiPerjalananResponse.direction_distribution = direction_distribution,
           SegmentasiPerjalananResponse.time_travel_distribution = time_travel_distribution,
           SegmentasiPerjalananResponse.summary = summary\<rparr>
   }"

section \<open>Kategori 5: Segmentasi Loyalitas\<close>

record LoyaltySegmentData =
  segment :: string
  count :: int
  percentage :: rat
  min_freq :: int
  max_freq :: int

record LoyaltyByOccupationData =
  occupation :: string
  avg_frequency :: rat
  count :: int

record SegmentasiLoyaltasSummary =
  high_loyalty_count :: int
  high_loyalty_percentage :: rat
  loyal_workers_count :: int
  loyal_workers_percentage :: rat
  most_loyal_occupation :: string
  most_loyal_occupation_avg_freq :: rat

record SegmentasiLoyaltasResponse =
  date :: string
  total_passengers :: int
  loyalty_segments :: "LoyaltySegmentData list"
  loyalty_by_occupation :: "LoyaltyByOccupationData list"
  summary :: SegmentasiLoyaltasSummary

text \<open>
  5.2 Segmentasi Loyaltas: the three records are built with percentage 0. The name of the
  first segment has the sign for "greater or equal" (U+2265), written here as the three
  bytes of its UTF-8 encoding.
\<close>

definition loyalty_segments_of :: "rng \<Rightarrow> LoyaltySegmentData list \<times> rng" where
  "loyalty_segments_of g =
     (let (high_base, g1) = randint 1200 1800 g;
          (medium_base, g2) = randint 1000 1500 g1;
          (low_base, g3) = randint 800 1200 g2;
          (high_count, g4) = generate_daily_data high_base (float_literal 15 2) g3;
          (medium_count, g5) = generate_daily_data medium_base (float_literal 15 2) g4;
          (low_count, g6) = generate_daily_data low_base (float_literal 2 1) g5
      in ([\<lparr>LoyaltySegmentData.segment =
               ''High Loyalty ('' @ [CHR 0xE2, CHR 0x89, CHR 0xA5] @ ''12x)'',
             LoyaltySegmentData.count = high_count, LoyaltySegmentData.percentage = 0,
             LoyaltySegmentData.min_freq = 12, LoyaltySegmentData.max_freq = 14\<rparr>,
           \<lparr>LoyaltySegmentData.segment = ''Medium Loyalty (7-11x)'',
             LoyaltySegmentData.count = medium_count, LoyaltySegmentData.percentage = 0,
             LoyaltySegmentData.min_freq = 7, LoyaltySegmentData.max_freq = 11\<rparr>,
           \<lparr>LoyaltySegmentData.segment = ''Low Loyalty (<7x)'',
             LoyaltySegmentData.count = low_count, LoyaltySegmentData.percentage = 0,
             LoyaltySegmentData.min_freq = 1, LoyaltySegmentData.max_freq = 6\<rparr>], g6))"

text \<open>
  The percentages: \<^verbatim>\<open>total_loyalty\<close> is the sum of the counts of the segments, and the
  loop stores each segment's share of it.
\<close>

fun loyalty_percentages_loop :: "LoyaltySegmentData list \<Rightarrow> int \<Rightarrow> LoyaltySegmentData list option" where
  "loyalty_percentages_loop [] total_loyalty = Some []"
| "loyalty_percentages_loop (ls # lss) total_loyalty = do {
     p \<leftarrow> percentage_of (LoyaltySegmentData.count ls) total_loyalty 1;
     rest \<leftarrow> loyalty_percentages_loop lss total_loyalty;
     Some (ls\<lparr>LoyaltySegmentData.percentage := p\<rparr> # rest)
   }"

definition loyalty_percentages :: "LoyaltySegmentData list \<Rightarrow> LoyaltySegmentData list option" where
  "loyalty_percentages loyalty_segments' =
     (let total_loyalty = sum_list (map LoyaltySegmentData.count loyalty_segments')
      in loyalty_percentages_loop loyalty_segments' total_loyalty)"

text \<open>
  5.3 Loyaltas berdasarkan Pekerjaan. The list literal \<^verbatim>\<open>occupations_base\<close> has
  triples \<^verbatim>\<open>(label, round(random.uniform(lo, hi), 1), random.randint(a, b))\<close>.
\<close>

fun occupations_base_of :: "(string \<times> rat \<times> rat \<times> int \<times> int) list \<Rightarrow> rng \<Rightarrow> (string \<times> rat \<times> int) list \<times> rng" where
  "occupations_base_of [] g = ([], g)"
| "occupations_base_of ((label, lo, hi, a, b) # entries) g =
     (let (u, g1) = uniform lo hi g;
          (n, g2) = randint a b g1;
          (rest, g3) = occupations_base_of entries g2
      in ((label, py_round u 1, n) # rest, g3))"

fun loyalty_by_occupation_loop :: "(string \<times> rat \<times> int) list \<Rightarrow> rng \<Rightarrow> LoyaltyByOccupationData list \<times> rng" where
  "loyalty_by_occupation_loop [] g = ([], g)"
| "loyalty_by_occupation_loop ((occupation', avg_freq, base_count) # entries) g =
     (let (u, g1) = uniform (- float_literal 5 1) (float_literal 5 1) g;
          (count, g2) = generate_daily_data base_count (float_literal 1 1) g1;
          (rest, g3) = loyalty_by_occupation_loop entries g2
      in (\<lparr>LoyaltyByOccupationData.occupation = occupation',
           LoyaltyByOccupationData.avg_frequency = py_round (fadd avg_freq u) 1,
           LoyaltyByOccupationData.count = count\<rparr> # rest, g3))"

definition segmentasi_loyaltas_summary ::
  "int \<Rightarrow> LoyaltySegmentData list \<Rightarrow> LoyaltyByOccupationData list
     \<Rightarrow> SegmentasiLoyaltasSummary option" where
  "segmentasi_loyaltas_summary total_passengers' loyalty_segments' loyalty_by_occupation' = do {
     high_loyalty \<leftarrow> next_where (\<lambda>ls. contains (LoyaltySegmentData.segment ls) ''High'')
                       loyalty_segments';
     let loyal_workers = sum_list (map LoyaltyByOccupationData.count
           (filter (\<lambda>lo. LoyaltyByOccupationData.occupation lo
                       \<in> set [''Karyawan Swasta'', ''PNS/BUMN''])
              loyalty_by_occupation'));
     most_loyal \<leftarrow> max_by LoyaltyByOccupationData.avg_frequency loyalty_by_occupation';
     loyal_workers_percentage \<leftarrow> percentage_of loyal_workers total_passengers' 1;
     Some \<lparr>high_loyalty_count = LoyaltySegmentData.count high_loyalty,
           high_loyalty_percentage = LoyaltySegmentData.percentage high_loyalty,
           loyal_workers_count = loyal_workers,
           loyal_workers_percentage = loyal_workers_percentage,
           most_loyal_occupation = LoyaltyByOccupationData.occupation most_loyal,
           most_loyal_occupation_avg_freq = LoyaltyByOccupationData.avg_frequency most_loyal\<rparr>
   }"

definition get_segmentasi_loyaltas ::
  "string \<Rightarrow> rng \<Rightarrow> string option \<Rightarrow> SegmentasiLoyaltasResponse option" where
  "get_segmentasi_loyaltas today g date' = do {
     let target_date = date_or date' (get_date today);
     let (total_passengers, g1) = randint 3500 5000 g;
     let (loyalty_initial, g2) = loyalty_segments_of g1;
     loyalty_segments \<leftarrow> loyalty_percentages loyalty_initial;
     let (occupations_base, g3) = occupations_base_of
           [(''Karyawan Swasta'', float_literal 80 1, float_literal 100 1, 1500, 2200),
            (''PNS/BUMN'', float_literal 85 1, float_literal 105 1, 600, 900),
            (''Pelajar/Mahasiswa'', float_literal 50 1, float_literal 70 1, 400, 700),
            (''Wiraswasta'', float_literal 60 1, float_literal 80 1, 500, 800),
            (''Wisatawan'', float_literal 20 1, float_literal 40 1, 100, 300)] g2;
     let (loyalty_by_occupation, g4) = loyalty_by_occupation_loop occupations_base g3;
     summary \<leftarrow> segmentasi_loyaltas_summary total_passengers loyalty_segments
                  loyalty_by_occupation;
     Some \<lparr>SegmentasiLoyaltasResponse.date = target_date,
           SegmentasiLoyaltasResponse.total_passengers = total_passengers,
           SegmentasiLoyaltasResponse.loyalty_segments = loyalty_segments,
           SegmentasiLoyaltasResponse.loyalty_by_occupation = loyalty_by_occupation,
           SegmentasiLoyaltasResponse.summary = summary\<rparr>
   }"

section \<open>Kategori Korelasi Behavior\<close>

record AgeLoyaltyCorrelationData =
  age :: int
  avg_loyalty_frequency :: rat
  count :: int

record HourGenderData =
  hour :: int
  pria_count :: int
  wanita_count :: int
  pria_percentage :: rat
  wanita_percentage :: rat

record OccupationZonePreferenceData =
  occupation :: string
  north_count :: int
  west_count :: int
  preference :: string

record BehaviorCorrelationSummary =
  age_loyalty_insight :: string
  young_avg_loyalty :: rat
  senior_avg_loyalty :: rat
  dominant_gender_morning :: string
  dominant_gender_evening :: string
  strong_zone_preference_count :: int

record BehaviorCorrelationResponse =
  date :: string
  age_loyalty_correlation :: "AgeLoyaltyCorrelationData list"
  hour_gender_distribution :: "HourGenderData list"
  occupation_zone_preference :: "OccupationZonePreferenceData list"
  summary :: BehaviorCorrelationSummary

text \<open>6.1 Usia vs Frekuensi Loyalty.\<close>

definition age_groups :: "(int \<times> rat) list" where
  "age_groups = [(22, float_literal 65 1), (28, float_literal 72 1), (35, float_literal 85 1),
                 (45, float_literal 90 1), (55, float_literal 70 1)]"

fun age_loyalty_loop :: "(int \<times> rat) list \<Rightarrow> rng \<Rightarrow> AgeLoyaltyCorrelationData list \<times> rng" where
  "age_loyalty_loop [] g = ([], g)"
| "age_loyalty_loop ((age', base_freq) # groups) g =
     (let (base_count, g1) = randint 400 800 g;
          (count, g2) = generate_daily_data base_count (float_literal 2 1) g1;
          (u, g3) = uniform (- float_literal 10 1) (float_literal 10 1) g2;
          avg_freq = py_round (fadd base_freq u) 1;
          (rest, g4) = age_loyalty_loop groups g3
      in (\<lparr>AgeLoyaltyCorrelationData.age = age',
           AgeLoyaltyCorrelationData.avg_loyalty_frequency = avg_freq,
           AgeLoyaltyCorrelationData.count = count\<rparr> # rest, g4))"

text \<open>6.2 Distribusi Gender per Jam: the loop over \<^verbatim>\<open>range(6, 23)\<close>.\<close>

fun hour_gender_loop :: "int list \<Rightarrow> rng \<Rightarrow> (HourGenderData list \<times> rng) option" where
  "hour_gender_loop [] g = Some ([], g)"
| "hour_gender_loop (h # hours) g = do {
     let (base_count, g1) = randint 50 600 g;
     let (pria_pct, g2) =
           (if 6 \<le> h \<and> h \<le> 11
            then (let (u, g') = uniform (- float_literal 5 2) (float_literal 5 2) g1
                  in (fadd (float_literal 55 2) u, g'))
            else if 16 \<le> h \<and> h \<le> 19
            then (let (u, g') = uniform (- float_literal 5 2) (float_literal 5 2) g1
                  in (fadd (float_literal 45 2) u, g'))
            else (let (u, g') = uniform (- float_literal 5 2) (float_literal 5 2) g1
                  in (fadd (float_literal 50 2) u, g')));
     let (total_count, g3) = generate_daily_data base_count (float_literal 15 2) g2;
     let pria_count = py_int (fmul (float_of_int total_count) pria_pct);
     let wanita_count = total_count - pria_count;
     pria_percentage \<leftarrow> percentage_of pria_count total_count 1;
     wanita_percentage \<leftarrow> percentage_of wanita_count total_count 1;
     (rest, g4) \<leftarrow> hour_gender_loop hours g3;
     Some (\<lparr>HourGenderData.hour = h, pria_count = pria_count, wanita_count = wanita_count,
            pria_percentage = pria_percentage,
            wanita_percentage = wanita_percentage\<rparr> # rest, g4)
   }"

text \<open>6.3 Preferensi Zone berdasarkan Pekerjaan.\<close>

definition occupation_zone_base :: "(string \<times> rat \<times> rat) list" where
  "occupation_zone_base =
     [(''Karyawan Swasta'', float_literal 52 2, float_literal 48 2),
      (''PNS/BUMN'', float_literal 60 2, float_literal 40 2),
      (''Pelajar/Mahasiswa'', float_literal 48 2, float_literal 52 2),
      (''Wiraswasta'', float_literal 50 2, float_literal 50 2),
      (''Wisatawan'', float_literal 35 2, float_literal 65 2)]"

fun occupation_zone_loop :: "(string \<times> rat \<times> rat) list \<Rightarrow> rng \<Rightarrow> OccupationZonePreferenceData list \<times> rng" where
  "occupation_zone_loop [] g = ([], g)"
| "occupation_zone_loop ((occupation', north_ratio, west_ratio) # entries) g =
     (let (base_count, g1) = randint 200 1000 g;
          (total_count, g2) = generate_daily_data base_count (float_literal 2 1) g1;
          north_count = py_int (fmul (float_of_int total_count) north_ratio);
          west_count = total_count - north_count;
          pref = (if float_literal 55 2 < north_ratio then ''North''
                  else if float_literal 55 2 < west_ratio then ''West''
                  else ''Neutral'');
          (rest, g3) = occupation_zone_loop entries g2
      in (\<lparr>OccupationZonePreferenceData.occupation = occupation',
           north_count = north_count, west_count = west_count,
           preference = pref\<rparr> # rest, g3))"

text \<open>
  The totals of the loop above, one for each pass:
  \<^verbatim>\<open>total = generate_daily_data(random.randint(200, 1000), 0.2)\<close>. It is the list of
  the values that this expression takes in \<open>n\<close> successive passes that start from
  the supply \<open>g\<close>; nothing else in the loop draws.
\<close>

fun drawn_zone_totals :: "nat \<Rightarrow> rng \<Rightarrow> int list" where
  "drawn_zone_totals 0 g = []"
| "drawn_zone_totals (Suc n) g =
     (let (base_count, g1) = randint 200 1000 g;
          (total_count, g2) = generate_daily_data base_count (float_literal 2 1) g1
      in total_count # drawn_zone_totals n g2)"

text \<open>
  The summary. \<open>weighted_average\<close> is the computation that the source writes out
  twice, for the slices \<^verbatim>\<open>[:2]\<close> and \<^verbatim>\<open>[3:]\<close>: the sum of frequency times
  count, divided by the sum of the counts when that is positive, and the int 0 otherwise.
  The two dominant genders are read at the fixed positions 1 and 14 of the hourly list.
\<close>

definition weighted_average :: "AgeLoyaltyCorrelationData list \<Rightarrow> rat option" where
  "weighted_average items =
     (let avg_loyalty = py_sum (map (\<lambda>item. PyFloat
             (fmul (AgeLoyaltyCorrelationData.avg_loyalty_frequency item)
                   (float_of_int (AgeLoyaltyCorrelationData.count item)))) items);
          avg_count = sum_list (map AgeLoyaltyCorrelationData.count items)
      in if 0 < avg_count then sum_truediv avg_loyalty avg_count
         else Some 0)"

definition behavior_correlation_summary ::
  "AgeLoyaltyCorrelationData list \<Rightarrow> HourGenderData list
     \<Rightarrow> OccupationZonePreferenceData list \<Rightarrow> BehaviorCorrelationSummary option" where
  "behavior_correlation_summary age_loyalty_correlation' hour_gender_distribution'
       occupation_zone_preference' = do {
     young_avg \<leftarrow> weighted_average (take 2 age_loyalty_correlation');
     senior_avg \<leftarrow> weighted_average (drop 3 age_loyalty_correlation');
     morning \<leftarrow> index hour_gender_distribution' 1;
     evening \<leftarrow> index hour_gender_distribution' 14;
     Some \<lparr>age_loyalty_insight = (if young_avg < senior_avg then ''Positif''
                                  else ''Negatif/Netral''),
           young_avg_loyalty = py_round young_avg 1,
           senior_avg_loyalty = py_round senior_avg 1,
           dominant_gender_morning = (if 50 < pria_percentage morning then ''Pria''
                                      else ''Wanita''),
           dominant_gender_evening = (if 50 < pria_percentage evening then ''Pria''
                                      else ''Wanita''),
           strong_zone_preference_count =
             int (length (filter (\<lambda>item. preference item \<noteq> ''Neutral'')
                    occupation_zone_preference'))\<rparr>
   }"

definition get_behavior_correlation ::
  "string \<Rightarrow> rng \<Rightarrow> string option \<Rightarrow> BehaviorCorrelationResponse option" where
  "get_behavior_correlation today g date' = do {
     let target_date = date_or date' (get_date today);
     let (age_loyalty_correlation, g1) = age_loyalty_loop age_groups g;
     (hour_gender_distribution, g2) \<leftarrow> hour_gender_loop [6..22] g1;
     let (occupation_zone_preference, g3) = occupation_zone_loop occupation_zone_base g2;
     summary \<leftarrow> behavior_correlation_summary age_loyalty_correlation
                  hour_gender_distribution occupation_zone_preference;
     Some \<lparr>BehaviorCorrelationResponse.date = target_date,
           age_loyalty_correlation = age_loyalty_correlation,
           hour_gender_distribution = hour_gender_distribution,
           occupation_zone_preference = occupation_zone_preference,
           BehaviorCorrelationResponse.summary = summary\<rparr>
   }"

section \<open>Properties of the float model and of the random draws\<close>

lemma ilog2_bounds:
  assumes "0 < x"
  shows "power_int 2 (ilog2 x) \<le> x" and "x < power_int 2 (ilog2 x + 1)"
proof -
  obtain p q where pq: "quotient_of x = (p, q)" by force
  have q: "0 < q" using pq by (rule quotient_of_denom_pos)
  have x: "x = of_int p / of_int q" using pq by (rule quotient_of_div)
  have p: "0 < p" using assms q x by (simp add: zero_less_divide_iff)
  define P where "P = bitlen p"
  define Q where "Q = bitlen q"
  have "bitlen p \<noteq> 0" using p by (simp add: bitlen_eq_zero_iff)
  then have P1: "1 \<le> P" using bitlen_nonneg[of p] unfolding P_def by linarith
  have "bitlen q \<noteq> 0" using q by (simp add: bitlen_eq_zero_iff)
  then have Q1: "1 \<le> Q" using bitlen_nonneg[of q] unfolding Q_def by linarith
  have pb: "(2::int) ^ nat (P - 1) \<le> p" "p < 2 ^ nat P"
    using bitlen_bounds[OF p] by (simp_all add: P_def)
  have qb: "(2::int) ^ nat (Q - 1) \<le> q" "q < 2 ^ nat Q"
    using bitlen_bounds[OF q] by (simp_all add: Q_def)
  have pl: "power_int 2 (P - 1) \<le> (of_int p :: rat)"
  proof -
    have "(of_int ((2::int) ^ nat (P - 1)) :: rat) \<le> of_int p" using pb(1) by (simp only: of_int_le_iff)
    then show ?thesis using P1 by (simp add: power_int_def)
  qed
  have pu: "(of_int p :: rat) < power_int 2 P"
  proof -
    have "(of_int p :: rat) < of_int ((2::int) ^ nat P)" using pb(2) by (simp only: of_int_less_iff)
    then show ?thesis using P1 by (simp add: power_int_def)
  qed
  have ql: "power_int 2 (Q - 1) \<le> (of_int q :: rat)"
  proof -
    have "(of_int ((2::int) ^ nat (Q - 1)) :: rat) \<le> of_int q" using qb(1) by (simp only: of_int_le_iff)
    then show ?thesis using Q1 by (simp add: power_int_def)
  qed
  have qu: "(of_int q :: rat) < power_int 2 Q"
  proof -
    have "(of_int q :: rat) < of_int ((2::int) ^ nat Q)" using qb(2) by (simp only: of_int_less_iff)
    then show ?thesis using Q1 by (simp add: power_int_def)
  qed
  have qpos: "(0::rat) < of_int q" using q by simp
  have ppos: "(0::rat) < of_int p" using p by simp
  have two: "\<And>n. (0::rat) < power_int 2 n" by (simp add: power_int_def)
  have up: "x < power_int 2 (P - Q + 1)"
  proof -
    have "x * of_int q = of_int p" using x qpos by simp
    also have "\<dots> < power_int 2 P" by (rule pu)
    also have "\<dots> = power_int 2 (P - Q + 1) * power_int 2 (Q - 1)"
      by (simp add: power_int_add[symmetric])
    also have "\<dots> \<le> power_int 2 (P - Q + 1) * of_int q"
      using ql two[of "P - Q + 1"] by (simp add: mult_left_mono)
    finally show ?thesis using qpos by simp
  qed
  have lo: "power_int 2 (P - Q - 1) < x"
  proof -
    have "(power_int 2 (P - Q - 1) :: rat) * of_int q < power_int 2 (P - Q - 1) * power_int 2 Q"
      using qu two[of "P - Q - 1"] by (simp add: mult_strict_left_mono)
    also have "\<dots> = power_int 2 (P - 1)" by (simp add: power_int_add[symmetric])
    also have "\<dots> \<le> of_int p" by (rule pl)
    also have "\<dots> = x * of_int q" using x qpos by simp
    finally show ?thesis using qpos by simp
  qed
  have e: "ilog2 x = (if power_int 2 (P - Q) \<le> x then P - Q else P - Q - 1)"
    by (simp add: ilog2_def pq P_def Q_def Let_def)
  show "power_int 2 (ilog2 x) \<le> x" using lo by (simp add: e)
  show "x < power_int 2 (ilog2 x + 1)" using up by (auto simp add: e not_le)
qed


lemma ilog2_mono:
  assumes "0 < x" "x \<le> y"
  shows "ilog2 x \<le> ilog2 y"
proof -
  have "(power_int 2 (ilog2 x) :: rat) < power_int 2 (ilog2 y + 1)"
    using ilog2_bounds(1)[OF assms(1)] ilog2_bounds(2)[of y] assms by linarith
  then have "\<not> ilog2 y + 1 \<le> ilog2 x"
    using power_int_increasing[of "ilog2 y + 1" "ilog2 x" "2::rat"] by auto
  then show ?thesis by simp
qed

lemma round_half_even_cases:
  "round_half_even x = \<lfloor>x\<rfloor> \<or> round_half_even x = \<lfloor>x\<rfloor> + 1"
  by (simp add: round_half_even_def Let_def)

lemma round_half_even_of_int [simp]: "round_half_even (of_int n) = n"
  by (simp add: round_half_even_def)

lemma round_half_even_mono:
  assumes "x \<le> y"
  shows "round_half_even x \<le> round_half_even y"
proof (cases "\<lfloor>x\<rfloor> = \<lfloor>y\<rfloor>")
  case True
  then show ?thesis using assms
    by (auto simp add: round_half_even_def Let_def)
next
  case False
  then have "\<lfloor>x\<rfloor> < \<lfloor>y\<rfloor>" using floor_mono[OF assms] by linarith
  moreover have "round_half_even x \<le> \<lfloor>x\<rfloor> + 1" using round_half_even_cases[of x] by auto
  moreover have "\<lfloor>y\<rfloor> \<le> round_half_even y" using round_half_even_cases[of y] by auto
  ultimately show ?thesis by linarith
qed

lemma round_half_even_minus: "round_half_even (- x) = - round_half_even x"
proof (cases "x \<in> \<int>")
  case True
  then obtain n where "x = of_int n" by (auto elim: Ints_cases)
  then show ?thesis by (simp add: round_half_even_def flip: of_int_minus)
next
  case False
  have ne: "x \<noteq> of_int \<lfloor>x\<rfloor>"
  proof
    assume "x = of_int \<lfloor>x\<rfloor>"
    then have "x \<in> \<int>" by (metis Ints_of_int)
    then show False using False by simp
  qed
  then have f: "\<lfloor>- x\<rfloor> = - \<lfloor>x\<rfloor> - 1"
    by (simp add: floor_minus ceiling_altdef)
  have fr: "x - of_int \<lfloor>x\<rfloor> \<noteq> 0" using ne by simp
  show ?thesis using fr
    by (auto simp add: round_half_even_def Let_def f)
qed


lemma pow2_mult: "a + b = c \<Longrightarrow> (power_int 2 a :: rat) * power_int 2 b = power_int 2 c"
  by (auto simp add: power_int_add)

lemma pow2_div: "a - b = c \<Longrightarrow> (power_int 2 a :: rat) / power_int 2 b = power_int 2 c"
  by (auto simp add: power_int_diff)

lemma binary64_minus: "binary64 (- x) = - binary64 x"
  by (simp add: binary64_def Let_def round_half_even_minus)

lemma round_half_even_nonneg: "0 \<le> x \<Longrightarrow> 0 \<le> round_half_even x"
  using round_half_even_mono[of 0 x] round_half_even_of_int[of 0] by simp

lemma binary64_nonneg:
  assumes "0 \<le> x"
  shows "0 \<le> binary64 x"
proof (cases "x = 0")
  case True
  then show ?thesis by (simp add: binary64_def)
next
  case False
  define e where "e = max (ilog2 \<bar>x\<bar>) (- 1022)"
  define u :: rat where "u = power_int 2 (e - 52)"
  have u: "0 < u" by (simp add: u_def power_int_def)
  have "0 \<le> x / u" using assms u by simp
  then have "0 \<le> round_half_even (x / u)" by (rule round_half_even_nonneg)
  then have "0 \<le> of_int (round_half_even (x / u)) * u" using u by simp
  then show ?thesis using False by (simp add: binary64_def Let_def e_def u_def)
qed

lemma binary64_mono_pos:
  assumes "0 < x" "x \<le> y"
  shows "binary64 x \<le> binary64 y"
proof -
  have y: "0 < y" using assms by simp
  define ex where "ex = max (ilog2 x) (- 1022)"
  define ey where "ey = max (ilog2 y) (- 1022)"
  define ux :: rat where "ux = power_int 2 (ex - 52)"
  define uy :: rat where "uy = power_int 2 (ey - 52)"
  have ux: "0 < ux" and uy: "0 < uy" by (simp_all add: ux_def uy_def power_int_def)
  have rx: "binary64 x = of_int (round_half_even (x / ux)) * ux"
    using assms(1) by (simp add: binary64_def Let_def ex_def ux_def)
  have ry: "binary64 y = of_int (round_half_even (y / uy)) * uy"
    using y by (simp add: binary64_def Let_def ey_def uy_def)
  have le: "ex \<le> ey" using ilog2_mono[OF assms] by (simp add: ex_def ey_def)
  show ?thesis
  proof (cases "ex = ey")
    case True
    then have "ux = uy" by (simp add: ux_def uy_def)
    moreover have "x / uy \<le> y / uy" using assms(2) uy by (simp add: divide_right_mono)
    then have "round_half_even (x / uy) \<le> round_half_even (y / uy)" by (rule round_half_even_mono)
    ultimately show ?thesis using uy by (simp add: rx ry)
  next
    case False
    then have lt: "ex + 1 \<le> ey" using le by simp
    then have ey: "ey = ilog2 y" by (auto simp add: ey_def ex_def max_def split: if_splits)
    have "x < power_int 2 (ilog2 x + 1)" using ilog2_bounds(2)[OF assms(1)] .
    also have "\<dots> \<le> power_int 2 (ex + 1)"
      by (rule power_int_increasing) (simp_all add: ex_def)
    finally have "x / ux \<le> power_int 2 (ex + 1) / ux" using ux by (simp add: divide_right_mono)
    also have "power_int 2 (ex + 1) / ux = power_int 2 53"
      unfolding ux_def by (rule pow2_div) simp
    also have "\<dots> = of_int (2 ^ 53)" by simp
    finally have "round_half_even (x / ux) \<le> round_half_even (of_int (2 ^ 53))"
      by (rule round_half_even_mono)
    then have "round_half_even (x / ux) \<le> 2 ^ 53" by (simp only: round_half_even_of_int)
    then have "(of_int (round_half_even (x / ux)) :: rat) \<le> of_int (2 ^ 53)"
      by (simp only: of_int_le_iff)
    then have "binary64 x \<le> of_int (2 ^ 53) * ux" using ux by (simp add: rx)
    also have "\<dots> = power_int 2 53 * power_int 2 (ex - 52)" by (simp add: ux_def)
    also have "\<dots> = power_int 2 (ex + 1)"
      by (rule pow2_mult) simp
    also have "\<dots> \<le> power_int 2 ey" using lt by (intro power_int_increasing) simp_all
    finally have upper: "binary64 x \<le> power_int 2 ey" .
    have "power_int 2 ey \<le> y" using ilog2_bounds(1)[OF y] by (simp add: ey)
    then have "power_int 2 ey / uy \<le> y / uy" using uy by (simp add: divide_right_mono)
    moreover have "power_int 2 ey / uy = power_int 2 52"
      unfolding uy_def by (rule pow2_div) simp
    moreover have "(power_int 2 52 :: rat) = of_int (2 ^ 52)" by simp
    ultimately have "of_int (2 ^ 52) \<le> y / uy" by simp
    then have "round_half_even (of_int (2 ^ 52)) \<le> round_half_even (y / uy)"
      by (rule round_half_even_mono)
    then have "2 ^ 52 \<le> round_half_even (y / uy)" by (simp only: round_half_even_of_int)
    then have "(of_int (2 ^ 52) :: rat) \<le> of_int (round_half_even (y / uy))"
      by (simp only: of_int_le_iff)
    then have "of_int (2 ^ 52) * uy \<le> binary64 y" using uy by (simp add: ry)
    moreover have "of_int (2 ^ 52) * uy = power_int 2 52 * power_int 2 (ey - 52)"
      by (simp add: uy_def)
    moreover have "power_int 2 52 * power_int 2 (ey - 52) = (power_int 2 ey :: rat)"
      by (rule pow2_mult) simp
    ultimately have "power_int 2 ey \<le> binary64 y" by simp
    with upper show ?thesis by simp
  qed
qed

lemma binary64_mono:
  assumes "x \<le> y"
  shows "binary64 x \<le> binary64 y"
proof -
  consider "0 < x" | "x \<le> 0" "0 \<le> y" | "y < 0" by linarith
  then show ?thesis
  proof cases
    case 1
    then show ?thesis using assms by (rule binary64_mono_pos)
  next
    case 2
    have "binary64 (- x) \<ge> 0" using 2(1) by (intro binary64_nonneg) simp
    then have "binary64 x \<le> 0" by (simp add: binary64_minus)
    moreover have "0 \<le> binary64 y" using 2(2) by (rule binary64_nonneg)
    ultimately show ?thesis by simp
  next
    case 3
    have "binary64 (- y) \<le> binary64 (- x)"
      using 3 assms by (intro binary64_mono_pos) simp_all
    then show ?thesis by (simp add: binary64_minus)
  qed
qed


lemma binary64_quarter: "binary64 (1/4) = 1/4" by code_simp
lemma binary64_three_quarters: "binary64 (3/4) = 3/4" by code_simp
lemma binary64_one: "binary64 1 = 1" by code_simp
lemma binary64_two: "binary64 2 = 2" by code_simp
lemma binary64_three_halves: "binary64 (3/2) = 3/2" by code_simp

lemma float_literal_bounds:
  assumes "0 \<le> m" "of_int m / 10 ^ k \<le> (1/4 :: rat)"
  shows "0 \<le> float_literal m k" and "float_literal m k \<le> 1/4"
proof -
  show "0 \<le> float_literal m k"
    unfolding float_literal_def using assms(1) by (intro binary64_nonneg) simp
  have "binary64 (of_int m / 10 ^ k) \<le> binary64 (1/4)" using assms(2) by (rule binary64_mono)
  then show "float_literal m k \<le> 1/4" by (simp add: float_literal_def binary64_quarter)
qed

lemma py_random_nonneg: "0 \<le> fst (py_random g)"
  by (simp add: py_random_def Let_def split_beta)

lemma uniform_lower:
  assumes "0 \<le> v" "v \<le> 1/4"
  shows "- (1/4) \<le> fst (uniform (- v) v g)"
proof -
  define r where "r = fst (py_random g)"
  have r: "0 \<le> r" unfolding r_def by (rule py_random_nonneg)
  have "0 \<le> fsub v (- v)" unfolding fsub_def using assms by (intro binary64_nonneg) simp
  then have "0 \<le> fsub v (- v) * r" using r by simp
  then have t: "0 \<le> fmul (fsub v (- v)) r" unfolding fmul_def by (rule binary64_nonneg)
  have "binary64 (- (1/4)) \<le> binary64 (- v + fmul (fsub v (- v)) r)"
    using assms t by (intro binary64_mono) simp
  then have "- (1/4) \<le> fadd (- v) (fmul (fsub v (- v)) r)"
    by (simp add: fadd_def binary64_minus binary64_quarter)
  then show ?thesis by (simp add: uniform_def split_beta Let_def r_def)
qed

lemma generate_daily_data_pos:
  assumes "0 \<le> v" "v \<le> 1/4" "2 \<le> b"
  shows "1 \<le> fst (generate_daily_data b v g)"
proof -
  define u where "u = fst (uniform (- v) v g)"
  have u: "- (1/4) \<le> u" unfolding u_def using assms(1,2) by (rule uniform_lower)
  have "binary64 (3/4) \<le> binary64 (1 + u)" using u by (intro binary64_mono) simp
  then have a: "3/4 \<le> fadd 1 u" by (simp add: fadd_def binary64_three_quarters)
  have "binary64 2 \<le> binary64 (of_int b)" using assms(3) by (intro binary64_mono) simp
  then have b: "2 \<le> float_of_int b" by (simp add: float_of_int_def binary64_two)
  have "2 * (3/4) \<le> float_of_int b * fadd 1 u"
    using a b by (intro mult_mono) simp_all
  then have "binary64 (3/2) \<le> binary64 (float_of_int b * fadd 1 u)"
    by (intro binary64_mono) simp
  then have "3/2 \<le> fmul (float_of_int b) (fadd 1 u)"
    by (simp add: fmul_def binary64_three_halves)
  then have "1 \<le> py_int (fmul (float_of_int b) (fadd 1 u))"
    by (simp add: py_int_def le_floor_iff)
  then show ?thesis by (simp add: generate_daily_data_def split_beta Let_def u_def)
qed

lemma randint_bounds:
  assumes "a \<le> b"
  shows "a \<le> fst (randint a b g)" and "fst (randint a b g) \<le> b"
proof -
  obtain k g' where k: "next_raw g = (k, g')" by force
  have "0 \<le> k mod (b - a + 1)" using assms by (intro pos_mod_sign) simp
  moreover have "k mod (b - a + 1) < b - a + 1" using assms by (intro pos_mod_bound) simp
  ultimately show "a \<le> fst (randint a b g)" and "fst (randint a b g) \<le> b"
    by (simp_all add: randint_def k)
qed

lemma float_of_int_pos: "1 \<le> n \<Longrightarrow> 1 \<le> float_of_int n"
proof -
  assume "1 \<le> n"
  then have "binary64 1 \<le> binary64 (of_int n)" by (intro binary64_mono) simp
  then show ?thesis by (simp add: float_of_int_def binary64_one)
qed

section \<open>Operational Efficiency: every run returns a report\<close>

lemma int_truediv_Some: "b \<noteq> 0 \<Longrightarrow> int_truediv a b = Some (binary64 (of_int a / of_int b))"
  by (simp add: int_truediv_def)

lemma percentage_of_Some:
  "whole \<noteq> 0 \<Longrightarrow> \<exists>p. percentage_of part whole n = Some p"
  by (simp add: percentage_of_def int_truediv_def)

lemma gate_loop_run:
  assumes "T \<noteq> 0"
  shows "\<exists>gs g'. gate_loop z is T g = Some (gs, g')
           \<and> map GateUtilizationData.zone gs = replicate (length is) z
           \<and> list_all (\<lambda>x. 1 \<le> GateUtilizationData.count x) gs
           \<and> list_all (\<lambda>x. Some (GateUtilizationData.utilization_rate x) =
                 map_option (\<lambda>q. py_round (fmul q (float_of_int 100)) 2)
                   (int_truediv (GateUtilizationData.count x) T)) gs"
proof (induction "is" arbitrary: g)
  case Nil
  show ?case by simp
next
  case (Cons i "is")
  obtain b g1 where b: "(if z = ''North'' then randint 450 650 g else randint 400 600 g) = (b, g1)"
    by force
  have b2: "2 \<le> b"
    using b randint_bounds(1)[of 450 650 g] randint_bounds(1)[of 400 600 g]
    by (auto split: if_splits)
  obtain c g2 where c: "generate_daily_data b (float_literal 2 1) g1 = (c, g2)" by force
  have v: "0 \<le> float_literal 2 1" "float_literal 2 1 \<le> 1/4"
    by (rule float_literal_bounds; simp)+
  have c1: "1 \<le> c" using generate_daily_data_pos[OF v b2, of g1] c by simp
  from Cons.IH[of g2] obtain gs g3 where
    r: "gate_loop z is T g2 = Some (gs, g3)"
    and rz: "map GateUtilizationData.zone gs = replicate (length is) z"
    and rc: "list_all (\<lambda>x. 1 \<le> GateUtilizationData.count x) gs"
    and ru: "list_all (\<lambda>x. Some (GateUtilizationData.utilization_rate x) =
                 map_option (\<lambda>q. py_round (fmul q (float_of_int 100)) 2)
                   (int_truediv (GateUtilizationData.count x) T)) gs"
    by blast
  show ?case
    using assms c1 rz rc ru b c r
    by (simp add: int_truediv_Some)
qed

lemma gate_utilization_loop_run:
  assumes "T \<noteq> 0"
  shows "\<exists>gs g'. gate_utilization_loop zs T g = Some (gs, g')
           \<and> map GateUtilizationData.zone gs = concat (map (replicate 4) zs)
           \<and> list_all (\<lambda>x. 1 \<le> GateUtilizationData.count x) gs
           \<and> list_all (\<lambda>x. Some (GateUtilizationData.utilization_rate x) =
                 map_option (\<lambda>q. py_round (fmul q (float_of_int 100)) 2)
                   (int_truediv (GateUtilizationData.count x) T)) gs"
proof (induction zs arbitrary: g)
  case Nil
  show ?case by simp
next
  case (Cons z zs)
  have len: "length [1..4::int] = 4" by simp
  from gate_loop_run[OF assms, of z "[1..4]" g] obtain gs g1 where
    a: "gate_loop z [1..4] T g = Some (gs, g1)"
    and az: "map GateUtilizationData.zone gs = replicate 4 z"
    and ac: "list_all (\<lambda>x. 1 \<le> GateUtilizationData.count x) gs"
    and au: "list_all (\<lambda>x. Some (GateUtilizationData.utilization_rate x) =
                 map_option (\<lambda>q. py_round (fmul q (float_of_int 100)) 2)
                   (int_truediv (GateUtilizationData.count x) T)) gs"
    unfolding len by blast
  from Cons.IH[of g1] obtain rest g2 where
    r: "gate_utilization_loop zs T g1 = Some (rest, g2)"
    and rz: "map GateUtilizationData.zone rest = concat (map (replicate 4) zs)"
    and rc: "list_all (\<lambda>x. 1 \<le> GateUtilizationData.count x) rest"
    and ru: "list_all (\<lambda>x. Some (GateUtilizationData.utilization_rate x) =
                 map_option (\<lambda>q. py_round (fmul q (float_of_int 100)) 2)
                   (int_truediv (GateUtilizationData.count x) T)) rest"
    by blast
  have "gate_utilization_loop (z # zs) T g = Some (gs @ rest, g2)"
    by (simp only: gate_utilization_loop.simps a r bind.bind_lunit prod.case)
  then show ?case using az ac au rz rc ru by simp
qed

lemma traffic_by_zone_of_run:
  assumes "T \<noteq> 0"
  shows "\<exists>pn pw. traffic_by_zone_of T gs = Some
     [\<lparr>TrafficZoneData.zone = ''TAP-NORTH'',
       TrafficZoneData.count = sum_list (map GateUtilizationData.count
           (filter (\<lambda>g. GateUtilizationData.zone g = ''North'') gs)),
       TrafficZoneData.percentage = pn\<rparr>,
      \<lparr>TrafficZoneData.zone = ''TAP-WEST'',
       TrafficZoneData.count = sum_list (map GateUtilizationData.count
           (filter (\<lambda>g. GateUtilizationData.zone g = ''West'') gs)),
       TrafficZoneData.percentage = pw\<rparr>]"
  using assms by (simp add: traffic_by_zone_of_def percentage_of_def int_truediv_def Let_def)

lemma direction_loop_run:
  assumes "TrafficZoneData.count zd \<noteq> 0"
  shows "\<exists>rs g'. direction_loop zd zn ds g = Some (rs, g')
          \<and> map DirectionBalanceData.direction rs = ds
          \<and> map DirectionBalanceData.zone rs = replicate (length ds) zn"
proof (induction ds arbitrary: g)
  case Nil
  show ?case by simp
next
  case (Cons d ds)
  obtain u g1 where u: "uniform (float_literal 45 2) (float_literal 55 2) g = (u, g1)" by force
  from Cons.IH[of g1] obtain rs g2 where
    r: "direction_loop zd zn ds g1 = Some (rs, g2)"
    and rd: "map DirectionBalanceData.direction rs = ds"
    and rz: "map DirectionBalanceData.zone rs = replicate (length ds) zn"
    by blast
  show ?case using assms u r rd rz
    by (simp add: percentage_of_def int_truediv_def Let_def)
qed

lemma balance_direction_loop_run:
  assumes "list_all (\<lambda>z. TrafficZoneData.count z \<noteq> 0) zs"
  shows "\<exists>rs g'. balance_direction_loop zs g = Some (rs, g')
          \<and> map DirectionBalanceData.direction rs = concat (map (\<lambda>z. [''IN'', ''OUT'']) zs)
          \<and> map DirectionBalanceData.zone rs =
               concat (map (\<lambda>z. replicate 2 (replace (TrafficZoneData.zone z) ''TAP-'' [])) zs)"
  using assms
proof (induction zs arbitrary: g)
  case Nil
  show ?case by simp
next
  case (Cons z zs)
  have z: "TrafficZoneData.count z \<noteq> 0" using Cons.prems by simp
  have len2: "length [''IN'', ''OUT''] = 2" by simp
  from direction_loop_run[OF z, of "replace (TrafficZoneData.zone z) ''TAP-'' []" "[''IN'', ''OUT'']" g]
  obtain rs g1 where
    a: "direction_loop z (replace (TrafficZoneData.zone z) ''TAP-'' []) [''IN'', ''OUT''] g = Some (rs, g1)"
    and ad: "map DirectionBalanceData.direction rs = [''IN'', ''OUT'']"
    and az: "map DirectionBalanceData.zone rs = replicate 2 (replace (TrafficZoneData.zone z) ''TAP-'' [])"
    unfolding len2 by (elim exE conjE) (rule that; assumption)
  have "list_all (\<lambda>z. TrafficZoneData.count z \<noteq> 0) zs" using Cons.prems by simp
  from Cons.IH[OF this, of g1] obtain rest g2 where
    r: "balance_direction_loop zs g1 = Some (rest, g2)"
    and rd: "map DirectionBalanceData.direction rest = concat (map (\<lambda>z. [''IN'', ''OUT'']) zs)"
    and rz: "map DirectionBalanceData.zone rest =
               concat (map (\<lambda>z. replicate 2 (replace (TrafficZoneData.zone z) ''TAP-'' [])) zs)"
    by blast
  have "balance_direction_loop (z # zs) g = Some (rs @ rest, g2)"
    by (simp only: balance_direction_loop.simps Let_def a r bind.bind_lunit prod.case)
  then show ?case using ad az rd rz by simp
qed

lemma max_by_Some: "xs \<noteq> [] \<Longrightarrow> \<exists>x. max_by key xs = Some x"
  by (cases xs) (simp_all add: max_by_def)

lemma float_truediv_Some: "y \<noteq> 0 \<Longrightarrow> float_truediv x y = Some (binary64 (x / y))"
  by (simp add: float_truediv_def)

lemma sum_truediv_Some:
  assumes "1 \<le> n"
  shows "\<exists>q. sum_truediv s n = Some q"
proof -
  have "1 \<le> float_of_int n" using assms by (rule float_of_int_pos)
  then have "float_of_int n \<noteq> 0" by simp
  then show ?thesis using assms
    by (cases s) (simp_all add: sum_truediv_def int_truediv_def float_truediv_def)
qed

lemma operational_efficiency_summary_run:
  assumes "T \<noteq> 0" "gs \<noteq> []" "tz \<noteq> []"
  shows "\<exists>s. operational_efficiency_summary T tph gs tz = Some s"
proof -
  have "1 \<le> int (length gs)" using assms(2) by (cases gs) simp_all
  then obtain q where q: "sum_truediv
      (py_sum (map (\<lambda>g. PyFloat (GateUtilizationData.utilization_rate g)) gs))
      (int (length gs)) = Some q"
    using sum_truediv_Some by blast
  obtain bg where bg: "max_by GateUtilizationData.count gs = Some bg"
    using max_by_Some[OF assms(2)] by blast
  obtain bz where bz: "max_by TrafficZoneData.count tz = Some bz"
    using max_by_Some[OF assms(3)] by blast
  show ?thesis using assms(1) q bg bz
    by (simp add: operational_efficiency_summary_def Let_def
        percentage_of_def int_truediv_def)
qed

lemma get_operational_efficiency_run:
  obtains r g1 g2 g3 g4 where
    "\<And>today d. get_operational_efficiency today g d =
       Some (r\<lparr>OperationalEfficiencyResponse.date := date_or d (get_date today)\<rparr>)"
    "randint 4000 6000 g = (OperationalEfficiencyResponse.total_transactions r, g1)"
    "4000 \<le> OperationalEfficiencyResponse.total_transactions r" "OperationalEfficiencyResponse.total_transactions r \<le> 6000"
    "traffic_per_hour_loop [6..22] g1 = (OperationalEfficiencyResponse.traffic_per_hour r, g2)"
    "gate_utilization_loop [''North'', ''West''] (OperationalEfficiencyResponse.total_transactions r) g2 =
       Some (gate_utilization r, g3)"
    "map GateUtilizationData.zone (gate_utilization r) =
       [''North'', ''North'', ''North'', ''North'', ''West'', ''West'', ''West'', ''West'']"
    "list_all (\<lambda>x. 1 \<le> GateUtilizationData.count x) (gate_utilization r)"
    "list_all (\<lambda>x. Some (GateUtilizationData.utilization_rate x) =
        map_option (\<lambda>q. py_round (fmul q (float_of_int 100)) 2)
          (int_truediv (GateUtilizationData.count x) (OperationalEfficiencyResponse.total_transactions r)))
       (gate_utilization r)"
    "traffic_by_zone_of (OperationalEfficiencyResponse.total_transactions r) (gate_utilization r) = Some (traffic_by_zone r)"
    "map TrafficZoneData.zone (traffic_by_zone r) = [''TAP-NORTH'', ''TAP-WEST'']"
    "map TrafficZoneData.count (traffic_by_zone r) =
       [sum_list (map GateUtilizationData.count
          (filter (\<lambda>x. GateUtilizationData.zone x = ''North'') (gate_utilization r))),
        sum_list (map GateUtilizationData.count
          (filter (\<lambda>x. GateUtilizationData.zone x = ''West'') (gate_utilization r)))]"
    "list_all (\<lambda>z. 4 \<le> TrafficZoneData.count z) (traffic_by_zone r)"
    "balance_direction_loop (traffic_by_zone r) g3 = Some (balance_direction r, g4)"
    "operational_efficiency_summary (OperationalEfficiencyResponse.total_transactions r) (OperationalEfficiencyResponse.traffic_per_hour r)
       (gate_utilization r) (traffic_by_zone r) = Some (OperationalEfficiencyResponse.summary r)"
proof -
  obtain T g1 where T: "randint 4000 6000 g = (T, g1)" by force
  have Tb: "4000 \<le> T" "T \<le> 6000"
    using randint_bounds[of 4000 6000 g] T by simp_all
  then have T0: "T \<noteq> 0" by simp
  obtain tph g2 where tph: "traffic_per_hour_loop [6..22] g1 = (tph, g2)" by force
  from gate_utilization_loop_run[OF T0, of "[''North'', ''West'']" g2] obtain gs g3 where
    gs: "gate_utilization_loop [''North'', ''West''] T g2 = Some (gs, g3)"
    and gz: "map GateUtilizationData.zone gs = concat (map (replicate 4) [''North'', ''West''])"
    and gc: "list_all (\<lambda>x. 1 \<le> GateUtilizationData.count x) gs"
    and gu: "list_all (\<lambda>x. Some (GateUtilizationData.utilization_rate x) =
        map_option (\<lambda>q. py_round (fmul q (float_of_int 100)) 2)
          (int_truediv (GateUtilizationData.count x) T)) gs"
    by (elim exE conjE)
  have gz': "map GateUtilizationData.zone gs =
       [''North'', ''North'', ''North'', ''North'', ''West'', ''West'', ''West'', ''West'']"
    using gz by (simp add: numeral_eq_Suc)
  define nc where "nc = sum_list (map GateUtilizationData.count
             (filter (\<lambda>g. GateUtilizationData.zone g = ''North'') gs))"
  define wc where "wc = sum_list (map GateUtilizationData.count
             (filter (\<lambda>g. GateUtilizationData.zone g = ''West'') gs))"
  obtain a1 a2 a3 a4 b1 b2 b3 b4 where gl: "gs = [a1, a2, a3, a4, b1, b2, b3, b4]"
    and gzs: "GateUtilizationData.zone a1 = ''North''" "GateUtilizationData.zone a2 = ''North''"
      "GateUtilizationData.zone a3 = ''North''" "GateUtilizationData.zone a4 = ''North''"
      "GateUtilizationData.zone b1 = ''West''" "GateUtilizationData.zone b2 = ''West''"
      "GateUtilizationData.zone b3 = ''West''" "GateUtilizationData.zone b4 = ''West''"
    using gz' by (auto simp add: map_eq_Cons_conv)
  have nc4: "4 \<le> nc" and wc4: "4 \<le> wc"
    using gc by (simp_all add: nc_def wc_def gl gzs)
  from traffic_by_zone_of_run[OF T0, of gs] obtain pn pw where
    tz: "traffic_by_zone_of T gs = Some
       [\<lparr>TrafficZoneData.zone = ''TAP-NORTH'', TrafficZoneData.count = nc,
         TrafficZoneData.percentage = pn\<rparr>,
        \<lparr>TrafficZoneData.zone = ''TAP-WEST'', TrafficZoneData.count = wc,
         TrafficZoneData.percentage = pw\<rparr>]"
    unfolding nc_def wc_def by (elim exE)
  define tzl where "tzl =
       [\<lparr>TrafficZoneData.zone = ''TAP-NORTH'', TrafficZoneData.count = nc,
         TrafficZoneData.percentage = pn\<rparr>,
        \<lparr>TrafficZoneData.zone = ''TAP-WEST'', TrafficZoneData.count = wc,
         TrafficZoneData.percentage = pw\<rparr>]"
  have tzpos: "list_all (\<lambda>z. TrafficZoneData.count z \<noteq> 0) tzl"
    using nc4 wc4 by (simp add: tzl_def)
  from balance_direction_loop_run[OF tzpos, of g3] obtain bd g4 where
    bd: "balance_direction_loop tzl g3 = Some (bd, g4)"
    by (elim exE conjE)
  have gne: "gs \<noteq> []" by (simp add: gl)
  have tne: "tzl \<noteq> []" by (simp add: tzl_def)
  from operational_efficiency_summary_run[OF T0 gne tne, of tph] obtain s where
    s: "operational_efficiency_summary T tph gs tzl = Some s" by (elim exE)
  define r where "r =
       \<lparr>OperationalEfficiencyResponse.date = [],
        OperationalEfficiencyResponse.total_transactions = T,
        OperationalEfficiencyResponse.traffic_per_hour = tph,
        OperationalEfficiencyResponse.gate_utilization = gs,
        OperationalEfficiencyResponse.traffic_by_zone = tzl,
        OperationalEfficiencyResponse.balance_direction = bd,
        OperationalEfficiencyResponse.summary = s\<rparr>"
  have sel: "OperationalEfficiencyResponse.total_transactions r = T"
    "OperationalEfficiencyResponse.traffic_per_hour r = tph" "gate_utilization r = gs"
    "traffic_by_zone r = tzl" "balance_direction r = bd" "OperationalEfficiencyResponse.summary r = s"
    by (simp_all add: r_def)
  have "get_operational_efficiency today g d = Some
       \<lparr>OperationalEfficiencyResponse.date = date_or d (get_date today),
        OperationalEfficiencyResponse.total_transactions = T,
        OperationalEfficiencyResponse.traffic_per_hour = tph,
        OperationalEfficiencyResponse.gate_utilization = gs,
        OperationalEfficiencyResponse.traffic_by_zone = tzl,
        OperationalEfficiencyResponse.balance_direction = bd,
        OperationalEfficiencyResponse.summary = s\<rparr>" for today d
    by (simp only: get_operational_efficiency_def Let_def T tph gs tz[folded tzl_def] bd s
        prod.case bind.bind_lunit)
  then have res: "get_operational_efficiency today g d =
       Some (r\<lparr>OperationalEfficiencyResponse.date := date_or d (get_date today)\<rparr>)" for today d
    by (simp add: r_def)
  show ?thesis
  proof (rule that[of r g1 g2 g3 g4])
    show "list_all (\<lambda>z. 4 \<le> TrafficZoneData.count z) (traffic_by_zone r)"
      using nc4 wc4 by (simp add: sel tzl_def)
    show "map TrafficZoneData.count (traffic_by_zone r) =
       [sum_list (map GateUtilizationData.count
          (filter (\<lambda>x. GateUtilizationData.zone x = ''North'') (gate_utilization r))),
        sum_list (map GateUtilizationData.count
          (filter (\<lambda>x. GateUtilizationData.zone x = ''West'') (gate_utilization r)))]"
      by (simp add: sel tzl_def nc_def wc_def)
    show "map TrafficZoneData.zone (traffic_by_zone r) = [''TAP-NORTH'', ''TAP-WEST'']"
      by (simp add: sel tzl_def)
  qed (simp_all only: sel res T Tb tph gs gz' gc gu tz[folded tzl_def] bd s)
qed

subsection \<open>Gates and zones\<close>

text \<open>
  Claim C10. In every Operational Efficiency report the gate records are four of zone
  North followed by four of zone West, the zone records are TAP-NORTH and TAP-WEST, and
  the count of each zone record is the sum of the counts of the gate records of its zone.
  The report exists for every supply of random outcomes and every date.
\<close>

theorem zone_count_is_sum_of_its_gates:
  "\<exists>r. get_operational_efficiency today g d = Some r
     \<and> map GateUtilizationData.zone (gate_utilization r) =
         [''North'', ''North'', ''North'', ''North'', ''West'', ''West'', ''West'', ''West'']
     \<and> map TrafficZoneData.zone (traffic_by_zone r) = [''TAP-NORTH'', ''TAP-WEST'']
     \<and> map TrafficZoneData.count (traffic_by_zone r) =
         [sum_list (map GateUtilizationData.count
            (filter (\<lambda>x. GateUtilizationData.zone x = ''North'') (gate_utilization r))),
          sum_list (map GateUtilizationData.count
            (filter (\<lambda>x. GateUtilizationData.zone x = ''West'') (gate_utilization r)))]"
proof (rule get_operational_efficiency_run[of g])
  fix r
  assume res: "\<And>today d. get_operational_efficiency today g d =
       Some (r\<lparr>OperationalEfficiencyResponse.date := date_or d (get_date today)\<rparr>)"
    and gz: "map GateUtilizationData.zone (gate_utilization r) =
       [''North'', ''North'', ''North'', ''North'', ''West'', ''West'', ''West'', ''West'']"
    and tzz: "map TrafficZoneData.zone (traffic_by_zone r) = [''TAP-NORTH'', ''TAP-WEST'']"
    and tzc: "map TrafficZoneData.count (traffic_by_zone r) =
       [sum_list (map GateUtilizationData.count
          (filter (\<lambda>x. GateUtilizationData.zone x = ''North'') (gate_utilization r))),
        sum_list (map GateUtilizationData.count
          (filter (\<lambda>x. GateUtilizationData.zone x = ''West'') (gate_utilization r)))]"
  show ?thesis
    by (rule exI, rule conjI, rule res) (simp add: gz tzz tzc)
qed

text \<open>
  Claim C7. In every Operational Efficiency report there are 8 gate records, and the
  utilization rate of each is the value of \<^verbatim>\<open>round(count / total_transactions * 100, 2)\<close>
  on the record's own count and the report's total, exactly.
\<close>

theorem utilization_rate_formula:
  "\<exists>r. get_operational_efficiency today g d = Some r
     \<and> length (gate_utilization r) = 8
     \<and> list_all (\<lambda>x. Some (GateUtilizationData.utilization_rate x) =
           map_option (\<lambda>q. py_round (fmul q (float_of_int 100)) 2)
             (int_truediv (GateUtilizationData.count x) (OperationalEfficiencyResponse.total_transactions r)))
         (gate_utilization r)"
proof (rule get_operational_efficiency_run[of g])
  fix r
  assume res: "\<And>today d. get_operational_efficiency today g d =
       Some (r\<lparr>OperationalEfficiencyResponse.date := date_or d (get_date today)\<rparr>)"
    and gz: "map GateUtilizationData.zone (gate_utilization r) =
       [''North'', ''North'', ''North'', ''North'', ''West'', ''West'', ''West'', ''West'']"
    and gu: "list_all (\<lambda>x. Some (GateUtilizationData.utilization_rate x) =
        map_option (\<lambda>q. py_round (fmul q (float_of_int 100)) 2)
          (int_truediv (GateUtilizationData.count x) (OperationalEfficiencyResponse.total_transactions r)))
       (gate_utilization r)"
  have "length (map GateUtilizationData.zone (gate_utilization r)) = 8" by (simp only: gz) simp
  then have len: "length (gate_utilization r) = 8" by simp
  show ?thesis
    by (rule exI, rule conjI, rule res) (simp add: len gu)
qed

section \<open>Demografi: every run returns a report\<close>

lemma labelled_randints_run:
  assumes "list_all (\<lambda>(l, a, b). 2 \<le> a \<and> a \<le> b) es"
  shows "map fst (fst (labelled_randints es g)) = map fst es
         \<and> list_all (\<lambda>(l, n). 2 \<le> n) (fst (labelled_randints es g))"
  using assms
proof (induction es arbitrary: g)
  case Nil
  show ?case by simp
next
  case (Cons e es)
  obtain l a b where e: "e = (l, a, b)" by (cases e) auto
  have ab: "2 \<le> a" "a \<le> b" and rest: "list_all (\<lambda>(l, a, b). 2 \<le> a \<and> a \<le> b) es"
    using Cons.prems by (simp_all add: e)
  obtain n g1 where n: "randint a b g = (n, g1)" by force
  have n2: "2 \<le> n" using randint_bounds(1)[OF ab(2), of g] ab(1) n by simp
  show ?case using Cons.IH[OF rest, of g1] n2
    by (simp add: e n split_beta)
qed

lemma age_distribution_loop_run:
  assumes "T \<noteq> 0"
  shows "\<exists>rs g'. age_distribution_loop es T g = Some (rs, g')
           \<and> map AgeDistributionData.age_range rs = map fst es"
proof (induction es arbitrary: g)
  case Nil
  show ?case by simp
next
  case (Cons e es)
  obtain l b where e: "e = (l, b)" by (cases e) auto
  obtain c g1 where c: "generate_daily_data b (float_literal 1 1) g = (c, g1)" by force
  from Cons.IH[of g1] obtain rs g2 where
    r: "age_distribution_loop es T g1 = Some (rs, g2)"
    and rl: "map AgeDistributionData.age_range rs = map fst es"
    by blast
  show ?case using assms c r rl
    by (simp add: e percentage_of_def int_truediv_def)
qed

lemma occupation_distribution_loop_run:
  assumes "T \<noteq> 0"
  shows "\<exists>rs g'. occupation_distribution_loop es T g = Some (rs, g')
           \<and> map OccupationDistributionData.occupation rs = map fst es"
proof (induction es arbitrary: g)
  case Nil
  show ?case by simp
next
  case (Cons e es)
  obtain l b where e: "e = (l, b)" by (cases e) auto
  obtain c g1 where c: "generate_daily_data b (float_literal 15 2) g = (c, g1)" by force
  from Cons.IH[of g1] obtain rs g2 where
    r: "occupation_distribution_loop es T g1 = Some (rs, g2)"
    and rl: "map OccupationDistributionData.occupation rs = map fst es"
    by blast
  show ?case using assms c r rl
    by (simp add: e percentage_of_def int_truediv_def)
qed

lemma origin_station_distribution_loop_run:
  assumes "T \<noteq> 0"
  shows "\<exists>rs g'. origin_station_distribution_loop es T g = Some (rs, g')
           \<and> map OriginStationData.station rs = map fst es"
proof (induction es arbitrary: g)
  case Nil
  show ?case by simp
next
  case (Cons e es)
  obtain l b where e: "e = (l, b)" by (cases e) auto
  obtain c g1 where c: "generate_daily_data b (float_literal 2 1) g = (c, g1)" by force
  from Cons.IH[of g1] obtain rs g2 where
    r: "origin_station_distribution_loop es T g1 = Some (rs, g2)"
    and rl: "map OriginStationData.station rs = map fst es"
    by blast
  show ?case using assms c r rl
    by (simp add: e percentage_of_def int_truediv_def)
qed

lemma gender_distribution_of_run:
  assumes "T \<noteq> 0"
  shows "\<exists>rs g'. gender_distribution_of T g = Some (rs, g')
           \<and> map GenderDistributionData.gender rs = [''Pria'', ''Wanita'']
           \<and> sum_list (map GenderDistributionData.count rs) = T"
proof -
  obtain p g1 where p: "generate_daily_data
           (py_int (fmul (float_of_int T) (float_literal 52 2))) (float_literal 5 2) g = (p, g1)"
    by force
  show ?thesis using assms p
    by (simp add: gender_distribution_of_def Let_def percentage_of_def int_truediv_def)
qed

lemma age_midpoints_of_labels:
  "those (map age_midpoint [''18-24'', ''25-34'', ''35-44'', ''45-54'', ''55+''])
     = Some [PyFloat ((18 + 24) / 2), PyFloat ((25 + 34) / 2), PyFloat ((35 + 44) / 2),
             PyFloat ((45 + 54) / 2), PyInt 60]"
  by code_simp

lemma average_of_midpoints:
  "sum_truediv
     (py_sum [PyFloat ((18 + 24) / 2), PyFloat ((25 + 34) / 2), PyFloat ((35 + 44) / 2),
              PyFloat ((45 + 54) / 2), PyInt 60])
     5 = Some (float_literal 399 1)"
  by code_simp

text \<open>
  Every partial sum of the five midpoints is a float, so the compensation stays zero: the
  sum is 199.5, and the sum from the left without compensation (CPython up to 3.11) is the
  same number.
\<close>

lemma sum_of_midpoints:
  "py_sum [PyFloat ((18 + 24) / 2), PyFloat ((25 + 34) / 2), PyFloat ((35 + 44) / 2),
           PyFloat ((45 + 54) / 2), PyInt 60] = PyFloat (399 / 2)"
  by code_simp

lemma sum_of_midpoints_from_the_left:
  "fadd (fadd (fadd (fadd (fadd (float_of_int 0) ((18 + 24) / 2)) ((25 + 34) / 2))
      ((35 + 44) / 2)) ((45 + 54) / 2)) (float_of_int 60) = 399 / 2"
  by code_simp

lemma round_of_average: "py_round (float_literal 399 1) 1 = float_literal 399 1"
  by code_simp

lemma demografi_summary_run:
  assumes "T \<noteq> 0" "osd \<noteq> []"
    and "map fst age_ranges = [''18-24'', ''25-34'', ''35-44'', ''45-54'', ''55+'']"
  shows "\<exists>s. demografi_summary T age_ranges ad od osd = Some s
           \<and> average_age s = float_literal 399 1"
proof -
  have m: "map (\<lambda>(age_range', base_count). age_midpoint age_range') age_ranges
            = map age_midpoint (map fst age_ranges)"
    by (simp add: split_beta)
  have "length (map fst age_ranges) = 5" by (simp only: assms(3)) simp
  then have len: "int (length age_ranges) = 5" by simp
  obtain dom where dom: "max_by OriginStationData.count osd = Some dom"
    using max_by_Some[OF assms(2)] by blast
  define pa where "pa = sum_list (map AgeDistributionData.count
           (filter (\<lambda>a. AgeDistributionData.age_range a \<in> set [''25-34'', ''35-44'']) ad))"
  define wk where "wk = sum_list (map OccupationDistributionData.count
           (filter (\<lambda>ocp. OccupationDistributionData.occupation ocp
                        \<in> set [''Karyawan Swasta'', ''PNS/BUMN'']) od))"
  obtain pp where pp: "percentage_of pa T 1 = Some pp"
    using percentage_of_Some[OF assms(1)] by blast
  obtain wp where wp: "percentage_of wk T 1 = Some wp"
    using percentage_of_Some[OF assms(1)] by blast
  have mids: "those (map (\<lambda>(age_range', base_count). age_midpoint age_range') age_ranges)
     = Some [PyFloat ((18 + 24) / 2), PyFloat ((25 + 34) / 2), PyFloat ((35 + 44) / 2),
             PyFloat ((45 + 54) / 2), PyInt 60]"
    unfolding m assms(3) by (rule age_midpoints_of_labels)
  have avg: "sum_truediv
       (py_sum [PyFloat ((18 + 24) / 2), PyFloat ((25 + 34) / 2), PyFloat ((35 + 44) / 2),
                PyFloat ((45 + 54) / 2), PyInt 60])
       (int (length age_ranges)) = Some (float_literal 399 1)"
    unfolding len by (rule average_of_midpoints)
  have "demografi_summary T age_ranges ad od osd = Some
     \<lparr>average_age = py_round (float_literal 399 1) 1,
      productive_age_passengers = pa,
      productive_age_percentage = pp,
      worker_passengers = wk,
      worker_percentage = wp,
      dominant_origin_station = OriginStationData.station dom\<rparr>"
    by (simp only: demografi_summary_def Let_def mids avg pp[unfolded pa_def] wp[unfolded wk_def]
        dom bind.bind_lunit pa_def wk_def)
  then show ?thesis by (simp only: round_of_average) simp
qed

lemma get_demografi_run:
  obtains r where
    "\<And>today d. get_demografi today g d =
       Some (r\<lparr>DemografiResponse.date := date_or d (get_date today)\<rparr>)"
    "3500 \<le> DemografiResponse.total_passengers r"
    "DemografiResponse.total_passengers r \<le> 5000"
    "map GenderDistributionData.gender (gender_distribution r) = [''Pria'', ''Wanita'']"
    "sum_list (map GenderDistributionData.count (gender_distribution r)) =
       DemografiResponse.total_passengers r"
    "average_age (DemografiResponse.summary r) = float_literal 399 1"
proof -
  obtain T g1 where T: "randint 3500 5000 g = (T, g1)" by force
  have Tb: "3500 \<le> T" "T \<le> 5000"
    using randint_bounds[of 3500 5000 g] T by simp_all
  then have T0: "T \<noteq> 0" by simp
  define age_entries where "age_entries =
           [(''18-24'', 300::int, 500::int), (''25-34'', 800, 1200), (''35-44'', 1000, 1500),
            (''45-54'', 700, 1000), (''55+'', 200, 400)]"
  define occ_entries where "occ_entries =
           [(''Karyawan Swasta'', 1500::int, 2200::int), (''PNS/BUMN'', 600, 900),
            (''Pelajar/Mahasiswa'', 400, 700), (''Wiraswasta'', 500, 800),
            (''Wisatawan'', 100, 300)]"
  define st_entries where "st_entries =
           [(''Bekasi'', 700::int, 1000::int), (''Cikarang'', 400, 600), (''Depok'', 500, 700),
            (''Bogor'', 400, 600), (''Tangerang'', 300, 500), (''Sudirman'', 300, 500),
            (''Karet'', 300, 500), (''Pasar Minggu'', 100, 300),
            (''Tanah Abang'', 200, 400)]"
  obtain ars g2 where ars: "labelled_randints age_entries g1 = (ars, g2)" by force
  have "list_all (\<lambda>(l, a, b). 2 \<le> a \<and> a \<le> b) age_entries" by (simp add: age_entries_def)
  from labelled_randints_run[OF this, of g1]
  have "map fst ars = map fst age_entries" by (simp only: ars fst_conv)
  then have arl: "map fst ars = [''18-24'', ''25-34'', ''35-44'', ''45-54'', ''55+'']"
    by (simp add: age_entries_def)
  from age_distribution_loop_run[OF T0, of ars g2] obtain ad g3 where
    ad: "age_distribution_loop ars T g2 = Some (ad, g3)" by (elim exE conjE)
  obtain ocs g4 where ocs: "labelled_randints occ_entries g3 = (ocs, g4)" by force
  from occupation_distribution_loop_run[OF T0, of ocs g4] obtain od g5 where
    od: "occupation_distribution_loop ocs T g4 = Some (od, g5)" by (elim exE conjE)
  from gender_distribution_of_run[OF T0, of g5] obtain gd g6 where
    gd: "gender_distribution_of T g5 = Some (gd, g6)"
    and gdl: "map GenderDistributionData.gender gd = [''Pria'', ''Wanita'']"
    and gds: "sum_list (map GenderDistributionData.count gd) = T"
    by (elim exE conjE)
  obtain sts g7 where sts: "labelled_randints st_entries g6 = (sts, g7)" by force
  have "list_all (\<lambda>(l, a, b). 2 \<le> a \<and> a \<le> b) st_entries" by (simp add: st_entries_def)
  from labelled_randints_run[OF this, of g6]
  have stl: "map fst sts = map fst st_entries" by (simp only: sts fst_conv)
  from origin_station_distribution_loop_run[OF T0, of sts g7] obtain osd g8 where
    osd: "origin_station_distribution_loop sts T g7 = Some (osd, g8)"
    and osl: "map OriginStationData.station osd = map fst sts"
    by (elim exE conjE)
  have "length (map OriginStationData.station osd) = 9"
    by (simp only: osl stl) (simp add: st_entries_def)
  then have osne: "osd \<noteq> []" by auto
  from demografi_summary_run[OF T0 osne arl, of ad od] obtain s where
    s: "demografi_summary T ars ad od osd = Some s"
    and sa: "average_age s = float_literal 399 1"
    by (elim exE conjE)
  define r where "r =
       \<lparr>DemografiResponse.date = [],
        DemografiResponse.total_passengers = T,
        DemografiResponse.age_distribution = ad,
        DemografiResponse.occupation_distribution = od,
        DemografiResponse.gender_distribution = gd,
        DemografiResponse.origin_station_distribution = osd,
        DemografiResponse.summary = s\<rparr>"
  have "get_demografi today g d = Some
       \<lparr>DemografiResponse.date = date_or d (get_date today),
        DemografiResponse.total_passengers = T,
        DemografiResponse.age_distribution = ad,
        DemografiResponse.occupation_distribution = od,
        DemografiResponse.gender_distribution = gd,
        DemografiResponse.origin_station_distribution = osd,
        DemografiResponse.summary = s\<rparr>" for today d
    by (simp only: get_demografi_def Let_def T ars[unfolded age_entries_def] ad
        ocs[unfolded occ_entries_def] od gd sts[unfolded st_entries_def] osd s
        prod.case bind.bind_lunit)
  then have res: "get_demografi today g d =
       Some (r\<lparr>DemografiResponse.date := date_or d (get_date today)\<rparr>)" for today d
    by (simp add: r_def)
  show ?thesis
    by (rule that[of r]) (simp_all add: res r_def Tb gdl gds sa)
qed

text \<open>
  Claim C5. In every Demographics report the average age of the summary is the float
  39.9, whatever the random outcomes: it is the mean of the five midpoints of the
  age-range labels (60 for the label without a hyphen), none weighted by a count, rounded
  to one decimal.
\<close>

theorem average_age_is_constant:
  "(\<exists>r. get_demografi today g d = Some r
      \<and> average_age (DemografiResponse.summary r) = float_literal 399 1)
   \<and> those (map age_midpoint [''18-24'', ''25-34'', ''35-44'', ''45-54'', ''55+''])
       = Some [PyFloat ((18 + 24) / 2), PyFloat ((25 + 34) / 2), PyFloat ((35 + 44) / 2),
             PyFloat ((45 + 54) / 2), PyInt 60]
   \<and> map_option (\<lambda>avg_age. py_round avg_age 1)
        (sum_truediv
           (py_sum [PyFloat ((18 + 24) / 2), PyFloat ((25 + 34) / 2),
                    PyFloat ((35 + 44) / 2), PyFloat ((45 + 54) / 2), PyInt 60])
           5)
       = Some (float_literal 399 1)"
proof (rule get_demografi_run[of g])
  fix r
  assume res: "\<And>today d. get_demografi today g d =
       Some (r\<lparr>DemografiResponse.date := date_or d (get_date today)\<rparr>)"
    and sa: "average_age (DemografiResponse.summary r) = float_literal 399 1"
  have a: "\<exists>r. get_demografi today g d = Some r
      \<and> average_age (DemografiResponse.summary r) = float_literal 399 1"
    by (rule exI, rule conjI, rule res) (simp add: sa)
  have c: "map_option (\<lambda>avg_age. py_round avg_age 1)
        (sum_truediv
           (py_sum [PyFloat ((18 + 24) / 2), PyFloat ((25 + 34) / 2),
                    PyFloat ((35 + 44) / 2), PyFloat ((45 + 54) / 2), PyInt 60])
           5)
       = Some (float_literal 399 1)"
    by (simp only: average_of_midpoints option.map round_of_average)
  show ?thesis by (rule conjI[OF a conjI[OF age_midpoints_of_labels c]])
qed

section \<open>Segmentasi Perjalanan: every run returns a report\<close>

lemma origin_distribution_loop_run:
  assumes "T \<noteq> 0"
  shows "\<exists>rs g'. origin_distribution_loop es T g = Some (rs, g')
           \<and> map OriginDistributionData.station rs = map fst es"
proof (induction es arbitrary: g)
  case Nil
  show ?case by simp
next
  case (Cons e es)
  obtain l b where e: "e = (l, b)" by (cases e) auto
  obtain c g1 where c: "generate_daily_data b (float_literal 2 1) g = (c, g1)" by force
  from Cons.IH[of g1] obtain rs g2 where
    r: "origin_distribution_loop es T g1 = Some (rs, g2)"
    and rl: "map OriginDistributionData.station rs = map fst es"
    by blast
  show ?case using assms c r rl
    by (simp add: e percentage_of_def int_truediv_def)
qed

lemma direction_distribution_of_run:
  assumes "T \<noteq> 0"
  shows "\<exists>rs g'. direction_distribution_of T g = Some (rs, g')
           \<and> map DirectionDistributionData.direction rs = [''IN'', ''OUT'']
           \<and> sum_list (map DirectionDistributionData.count rs) = T"
proof -
  obtain p g1 where p: "generate_daily_data
           (py_int (fmul (float_of_int T) (float_literal 51 2))) (float_literal 3 2) g = (p, g1)"
    by force
  show ?thesis using assms p
    by (simp add: direction_distribution_of_def Let_def percentage_of_def int_truediv_def)
qed

lemma time_percentages_loop_run:
  assumes "T \<noteq> 0"
  shows "\<exists>rs. time_percentages_loop tts T = Some rs \<and> length rs = length tts"
proof (induction tts)
  case Nil
  show ?case by simp
next
  case (Cons tt tts)
  then obtain rs where r: "time_percentages_loop tts T = Some rs"
    and rl: "length rs = length tts" by blast
  show ?case using assms r rl by (simp add: percentage_of_def int_truediv_def)
qed

lemma segmentasi_perjalanan_summary_run:
  assumes "od \<noteq> []" "dd \<noteq> []" "td \<noteq> []"
  shows "\<exists>s. segmentasi_perjalanan_summary od dd td = Some s"
proof -
  obtain a where a: "max_by OriginDistributionData.count od = Some a"
    using max_by_Some[OF assms(1)] by blast
  obtain b where b: "max_by DirectionDistributionData.count dd = Some b"
    using max_by_Some[OF assms(2)] by blast
  obtain c where c: "max_by TimeTravelData.count td = Some c"
    using max_by_Some[OF assms(3)] by blast
  show ?thesis by (simp add: segmentasi_perjalanan_summary_def a b c)
qed

lemma get_segmentasi_perjalanan_run:
  obtains r where
    "\<And>today d. get_segmentasi_perjalanan today g d =
       Some (r\<lparr>SegmentasiPerjalananResponse.date := date_or d (get_date today)\<rparr>)"
    "4000 \<le> SegmentasiPerjalananResponse.total_transactions r"
    "SegmentasiPerjalananResponse.total_transactions r \<le> 6000"
    "map DirectionDistributionData.direction (direction_distribution r) = [''IN'', ''OUT'']"
    "sum_list (map DirectionDistributionData.count (direction_distribution r)) =
       SegmentasiPerjalananResponse.total_transactions r"
proof -
  obtain T g1 where T: "randint 4000 6000 g = (T, g1)" by force
  have Tb: "4000 \<le> T" "T \<le> 6000"
    using randint_bounds[of 4000 6000 g] T by simp_all
  then have T0: "T \<noteq> 0" by simp
  define st_entries where "st_entries =
           [(''Bekasi'', 700::int, 1000::int), (''Cikarang'', 400, 600), (''Depok'', 500, 700),
            (''Bogor'', 400, 600), (''Tangerang'', 300, 500), (''Sudirman'', 300, 500),
            (''Karet'', 300, 500), (''Pasar Minggu'', 100, 300),
            (''Tanah Abang'', 200, 400)]"
  obtain sts g2 where sts: "labelled_randints st_entries g1 = (sts, g2)" by force
  have "list_all (\<lambda>(l, a, b). 2 \<le> a \<and> a \<le> b) st_entries" by (simp add: st_entries_def)
  from labelled_randints_run[OF this, of g1]
  have stl: "map fst sts = map fst st_entries" by (simp only: sts fst_conv)
  from origin_distribution_loop_run[OF T0, of sts g2] obtain od g3 where
    od: "origin_distribution_loop sts T g2 = Some (od, g3)"
    and odl: "map OriginDistributionData.station od = map fst sts"
    by (elim exE conjE)
  have "length (map OriginDistributionData.station od) = 9"
    by (simp only: odl stl) (simp add: st_entries_def)
  then have odne: "od \<noteq> []" by auto
  from direction_distribution_of_run[OF T0, of g3] obtain dd g4 where
    dd: "direction_distribution_of T g3 = Some (dd, g4)"
    and ddl: "map DirectionDistributionData.direction dd = [''IN'', ''OUT'']"
    and dds: "sum_list (map DirectionDistributionData.count dd) = T"
    by (elim exE conjE)
  have ddne: "dd \<noteq> []" using ddl by auto
  obtain ti g5 where ti: "time_travel_distribution_of g4 = (ti, g5)" by force
  have til: "length ti = 3"
    using ti by (auto simp add: time_travel_distribution_of_def Let_def split_beta)
  from time_percentages_loop_run[OF T0, of ti] obtain td where
    td: "time_percentages_loop ti T = Some td" and tdl: "length td = length ti"
    by (elim exE conjE)
  have tdne: "td \<noteq> []" using tdl til by auto
  from segmentasi_perjalanan_summary_run[OF odne ddne tdne] obtain s where
    s: "segmentasi_perjalanan_summary od dd td = Some s" by (elim exE)
  define r where "r =
       \<lparr>SegmentasiPerjalananResponse.date = [],
        SegmentasiPerjalananResponse.total_transactions = T,
        SegmentasiPerjalananResponse.origin_distribution = od,
        SegmentasiPerjalananResponse.direction_distribution = dd,
        SegmentasiPerjalananResponse.time_travel_distribution = td,
        SegmentasiPerjalananResponse.summary = s\<rparr>"
  have "get_segmentasi_perjalanan today g d = Some
       \<lparr>SegmentasiPerjalananResponse.date = date_or d (get_date today),
        SegmentasiPerjalananResponse.total_transactions = T,
        SegmentasiPerjalananResponse.origin_distribution = od,
        SegmentasiPerjalananResponse.direction_distribution = dd,
        SegmentasiPerjalananResponse.time_travel_distribution = td,
        SegmentasiPerjalananResponse.summary = s\<rparr>" for today d
    by (simp only: get_segmentasi_perjalanan_def Let_def T sts[unfolded st_entries_def] od dd
        ti td s prod.case bind.bind_lunit)
  then have res: "get_segmentasi_perjalanan today g d =
       Some (r\<lparr>SegmentasiPerjalananResponse.date := date_or d (get_date today)\<rparr>)" for today d
    by (simp add: r_def)
  show ?thesis
    by (rule that[of r]) (simp_all add: res r_def Tb ddl dds)
qed

text \<open>
  Claim C9. In every Demographics report the gender records are Pria and Wanita and their
  counts add up to the report's total of passengers; in every Trip Segmentation report
  the direction records are IN and OUT and their counts add up to the report's total of
  transactions. Both reports exist for every supply of random outcomes and every date.
\<close>

theorem complement_counts_add_up_to_total:
  "(\<exists>r. get_demografi today g d = Some r
      \<and> map GenderDistributionData.gender (gender_distribution r) = [''Pria'', ''Wanita'']
      \<and> sum_list (map GenderDistributionData.count (gender_distribution r)) =
          DemografiResponse.total_passengers r)
   \<and> (\<exists>r. get_segmentasi_perjalanan today g d = Some r
      \<and> map DirectionDistributionData.direction (direction_distribution r) = [''IN'', ''OUT'']
      \<and> sum_list (map DirectionDistributionData.count (direction_distribution r)) =
          SegmentasiPerjalananResponse.total_transactions r)"
proof
  show "\<exists>r. get_demografi today g d = Some r
      \<and> map GenderDistributionData.gender (gender_distribution r) = [''Pria'', ''Wanita'']
      \<and> sum_list (map GenderDistributionData.count (gender_distribution r)) =
          DemografiResponse.total_passengers r"
  proof (rule get_demografi_run[of g])
    fix r
    assume res: "\<And>today d. get_demografi today g d =
         Some (r\<lparr>DemografiResponse.date := date_or d (get_date today)\<rparr>)"
      and gl: "map GenderDistributionData.gender (gender_distribution r) = [''Pria'', ''Wanita'']"
      and gs: "sum_list (map GenderDistributionData.count (gender_distribution r)) =
         DemografiResponse.total_passengers r"
    show ?thesis
      by (rule exI, rule conjI, rule res) (simp add: gl gs)
  qed
  show "\<exists>r. get_segmentasi_perjalanan today g d = Some r
      \<and> map DirectionDistributionData.direction (direction_distribution r) = [''IN'', ''OUT'']
      \<and> sum_list (map DirectionDistributionData.count (direction_distribution r)) =
          SegmentasiPerjalananResponse.total_transactions r"
  proof (rule get_segmentasi_perjalanan_run[of g])
    fix r
    assume res: "\<And>today d. get_segmentasi_perjalanan today g d =
         Some (r\<lparr>SegmentasiPerjalananResponse.date := date_or d (get_date today)\<rparr>)"
      and dl: "map DirectionDistributionData.direction (direction_distribution r) = [''IN'', ''OUT'']"
      and ds: "sum_list (map DirectionDistributionData.count (direction_distribution r)) =
         SegmentasiPerjalananResponse.total_transactions r"
    show ?thesis
      by (rule exI, rule conjI, rule res) (simp add: dl ds)
  qed
qed

section \<open>Segmentasi Loyalitas: every run returns a report\<close>

lemma loyalty_segments_of_run:
  "\<exists>hc mc lc. fst (loyalty_segments_of g) =
       [\<lparr>LoyaltySegmentData.segment =
           ''High Loyalty ('' @ [CHR 0xE2, CHR 0x89, CHR 0xA5] @ ''12x)'',
         LoyaltySegmentData.count = hc, LoyaltySegmentData.percentage = 0,
         LoyaltySegmentData.min_freq = 12, LoyaltySegmentData.max_freq = 14\<rparr>,
        \<lparr>LoyaltySegmentData.segment = ''Medium Loyalty (7-11x)'',
         LoyaltySegmentData.count = mc, LoyaltySegmentData.percentage = 0,
         LoyaltySegmentData.min_freq = 7, LoyaltySegmentData.max_freq = 11\<rparr>,
        \<lparr>LoyaltySegmentData.segment = ''Low Loyalty (<7x)'',
         LoyaltySegmentData.count = lc, LoyaltySegmentData.percentage = 0,
         LoyaltySegmentData.min_freq = 1, LoyaltySegmentData.max_freq = 6\<rparr>]
     \<and> 1 \<le> hc \<and> 1 \<le> mc \<and> 1 \<le> lc"
proof -
  obtain hb g1 where hb: "randint 1200 1800 g = (hb, g1)" by force
  obtain mb g2 where mb: "randint 1000 1500 g1 = (mb, g2)" by force
  obtain lb g3 where lb: "randint 800 1200 g2 = (lb, g3)" by force
  have b: "2 \<le> hb" "2 \<le> mb" "2 \<le> lb"
    using randint_bounds(1)[of 1200 1800 g] randint_bounds(1)[of 1000 1500 g1]
      randint_bounds(1)[of 800 1200 g2] hb mb lb by simp_all
  obtain hc g4 where hc: "generate_daily_data hb (float_literal 15 2) g3 = (hc, g4)" by force
  obtain mc g5 where mc: "generate_daily_data mb (float_literal 15 2) g4 = (mc, g5)" by force
  obtain lc g6 where lc: "generate_daily_data lb (float_literal 2 1) g5 = (lc, g6)" by force
  have v15: "0 \<le> float_literal 15 2" "float_literal 15 2 \<le> 1/4"
    by (rule float_literal_bounds; simp)+
  have v2: "0 \<le> float_literal 2 1" "float_literal 2 1 \<le> 1/4"
    by (rule float_literal_bounds; simp)+
  have c: "1 \<le> hc" "1 \<le> mc" "1 \<le> lc"
    using generate_daily_data_pos[OF v15 b(1), of g3] generate_daily_data_pos[OF v15 b(2), of g4]
      generate_daily_data_pos[OF v2 b(3), of g5] hc mc lc by simp_all
  have "loyalty_segments_of g =
      ([\<lparr>LoyaltySegmentData.segment =
           ''High Loyalty ('' @ [CHR 0xE2, CHR 0x89, CHR 0xA5] @ ''12x)'',
         LoyaltySegmentData.count = hc, LoyaltySegmentData.percentage = 0,
         LoyaltySegmentData.min_freq = 12, LoyaltySegmentData.max_freq = 14\<rparr>,
        \<lparr>LoyaltySegmentData.segment = ''Medium Loyalty (7-11x)'',
         LoyaltySegmentData.count = mc, LoyaltySegmentData.percentage = 0,
         LoyaltySegmentData.min_freq = 7, LoyaltySegmentData.max_freq = 11\<rparr>,
        \<lparr>LoyaltySegmentData.segment = ''Low Loyalty (<7x)'',
         LoyaltySegmentData.count = lc, LoyaltySegmentData.percentage = 0,
         LoyaltySegmentData.min_freq = 1, LoyaltySegmentData.max_freq = 6\<rparr>], g6)"
    by (simp only: loyalty_segments_of_def Let_def hb mb lb hc mc lc prod.case)
  then show ?thesis using c by (intro exI[of _ hc] exI[of _ mc] exI[of _ lc]) (simp only: fst_conv simp_thms)
qed

lemma loyalty_percentages_loop_run:
  assumes "T \<noteq> 0"
  shows "\<exists>rs. loyalty_percentages_loop lss T = Some rs
          \<and> map LoyaltySegmentData.segment rs = map LoyaltySegmentData.segment lss
          \<and> map LoyaltySegmentData.count rs = map LoyaltySegmentData.count lss
          \<and> list_all (\<lambda>s. Some (LoyaltySegmentData.percentage s) =
                percentage_of (LoyaltySegmentData.count s) T 1) rs"
proof (induction lss)
  case Nil
  show ?case by simp
next
  case (Cons ls lss)
  then obtain rs where r: "loyalty_percentages_loop lss T = Some rs"
    and rs: "map LoyaltySegmentData.segment rs = map LoyaltySegmentData.segment lss"
    and rc: "map LoyaltySegmentData.count rs = map LoyaltySegmentData.count lss"
    and rp: "list_all (\<lambda>s. Some (LoyaltySegmentData.percentage s) =
                percentage_of (LoyaltySegmentData.count s) T 1) rs"
    by blast
  obtain p where p: "percentage_of (LoyaltySegmentData.count ls) T 1 = Some p"
    using percentage_of_Some[OF assms] by blast
  have "loyalty_percentages_loop (ls # lss) T = Some (ls\<lparr>LoyaltySegmentData.percentage := p\<rparr> # rs)"
    by (simp only: loyalty_percentages_loop.simps p r bind.bind_lunit)
  then show ?case using rs rc rp p by simp
qed

lemma occupations_base_of_length: "length (fst (occupations_base_of es g)) = length es"
proof (induction es arbitrary: g)
  case Nil
  show ?case by simp
next
  case (Cons e es)
  obtain l lo hi a b where e: "e = (l, lo, hi, a, b)" by (cases e) auto
  show ?case using Cons.IH by (simp add: e split_beta Let_def)
qed

lemma loyalty_by_occupation_loop_length:
  "length (fst (loyalty_by_occupation_loop es g)) = length es"
proof (induction es arbitrary: g)
  case Nil
  show ?case by simp
next
  case (Cons e es)
  obtain l f b where e: "e = (l, f, b)" by (cases e) auto
  show ?case using Cons.IH by (simp add: e split_beta Let_def)
qed

lemma high_segment_name:
  "contains (''High Loyalty ('' @ [CHR 0xE2, CHR 0x89, CHR 0xA5] @ ''12x)'') ''High''"
  by simp

lemma segmentasi_loyaltas_summary_run:
  assumes "T \<noteq> 0" "lbo \<noteq> []"
    and "map LoyaltySegmentData.segment segs =
       [''High Loyalty ('' @ [CHR 0xE2, CHR 0x89, CHR 0xA5] @ ''12x)'',
        ''Medium Loyalty (7-11x)'', ''Low Loyalty (<7x)'']"
  shows "\<exists>s. segmentasi_loyaltas_summary T segs lbo = Some s"
proof -
  obtain h rest where segs: "segs = h # rest"
    and h: "LoyaltySegmentData.segment h = ''High Loyalty ('' @ [CHR 0xE2, CHR 0x89, CHR 0xA5] @ ''12x)''"
    using assms(3) by (auto simp add: map_eq_Cons_conv)
  have nw: "next_where (\<lambda>ls. contains (LoyaltySegmentData.segment ls) ''High'') segs = Some h"
    using high_segment_name by (simp add: next_where_def segs h)
  obtain m where m: "max_by LoyaltyByOccupationData.avg_frequency lbo = Some m"
    using max_by_Some[OF assms(2)] by blast
  show ?thesis using assms(1)
    by (simp add: segmentasi_loyaltas_summary_def nw m Let_def percentage_of_def int_truediv_def)
qed

lemma get_segmentasi_loyaltas_run:
  obtains r where
    "\<And>today d. get_segmentasi_loyaltas today g d =
       Some (r\<lparr>SegmentasiLoyaltasResponse.date := date_or d (get_date today)\<rparr>)"
    "SegmentasiLoyaltasResponse.total_passengers r = fst (randint 3500 5000 g)"
    "3500 \<le> SegmentasiLoyaltasResponse.total_passengers r"
    "SegmentasiLoyaltasResponse.total_passengers r \<le> 5000"
    "loyalty_percentages (fst (loyalty_segments_of (snd (randint 3500 5000 g)))) =
       Some (loyalty_segments r)"
    "length (loyalty_segments r) = 3"
    "3 \<le> sum_list (map LoyaltySegmentData.count (loyalty_segments r))"
    "list_all (\<lambda>s. Some (LoyaltySegmentData.percentage s) =
        percentage_of (LoyaltySegmentData.count s)
          (sum_list (map LoyaltySegmentData.count (loyalty_segments r))) 1)
       (loyalty_segments r)"
proof -
  obtain T g1 where T: "randint 3500 5000 g = (T, g1)" by force
  have Tb: "3500 \<le> T" "T \<le> 5000"
    using randint_bounds[of 3500 5000 g] T by simp_all
  then have T0: "T \<noteq> 0" by simp
  obtain li g2 where li: "loyalty_segments_of g1 = (li, g2)" by force
  from loyalty_segments_of_run[of g1] obtain hc mc lc where
    lif: "li =
       [\<lparr>LoyaltySegmentData.segment =
           ''High Loyalty ('' @ [CHR 0xE2, CHR 0x89, CHR 0xA5] @ ''12x)'',
         LoyaltySegmentData.count = hc, LoyaltySegmentData.percentage = 0,
         LoyaltySegmentData.min_freq = 12, LoyaltySegmentData.max_freq = 14\<rparr>,
        \<lparr>LoyaltySegmentData.segment = ''Medium Loyalty (7-11x)'',
         LoyaltySegmentData.count = mc, LoyaltySegmentData.percentage = 0,
         LoyaltySegmentData.min_freq = 7, LoyaltySegmentData.max_freq = 11\<rparr>,
        \<lparr>LoyaltySegmentData.segment = ''Low Loyalty (<7x)'',
         LoyaltySegmentData.count = lc, LoyaltySegmentData.percentage = 0,
         LoyaltySegmentData.min_freq = 1, LoyaltySegmentData.max_freq = 6\<rparr>]"
    and c: "1 \<le> hc" "1 \<le> mc" "1 \<le> lc"
    unfolding li fst_conv by (elim exE conjE)
  define TL where "TL = sum_list (map LoyaltySegmentData.count li)"
  have TL3: "3 \<le> TL" using c by (simp add: TL_def lif)
  then have TL0: "TL \<noteq> 0" by simp
  from loyalty_percentages_loop_run[OF TL0, of li] obtain ls where
    ls: "loyalty_percentages_loop li TL = Some ls"
    and lss: "map LoyaltySegmentData.segment ls = map LoyaltySegmentData.segment li"
    and lsc: "map LoyaltySegmentData.count ls = map LoyaltySegmentData.count li"
    and lsp: "list_all (\<lambda>s. Some (LoyaltySegmentData.percentage s) =
                percentage_of (LoyaltySegmentData.count s) TL 1) ls"
    by (elim exE conjE)
  have lp: "loyalty_percentages li = Some ls"
    by (simp only: loyalty_percentages_def Let_def ls[unfolded TL_def])
  have TL': "sum_list (map LoyaltySegmentData.count ls) = TL" by (simp only: lsc TL_def)
  have "length (map LoyaltySegmentData.segment ls) = 3" by (simp only: lss) (simp add: lif)
  then have len: "length ls = 3" by simp
  have names: "map LoyaltySegmentData.segment ls =
       [''High Loyalty ('' @ [CHR 0xE2, CHR 0x89, CHR 0xA5] @ ''12x)'',
        ''Medium Loyalty (7-11x)'', ''Low Loyalty (<7x)'']"
    by (simp only: lss) (simp add: lif)
  define occ_entries where "occ_entries =
           [(''Karyawan Swasta'', float_literal 80 1, float_literal 100 1, 1500::int, 2200::int),
            (''PNS/BUMN'', float_literal 85 1, float_literal 105 1, 600, 900),
            (''Pelajar/Mahasiswa'', float_literal 50 1, float_literal 70 1, 400, 700),
            (''Wiraswasta'', float_literal 60 1, float_literal 80 1, 500, 800),
            (''Wisatawan'', float_literal 20 1, float_literal 40 1, 100, 300)]"
  obtain ob g3 where ob: "occupations_base_of occ_entries g2 = (ob, g3)" by force
  have "length ob = length occ_entries"
    using occupations_base_of_length[of occ_entries g2] by (simp only: ob fst_conv)
  then have obl: "length ob = 5" by (simp add: occ_entries_def)
  obtain lbo g4 where lbo: "loyalty_by_occupation_loop ob g3 = (lbo, g4)" by force
  have "length lbo = length ob"
    using loyalty_by_occupation_loop_length[of ob g3] by (simp only: lbo fst_conv)
  then have "length lbo = 5" by (simp only: obl)
  then have lbne: "lbo \<noteq> []" by auto
  from segmentasi_loyaltas_summary_run[OF T0 lbne names] obtain s where
    s: "segmentasi_loyaltas_summary T ls lbo = Some s" by (elim exE)
  define r where "r =
       \<lparr>SegmentasiLoyaltasResponse.date = [],
        SegmentasiLoyaltasResponse.total_passengers = T,
        SegmentasiLoyaltasResponse.loyalty_segments = ls,
        SegmentasiLoyaltasResponse.loyalty_by_occupation = lbo,
        SegmentasiLoyaltasResponse.summary = s\<rparr>"
  have "get_segmentasi_loyaltas today g d = Some
       \<lparr>SegmentasiLoyaltasResponse.date = date_or d (get_date today),
        SegmentasiLoyaltasResponse.total_passengers = T,
        SegmentasiLoyaltasResponse.loyalty_segments = ls,
        SegmentasiLoyaltasResponse.loyalty_by_occupation = lbo,
        SegmentasiLoyaltasResponse.summary = s\<rparr>" for today d
    by (simp only: get_segmentasi_loyaltas_def Let_def T li lp ob[unfolded occ_entries_def] lbo s
        prod.case bind.bind_lunit)
  then have res: "get_segmentasi_loyaltas today g d =
       Some (r\<lparr>SegmentasiLoyaltasResponse.date := date_or d (get_date today)\<rparr>)" for today d
    by (simp add: r_def)
  show ?thesis
    by (rule that[of r]) (use lsp in \<open>simp_all add: res r_def T Tb li lp len TL' TL3\<close>)
qed

lemma tiers_1500_1200_900:
  "map_option (map (\<lambda>s. (LoyaltySegmentData.count s, LoyaltySegmentData.percentage s)))
     (loyalty_percentages (fst (loyalty_segments_of [300, 200, 100, 2 ^ 52, 2 ^ 52, 2 ^ 52])))
   = Some [(1500, float_literal 417 1), (1200, float_literal 333 1), (900, float_literal 250 1)]"
  by code_simp

subsection \<open>Tier percentages\<close>

text \<open>
  Claim C8. In every Loyalty Segmentation report there are three tier records, and the
  percentage of each is the value of \<^verbatim>\<open>round(count / total_loyalty * 100, 1)\<close> where
  \<^verbatim>\<open>total_loyalty\<close> is the sum of the counts of the three records. A run whose random
  outcomes give the tier counts 1500, 1200 and 900 (and 3500 passengers in total) reports
  the percentages 41.7, 33.3 and 25.0.
\<close>

theorem tier_percentages_of_tier_sum:
  "(\<exists>r. get_segmentasi_loyaltas today g d = Some r
      \<and> length (loyalty_segments r) = 3
      \<and> list_all (\<lambda>s. Some (LoyaltySegmentData.percentage s) =
            percentage_of (LoyaltySegmentData.count s)
              (sum_list (map LoyaltySegmentData.count (loyalty_segments r))) 1)
          (loyalty_segments r))
   \<and> (\<exists>r. get_segmentasi_loyaltas today [0, 300, 200, 100, 2 ^ 52, 2 ^ 52, 2 ^ 52] d = Some r
      \<and> SegmentasiLoyaltasResponse.total_passengers r = 3500
      \<and> map (\<lambda>s. (LoyaltySegmentData.count s, LoyaltySegmentData.percentage s))
            (loyalty_segments r)
          = [(1500, float_literal 417 1), (1200, float_literal 333 1),
             (900, float_literal 250 1)])"
proof
  show "\<exists>r. get_segmentasi_loyaltas today g d = Some r
      \<and> length (loyalty_segments r) = 3
      \<and> list_all (\<lambda>s. Some (LoyaltySegmentData.percentage s) =
            percentage_of (LoyaltySegmentData.count s)
              (sum_list (map LoyaltySegmentData.count (loyalty_segments r))) 1)
          (loyalty_segments r)"
  proof (rule get_segmentasi_loyaltas_run[of g])
    fix r
    assume res: "\<And>today d. get_segmentasi_loyaltas today g d =
         Some (r\<lparr>SegmentasiLoyaltasResponse.date := date_or d (get_date today)\<rparr>)"
      and len: "length (loyalty_segments r) = 3"
      and pct: "list_all (\<lambda>s. Some (LoyaltySegmentData.percentage s) =
          percentage_of (LoyaltySegmentData.count s)
            (sum_list (map LoyaltySegmentData.count (loyalty_segments r))) 1)
         (loyalty_segments r)"
    show ?thesis
      by (rule exI, rule conjI, rule res) (use pct in \<open>simp add: len\<close>)
  qed
  define g0 :: rng where "g0 = [0, 300, 200, 100, 2 ^ 52, 2 ^ 52, 2 ^ 52]"
  have "\<exists>r. get_segmentasi_loyaltas today g0 d = Some r
      \<and> SegmentasiLoyaltasResponse.total_passengers r = 3500
      \<and> map (\<lambda>s. (LoyaltySegmentData.count s, LoyaltySegmentData.percentage s))
            (loyalty_segments r)
          = [(1500, float_literal 417 1), (1200, float_literal 333 1),
             (900, float_literal 250 1)]"
  proof (rule get_segmentasi_loyaltas_run[of g0])
    fix r
    assume res: "\<And>today d. get_segmentasi_loyaltas today g0 d =
         Some (r\<lparr>SegmentasiLoyaltasResponse.date := date_or d (get_date today)\<rparr>)"
      and tp: "SegmentasiLoyaltasResponse.total_passengers r = fst (randint 3500 5000 g0)"
      and lp: "loyalty_percentages (fst (loyalty_segments_of (snd (randint 3500 5000 g0)))) =
         Some (loyalty_segments r)"
    have rest: "snd (randint 3500 5000 g0) = [300, 200, 100, 2 ^ 52, 2 ^ 52, 2 ^ 52]"
      and first: "fst (randint 3500 5000 g0) = 3500"
      by (simp_all add: g0_def randint_def next_raw_def)
    have "map_option (map (\<lambda>s. (LoyaltySegmentData.count s, LoyaltySegmentData.percentage s)))
            (Some (loyalty_segments r))
          = Some [(1500, float_literal 417 1), (1200, float_literal 333 1),
                  (900, float_literal 250 1)]"
      using tiers_1500_1200_900 by (simp only: lp[unfolded rest])
    then have tiers: "map (\<lambda>s. (LoyaltySegmentData.count s, LoyaltySegmentData.percentage s))
            (loyalty_segments r)
          = [(1500, float_literal 417 1), (1200, float_literal 333 1),
             (900, float_literal 250 1)]"
      by (simp only: option.map option.inject)
    show ?thesis
      by (rule exI, rule conjI, rule res) (use tiers in \<open>simp add: tp first\<close>)
  qed
  then show "\<exists>r. get_segmentasi_loyaltas today [0, 300, 200, 100, 2 ^ 52, 2 ^ 52, 2 ^ 52] d = Some r
      \<and> SegmentasiLoyaltasResponse.total_passengers r = 3500
      \<and> map (\<lambda>s. (LoyaltySegmentData.count s, LoyaltySegmentData.percentage s))
            (loyalty_segments r)
          = [(1500, float_literal 417 1), (1200, float_literal 333 1),
             (900, float_literal 250 1)]"
    by (simp only: g0_def)
qed

section \<open>Korelasi Behavior: every run returns a report\<close>

lemma age_loyalty_loop_length: "length (fst (age_loyalty_loop groups g)) = length groups"
proof (induction groups arbitrary: g)
  case Nil
  show ?case by simp
next
  case (Cons e es)
  obtain a f where e: "e = (a, f)" by (cases e) auto
  show ?case using Cons.IH by (simp add: e split_beta Let_def)
qed

lemma weighted_average_Some: "\<exists>a. weighted_average items = Some a"
proof (cases "0 < sum_list (map AgeLoyaltyCorrelationData.count items)")
  case True
  then have "1 \<le> sum_list (map AgeLoyaltyCorrelationData.count items)" by simp
  then obtain q where "sum_truediv (py_sum (map (\<lambda>item. PyFloat
             (fmul (AgeLoyaltyCorrelationData.avg_loyalty_frequency item)
                   (float_of_int (AgeLoyaltyCorrelationData.count item)))) items))
          (sum_list (map AgeLoyaltyCorrelationData.count items)) = Some q"
    using sum_truediv_Some by blast
  then show ?thesis using True by (simp add: weighted_average_def Let_def)
next
  case False
  then show ?thesis by (simp add: weighted_average_def Let_def)
qed

text \<open>Every draw takes one outcome from the supply.\<close>

lemma next_raw_snd: "snd (next_raw g) = drop 1 g"
  by (cases g) (simp_all add: next_raw_def)

lemma randint_snd: "snd (randint a b g) = drop 1 g"
  using next_raw_snd[of g] by (simp add: randint_def split_beta)

lemma uniform_snd: "snd (uniform a b g) = drop 1 g"
  using next_raw_snd[of g] by (simp add: uniform_def py_random_def split_beta)

lemma generate_daily_data_snd: "snd (generate_daily_data b v g) = drop 1 g"
  using uniform_snd[of "- v" v g] by (simp add: generate_daily_data_def split_beta Let_def)

lemma drop_three:
  "drop (3 * length xs) (drop 1 (drop 1 (drop 1 g))) = drop (3 * length (x # xs)) g"
proof -
  have "3 * length (x # xs) = 3 * length xs + 1 + 1 + 1" by simp
  then show ?thesis by (simp only: drop_drop add.assoc)
qed

lemma age_loyalty_loop_snd: "snd (age_loyalty_loop groups g) = drop (3 * length groups) g"
proof (induction groups arbitrary: g)
  case Nil
  show ?case by simp
next
  case (Cons e es)
  obtain a f where e: "e = (a, f)" by (cases e) auto
  obtain b g1 where b: "randint 400 800 g = (b, g1)" by force
  obtain c g2 where c: "generate_daily_data b (float_literal 2 1) g1 = (c, g2)" by force
  obtain u g3 where u: "uniform (- float_literal 10 1) (float_literal 10 1) g2 = (u, g3)"
    by force
  have g1: "g1 = drop 1 g" using randint_snd[of 400 800 g] b by simp
  have g2: "g2 = drop 1 g1" using generate_daily_data_snd[of b "float_literal 2 1" g1] c by simp
  have g3: "g3 = drop 1 g2" using uniform_snd[of "- float_literal 10 1" "float_literal 10 1" g2] u
    by simp
  have "snd (age_loyalty_loop (e # es) g) = snd (age_loyalty_loop es g3)"
    unfolding e
    by (simp only: age_loyalty_loop.simps Let_def b c u prod.case) (simp add: split_beta)
  also have "\<dots> = drop (3 * length es) g3" by (rule Cons.IH)
  also have "\<dots> = drop (3 * length (e # es)) g" by (simp only: g3 g2 g1 drop_three)
  finally show ?case .
qed

lemma hour_gender_loop_run:
  "\<exists>rs g'. hour_gender_loop hs g = Some (rs, g')
     \<and> map HourGenderData.hour rs = hs
     \<and> list_all (\<lambda>x. 1 \<le> pria_count x + wanita_count x) rs
     \<and> g' = drop (3 * length hs) g"
proof (induction hs arbitrary: g)
  case Nil
  show ?case by simp
next
  case (Cons h hs)
  obtain b g1 where b: "randint 50 600 g = (b, g1)" by force
  have b2: "2 \<le> b" using randint_bounds(1)[of 50 600 g] b by simp
  obtain pp g2 where pp:
    "(if 6 \<le> h \<and> h \<le> 11
      then (let (u, g') = uniform (- float_literal 5 2) (float_literal 5 2) g1
            in (fadd (float_literal 55 2) u, g'))
      else if 16 \<le> h \<and> h \<le> 19
      then (let (u, g') = uniform (- float_literal 5 2) (float_literal 5 2) g1
            in (fadd (float_literal 45 2) u, g'))
      else (let (u, g') = uniform (- float_literal 5 2) (float_literal 5 2) g1
            in (fadd (float_literal 50 2) u, g'))) = (pp, g2)"
    by force
  obtain t g3 where t: "generate_daily_data b (float_literal 15 2) g2 = (t, g3)" by force
  have v15: "0 \<le> float_literal 15 2" "float_literal 15 2 \<le> 1/4"
    by (rule float_literal_bounds; simp)+
  have t1: "1 \<le> t" using generate_daily_data_pos[OF v15 b2, of g2] t by simp
  then have t0: "t \<noteq> 0" by simp
  obtain p1 where p1: "percentage_of (py_int (fmul (float_of_int t) pp)) t 1 = Some p1"
    using percentage_of_Some[OF t0] by blast
  obtain p2 where p2: "percentage_of (t - py_int (fmul (float_of_int t) pp)) t 1 = Some p2"
    using percentage_of_Some[OF t0] by blast
  from Cons.IH[of g3] obtain rs g4 where
    r: "hour_gender_loop hs g3 = Some (rs, g4)"
    and rh: "map HourGenderData.hour rs = hs"
    and rt: "list_all (\<lambda>x. 1 \<le> pria_count x + wanita_count x) rs"
    and rg: "g4 = drop (3 * length hs) g3"
    by blast
  have g1: "g1 = drop 1 g" using randint_snd[of 50 600 g] b by simp
  have "snd (if 6 \<le> h \<and> h \<le> 11
      then (let (u, g') = uniform (- float_literal 5 2) (float_literal 5 2) g1
            in (fadd (float_literal 55 2) u, g'))
      else if 16 \<le> h \<and> h \<le> 19
      then (let (u, g') = uniform (- float_literal 5 2) (float_literal 5 2) g1
            in (fadd (float_literal 45 2) u, g'))
      else (let (u, g') = uniform (- float_literal 5 2) (float_literal 5 2) g1
            in (fadd (float_literal 50 2) u, g'))) = drop 1 g1"
    by (simp add: split_beta uniform_snd)
  then have g2: "g2 = drop 1 g1" by (simp only: pp snd_conv)
  have g3: "g3 = drop 1 g2" using generate_daily_data_snd[of b "float_literal 15 2" g2] t
    by simp
  have g4: "g4 = drop (3 * length (h # hs)) g" by (simp only: rg g3 g2 g1 drop_three)
  have "hour_gender_loop (h # hs) g = Some
     (\<lparr>HourGenderData.hour = h, pria_count = py_int (fmul (float_of_int t) pp),
       wanita_count = t - py_int (fmul (float_of_int t) pp),
       pria_percentage = p1, wanita_percentage = p2\<rparr> # rs, g4)"
    by (simp only: hour_gender_loop.simps Let_def b pp[unfolded Let_def] t p1 p2 r prod.case
        bind.bind_lunit)
  then show ?case using rh rt t1 g4 by simp
qed

lemma drawn_zone_totals_length: "length (drawn_zone_totals n g) = n"
  by (induction n arbitrary: g) (simp_all add: split_beta Let_def)

lemma drawn_zone_totals_pos: "list_all (\<lambda>total_count. 1 \<le> total_count) (drawn_zone_totals n g)"
proof (induction n arbitrary: g)
  case 0
  show ?case by simp
next
  case (Suc n)
  obtain b g1 where b: "randint 200 1000 g = (b, g1)" by force
  have b2: "2 \<le> b" using randint_bounds(1)[of 200 1000 g] b by simp
  obtain t g2 where t: "generate_daily_data b (float_literal 2 1) g1 = (t, g2)" by force
  have v: "0 \<le> float_literal 2 1" "float_literal 2 1 \<le> 1/4"
    by (rule float_literal_bounds; simp)+
  have t1: "1 \<le> t" using generate_daily_data_pos[OF v b2, of g1] t by simp
  have "drawn_zone_totals (Suc n) g = t # drawn_zone_totals n g2"
    by (simp only: drawn_zone_totals.simps Let_def b t prod.case)
  then show ?case using Suc.IH[of g2] t1 by simp
qed

lemma occupation_zone_loop_run:
  "map OccupationZonePreferenceData.occupation (fst (occupation_zone_loop es g)) = map fst es
     \<and> map (\<lambda>z. north_count z + west_count z) (fst (occupation_zone_loop es g)) =
         drawn_zone_totals (length es) g
     \<and> map north_count (fst (occupation_zone_loop es g)) =
         map (\<lambda>((occupation', north_ratio, west_ratio), total_count).
                py_int (fmul (float_of_int total_count) north_ratio))
           (zip es (drawn_zone_totals (length es) g))
     \<and> map west_count (fst (occupation_zone_loop es g)) =
         map (\<lambda>((occupation', north_ratio, west_ratio), total_count).
                total_count - py_int (fmul (float_of_int total_count) north_ratio))
           (zip es (drawn_zone_totals (length es) g))
     \<and> map preference (fst (occupation_zone_loop es g)) =
         map (\<lambda>(occupation', north_ratio, west_ratio).
                if float_literal 55 2 < north_ratio then ''North''
                else if float_literal 55 2 < west_ratio then ''West'' else ''Neutral'') es"
proof (induction es arbitrary: g)
  case Nil
  show ?case by simp
next
  case (Cons e es)
  obtain l nr wr where e: "e = (l, nr, wr)" by (cases e) auto
  obtain b g1 where b: "randint 200 1000 g = (b, g1)" by force
  obtain t g2 where t: "generate_daily_data b (float_literal 2 1) g1 = (t, g2)" by force
  have "drawn_zone_totals (Suc (length es)) g = t # drawn_zone_totals (length es) g2"
    by (simp only: drawn_zone_totals.simps Let_def b t prod.case)
  then have d: "drawn_zone_totals (length (e # es)) g = t # drawn_zone_totals (length es) g2"
    by simp
  obtain rest g3 where rest: "occupation_zone_loop es g2 = (rest, g3)" by force
  have l: "fst (occupation_zone_loop (e # es) g) =
     \<lparr>OccupationZonePreferenceData.occupation = l,
      north_count = py_int (fmul (float_of_int t) nr),
      west_count = t - py_int (fmul (float_of_int t) nr),
      preference = (if float_literal 55 2 < nr then ''North''
                    else if float_literal 55 2 < wr then ''West'' else ''Neutral'')\<rparr>
     # fst (occupation_zone_loop es g2)"
    unfolding e
    by (simp only: occupation_zone_loop.simps Let_def b t rest prod.case fst_conv)
  show ?case
    using Cons.IH[of g2]
    by (simp only: d l) (simp add: e)
qed

lemma index_in_range: "i < length xs \<Longrightarrow> index xs i = Some (xs ! i)"
  by (simp add: index_def)

lemma behavior_correlation_summary_run:
  assumes "length hgd = 17"
  shows "\<exists>s. behavior_correlation_summary alc hgd ozp = Some s
     \<and> dominant_gender_morning s = (if 50 < pria_percentage (hgd ! 1) then ''Pria'' else ''Wanita'')
     \<and> dominant_gender_evening s = (if 50 < pria_percentage (hgd ! 14) then ''Pria'' else ''Wanita'')"
proof -
  obtain ya where ya: "weighted_average (take 2 alc) = Some ya"
    using weighted_average_Some by blast
  obtain sa where sa: "weighted_average (drop 3 alc) = Some sa"
    using weighted_average_Some by blast
  have i1: "index hgd 1 = Some (hgd ! 1)" and i14: "index hgd 14 = Some (hgd ! 14)"
    using assms by (simp_all add: index_in_range)
  have "behavior_correlation_summary alc hgd ozp = Some
     \<lparr>age_loyalty_insight = (if ya < sa then ''Positif'' else ''Negatif/Netral''),
      young_avg_loyalty = py_round ya 1,
      senior_avg_loyalty = py_round sa 1,
      dominant_gender_morning = (if 50 < pria_percentage (hgd ! 1) then ''Pria''
                                 else ''Wanita''),
      dominant_gender_evening = (if 50 < pria_percentage (hgd ! 14) then ''Pria''
                                 else ''Wanita''),
      strong_zone_preference_count =
        int (length (filter (\<lambda>item. preference item \<noteq> ''Neutral'') ozp))\<rparr>"
    by (simp only: behavior_correlation_summary_def ya sa i1 i14 bind.bind_lunit)
  then show ?thesis by simp
qed

lemma get_behavior_correlation_run:
  obtains r where
    "\<And>today d. get_behavior_correlation today g d =
       Some (r\<lparr>BehaviorCorrelationResponse.date := date_or d (get_date today)\<rparr>)"
    "map HourGenderData.hour (hour_gender_distribution r) = [6..22]"
    "list_all (\<lambda>x. 1 \<le> pria_count x + wanita_count x) (hour_gender_distribution r)"
    "dominant_gender_morning (BehaviorCorrelationResponse.summary r) =
       (if 50 < pria_percentage (hour_gender_distribution r ! 1) then ''Pria'' else ''Wanita'')"
    "dominant_gender_evening (BehaviorCorrelationResponse.summary r) =
       (if 50 < pria_percentage (hour_gender_distribution r ! 14) then ''Pria'' else ''Wanita'')"
    "map OccupationZonePreferenceData.occupation (occupation_zone_preference r) =
       map fst occupation_zone_base"
    "map (\<lambda>z. north_count z + west_count z) (occupation_zone_preference r) =
       drawn_zone_totals 5 (drop 66 g)"
    "map north_count (occupation_zone_preference r) =
       map (\<lambda>((occupation', north_ratio, west_ratio), total_count).
              py_int (fmul (float_of_int total_count) north_ratio))
         (zip occupation_zone_base (drawn_zone_totals 5 (drop 66 g)))"
    "map west_count (occupation_zone_preference r) =
       map (\<lambda>((occupation', north_ratio, west_ratio), total_count).
              total_count - py_int (fmul (float_of_int total_count) north_ratio))
         (zip occupation_zone_base (drawn_zone_totals 5 (drop 66 g)))"
    "map preference (occupation_zone_preference r) =
       map (\<lambda>(occupation', north_ratio, west_ratio).
              if float_literal 55 2 < north_ratio then ''North''
              else if float_literal 55 2 < west_ratio then ''West'' else ''Neutral'')
         occupation_zone_base"
proof -
  obtain alc g1 where alc: "age_loyalty_loop age_groups g = (alc, g1)" by force
  have "length age_groups = 5" by (simp add: age_groups_def)
  then have g1: "g1 = drop 15 g" using age_loyalty_loop_snd[of age_groups g] alc by simp
  from hour_gender_loop_run[of "[6..22]" g1] obtain hgd g2 where
    hgd: "hour_gender_loop [6..22] g1 = Some (hgd, g2)"
    and hh: "map HourGenderData.hour hgd = [6..22]"
    and ht: "list_all (\<lambda>x. 1 \<le> pria_count x + wanita_count x) hgd"
    and hg: "g2 = drop (3 * length [6..22::int]) g1"
    by (elim exE conjE)
  have "length (map HourGenderData.hour hgd) = 17" by (simp only: hh) simp
  then have hl: "length hgd = 17" by simp
  have "g2 = drop 51 g1" using hg by simp
  then have g2: "g2 = drop 66 g" by (simp add: g1)
  obtain ozp g3 where ozp: "occupation_zone_loop occupation_zone_base g2 = (ozp, g3)" by force
  have l5: "length occupation_zone_base = 5" by (simp add: occupation_zone_base_def)
  note run = occupation_zone_loop_run[of occupation_zone_base g2, unfolded ozp fst_conv l5]
  have to: "map OccupationZonePreferenceData.occupation ozp = map fst occupation_zone_base"
    and ts: "map (\<lambda>z. north_count z + west_count z) ozp = drawn_zone_totals 5 (drop 66 g)"
    and tn: "map north_count ozp =
         map (\<lambda>((occupation', north_ratio, west_ratio), total_count).
                py_int (fmul (float_of_int total_count) north_ratio))
           (zip occupation_zone_base (drawn_zone_totals 5 (drop 66 g)))"
    and tw: "map west_count ozp =
         map (\<lambda>((occupation', north_ratio, west_ratio), total_count).
                total_count - py_int (fmul (float_of_int total_count) north_ratio))
           (zip occupation_zone_base (drawn_zone_totals 5 (drop 66 g)))"
    and tp: "map preference ozp =
         map (\<lambda>(occupation', north_ratio, west_ratio).
                if float_literal 55 2 < north_ratio then ''North''
                else if float_literal 55 2 < west_ratio then ''West'' else ''Neutral'')
           occupation_zone_base"
    using run[unfolded g2] by simp_all
  from behavior_correlation_summary_run[OF hl, of alc ozp] obtain s where
    s: "behavior_correlation_summary alc hgd ozp = Some s"
    and sm: "dominant_gender_morning s =
       (if 50 < pria_percentage (hgd ! 1) then ''Pria'' else ''Wanita'')"
    and se: "dominant_gender_evening s =
       (if 50 < pria_percentage (hgd ! 14) then ''Pria'' else ''Wanita'')"
    by (elim exE conjE)
  define r where "r =
       \<lparr>BehaviorCorrelationResponse.date = [],
        BehaviorCorrelationResponse.age_loyalty_correlation = alc,
        BehaviorCorrelationResponse.hour_gender_distribution = hgd,
        BehaviorCorrelationResponse.occupation_zone_preference = ozp,
        BehaviorCorrelationResponse.summary = s\<rparr>"
  have sel: "hour_gender_distribution r = hgd" "occupation_zone_preference r = ozp"
    "BehaviorCorrelationResponse.summary r = s"
    by (simp_all add: r_def)
  have "get_behavior_correlation today g d = Some
       \<lparr>BehaviorCorrelationResponse.date = date_or d (get_date today),
        BehaviorCorrelationResponse.age_loyalty_correlation = alc,
        BehaviorCorrelationResponse.hour_gender_distribution = hgd,
        BehaviorCorrelationResponse.occupation_zone_preference = ozp,
        BehaviorCorrelationResponse.summary = s\<rparr>" for today d
    by (simp only: get_behavior_correlation_def Let_def alc hgd ozp s prod.case bind.bind_lunit)
  then have res: "get_behavior_correlation today g d =
       Some (r\<lparr>BehaviorCorrelationResponse.date := date_or d (get_date today)\<rparr>)" for today d
    by (simp add: r_def)
  show ?thesis
    by (rule that[of r]) (simp_all only: sel res hh ht sm se to ts tn tw tp)
qed

lemma occupation_zone_base_ratios:
  "map (\<lambda>(occupation', north_ratio, west_ratio).
          (occupation', float_literal 55 2 < north_ratio, float_literal 55 2 < west_ratio))
     occupation_zone_base =
   [(''Karyawan Swasta'', False, False), (''PNS/BUMN'', True, False),
    (''Pelajar/Mahasiswa'', False, False), (''Wiraswasta'', False, False),
    (''Wisatawan'', False, True)]"
  by code_simp

subsection \<open>Zone preferences and dominant genders\<close>

text \<open>
  Claim C3. In every Behavior Correlation report there are five zone-preference records,
  one for each entry of the ratio table, in the order of the table. The total of a record
  is the value of \<^verbatim>\<open>generate_daily_data(random.randint(200, 1000), 0.2)\<close> in its pass of
  the loop: the five totals are \<open>drawn_zone_totals 5\<close> of the supply that is left after
  the 15 draws of the five age groups and the 51 draws of the 17 hours, and each is at
  least 1. For every record \<open>north_count\<close> is \<^verbatim>\<open>int(total * north_ratio)\<close>,
  \<open>west_count\<close> is the total minus \<open>north_count\<close>, and \<open>north_count + west_count\<close>
  is the total. The preference is North exactly for the entries whose north ratio exceeds
  0.55 and West exactly for those whose west ratio exceeds 0.55, which under the fixed
  table labels PNS/BUMN North, Wisatawan West and the other three Neutral.
\<close>

theorem zone_preference_records:
  "\<exists>r. get_behavior_correlation today g d = Some r
     \<and> length (occupation_zone_preference r) = 5
     \<and> length (drawn_zone_totals 5 (drop 66 g)) = 5
     \<and> list_all (\<lambda>total_count. 1 \<le> total_count) (drawn_zone_totals 5 (drop 66 g))
     \<and> map (\<lambda>z. north_count z + west_count z) (occupation_zone_preference r) =
         drawn_zone_totals 5 (drop 66 g)
     \<and> map north_count (occupation_zone_preference r) =
         map (\<lambda>((occupation', north_ratio, west_ratio), total_count).
                py_int (fmul (float_of_int total_count) north_ratio))
           (zip occupation_zone_base (drawn_zone_totals 5 (drop 66 g)))
     \<and> map west_count (occupation_zone_preference r) =
         map (\<lambda>((occupation', north_ratio, west_ratio), total_count).
                total_count - py_int (fmul (float_of_int total_count) north_ratio))
           (zip occupation_zone_base (drawn_zone_totals 5 (drop 66 g)))
     \<and> map (\<lambda>z. preference z = ''North'') (occupation_zone_preference r) =
         map (\<lambda>(occupation', north_ratio, west_ratio). float_literal 55 2 < north_ratio)
           occupation_zone_base
     \<and> map (\<lambda>z. preference z = ''West'') (occupation_zone_preference r) =
         map (\<lambda>(occupation', north_ratio, west_ratio). float_literal 55 2 < west_ratio)
           occupation_zone_base
     \<and> map (\<lambda>z. (OccupationZonePreferenceData.occupation z, preference z))
           (occupation_zone_preference r) =
         [(''Karyawan Swasta'', ''Neutral''), (''PNS/BUMN'', ''North''),
          (''Pelajar/Mahasiswa'', ''Neutral''), (''Wiraswasta'', ''Neutral''),
          (''Wisatawan'', ''West'')]"
proof (rule get_behavior_correlation_run[of g])
  fix r
  assume res: "\<And>today d. get_behavior_correlation today g d =
       Some (r\<lparr>BehaviorCorrelationResponse.date := date_or d (get_date today)\<rparr>)"
    and to: "map OccupationZonePreferenceData.occupation (occupation_zone_preference r) =
       map fst occupation_zone_base"
    and ts: "map (\<lambda>z. north_count z + west_count z) (occupation_zone_preference r) =
       drawn_zone_totals 5 (drop 66 g)"
    and tn: "map north_count (occupation_zone_preference r) =
       map (\<lambda>((occupation', north_ratio, west_ratio), total_count).
              py_int (fmul (float_of_int total_count) north_ratio))
         (zip occupation_zone_base (drawn_zone_totals 5 (drop 66 g)))"
    and tw: "map west_count (occupation_zone_preference r) =
       map (\<lambda>((occupation', north_ratio, west_ratio), total_count).
              total_count - py_int (fmul (float_of_int total_count) north_ratio))
         (zip occupation_zone_base (drawn_zone_totals 5 (drop 66 g)))"
    and tp: "map preference (occupation_zone_preference r) =
       map (\<lambda>(occupation', north_ratio, west_ratio).
              if float_literal 55 2 < north_ratio then ''North''
              else if float_literal 55 2 < west_ratio then ''West'' else ''Neutral'')
         occupation_zone_base"
  define table where "table =
     map (\<lambda>(occupation', north_ratio, west_ratio).
          (occupation', float_literal 55 2 < north_ratio, float_literal 55 2 < west_ratio))
     occupation_zone_base"
  have table: "table =
     [(''Karyawan Swasta'', False, False), (''PNS/BUMN'', True, False),
      (''Pelajar/Mahasiswa'', False, False), (''Wiraswasta'', False, False),
      (''Wisatawan'', False, True)]"
    unfolding table_def by (rule occupation_zone_base_ratios)
  have len: "length (drawn_zone_totals 5 (drop 66 g)) = 5"
    by (rule drawn_zone_totals_length)
  have pos: "list_all (\<lambda>total_count. 1 \<le> total_count) (drawn_zone_totals 5 (drop 66 g))"
    by (rule drawn_zone_totals_pos)
  have "length (map (\<lambda>z. north_count z + west_count z) (occupation_zone_preference r)) = 5"
    by (simp only: ts len)
  then have lr: "length (occupation_zone_preference r) = 5" by simp
  have names: "map OccupationZonePreferenceData.occupation (occupation_zone_preference r) =
      map fst table"
    by (simp only: to table_def map_map) (simp add: comp_def split_beta)
  have prefs: "map preference (occupation_zone_preference r) =
      map (\<lambda>(occupation', a, b). if a then ''North'' else if b then ''West'' else ''Neutral'')
        table"
    by (simp only: tp table_def map_map) (simp add: comp_def split_beta)
  have north: "map (\<lambda>(occupation', north_ratio, west_ratio). float_literal 55 2 < north_ratio)
           occupation_zone_base = map (\<lambda>(occupation', a, b). a) table"
    by (simp only: table_def map_map) (simp add: comp_def split_beta)
  have west: "map (\<lambda>(occupation', north_ratio, west_ratio). float_literal 55 2 < west_ratio)
           occupation_zone_base = map (\<lambda>(occupation', a, b). b) table"
    by (simp only: table_def map_map) (simp add: comp_def split_beta)
  have pn: "map (\<lambda>z. preference z = ''North'') (occupation_zone_preference r) =
      map (\<lambda>p. p = ''North'') (map preference (occupation_zone_preference r))"
    and pw: "map (\<lambda>z. preference z = ''West'') (occupation_zone_preference r) =
      map (\<lambda>p. p = ''West'') (map preference (occupation_zone_preference r))"
    and np: "map (\<lambda>z. (OccupationZonePreferenceData.occupation z, preference z))
           (occupation_zone_preference r) =
      zip (map OccupationZonePreferenceData.occupation (occupation_zone_preference r))
          (map preference (occupation_zone_preference r))"
    by (simp_all add: comp_def zip_map_map zip_same_conv_map)
  have a: "map (\<lambda>z. preference z = ''North'') (occupation_zone_preference r) =
         map (\<lambda>(occupation', north_ratio, west_ratio). float_literal 55 2 < north_ratio)
           occupation_zone_base"
    by (simp only: pn prefs north table) simp
  have b: "map (\<lambda>z. preference z = ''West'') (occupation_zone_preference r) =
         map (\<lambda>(occupation', north_ratio, west_ratio). float_literal 55 2 < west_ratio)
           occupation_zone_base"
    by (simp only: pw prefs west table) simp
  have c: "map (\<lambda>z. (OccupationZonePreferenceData.occupation z, preference z))
           (occupation_zone_preference r) =
         [(''Karyawan Swasta'', ''Neutral''), (''PNS/BUMN'', ''North''),
          (''Pelajar/Mahasiswa'', ''Neutral''), (''Wiraswasta'', ''Neutral''),
          (''Wisatawan'', ''West'')]"
    by (simp only: np names prefs table) simp
  show ?thesis
    by (rule exI[of _ "r\<lparr>BehaviorCorrelationResponse.date := date_or d (get_date today)\<rparr>"],
        rule conjI, rule res)
       (use lr len pos ts tn tw a b c in simp)
qed

text \<open>
  Claim C4. In every Behavior Correlation report the hourly list has the 17 hours 6 to 22
  in order, so position 1 holds hour 7 and position 14 holds hour 20; the morning
  dominant gender is Pria when the record at position 1 has a Pria percentage above 50
  and Wanita otherwise, and the evening dominant gender is read in the same way from the
  record at position 14.
\<close>

theorem dominant_gender_by_position:
  "\<exists>r. get_behavior_correlation today g d = Some r
     \<and> map HourGenderData.hour (hour_gender_distribution r) = [6..22]
     \<and> length (hour_gender_distribution r) = 17
     \<and> HourGenderData.hour (hour_gender_distribution r ! 1) = 7
     \<and> HourGenderData.hour (hour_gender_distribution r ! 14) = 20
     \<and> dominant_gender_morning (BehaviorCorrelationResponse.summary r) =
         (if 50 < pria_percentage (hour_gender_distribution r ! 1) then ''Pria'' else ''Wanita'')
     \<and> dominant_gender_evening (BehaviorCorrelationResponse.summary r) =
         (if 50 < pria_percentage (hour_gender_distribution r ! 14) then ''Pria'' else ''Wanita'')"
proof (rule get_behavior_correlation_run[of g])
  fix r
  assume res: "\<And>today d. get_behavior_correlation today g d =
       Some (r\<lparr>BehaviorCorrelationResponse.date := date_or d (get_date today)\<rparr>)"
    and hh: "map HourGenderData.hour (hour_gender_distribution r) = [6..22]"
    and sm: "dominant_gender_morning (BehaviorCorrelationResponse.summary r) =
       (if 50 < pria_percentage (hour_gender_distribution r ! 1) then ''Pria'' else ''Wanita'')"
    and se: "dominant_gender_evening (BehaviorCorrelationResponse.summary r) =
       (if 50 < pria_percentage (hour_gender_distribution r ! 14) then ''Pria'' else ''Wanita'')"
  have "length (map HourGenderData.hour (hour_gender_distribution r)) = 17"
    by (simp only: hh) simp
  then have hl: "length (hour_gender_distribution r) = 17" by simp
  have "map HourGenderData.hour (hour_gender_distribution r) ! 1 = 7"
    and "map HourGenderData.hour (hour_gender_distribution r) ! 14 = 20"
    by (simp_all only: hh) simp_all
  then have h1: "HourGenderData.hour (hour_gender_distribution r ! 1) = 7"
    and h14: "HourGenderData.hour (hour_gender_distribution r ! 14) = 20"
    using hl by simp_all
  show ?thesis
    by (rule exI, rule conjI, rule res) (use hh hl h1 h14 sm se in simp)
qed

section \<open>Denominators\<close>

lemma list_all_weaken:
  assumes "list_all P xs" and "\<And>x. P x \<Longrightarrow> Q x"
  shows "list_all Q xs"
  using assms by (induction xs) auto

text \<open>
  Claim C6. Every one of the five generators returns a report for every supply of random
  outcomes and every date, so no division raises ZeroDivisionError (nor does any other
  operation raise), and the denominators are positive: the totals of transactions and of
  passengers, the count of each zone, the number of gates, the sum of the three tier
  counts, and the total of each hour of the gender distribution.
\<close>

theorem denominators_are_positive:
  "(\<exists>r. get_operational_efficiency today g d = Some r
      \<and> 0 < OperationalEfficiencyResponse.total_transactions r
      \<and> list_all (\<lambda>z. 0 < TrafficZoneData.count z) (traffic_by_zone r)
      \<and> 0 < length (gate_utilization r))
   \<and> (\<exists>r. get_demografi today g d = Some r \<and> 0 < DemografiResponse.total_passengers r)
   \<and> (\<exists>r. get_segmentasi_perjalanan today g d = Some r
      \<and> 0 < SegmentasiPerjalananResponse.total_transactions r)
   \<and> (\<exists>r. get_segmentasi_loyaltas today g d = Some r
      \<and> 0 < SegmentasiLoyaltasResponse.total_passengers r
      \<and> 0 < sum_list (map LoyaltySegmentData.count (loyalty_segments r)))
   \<and> (\<exists>r. get_behavior_correlation today g d = Some r
      \<and> list_all (\<lambda>x. 0 < pria_count x + wanita_count x) (hour_gender_distribution r))"
proof (intro conjI)
  show "\<exists>r. get_operational_efficiency today g d = Some r
      \<and> 0 < OperationalEfficiencyResponse.total_transactions r
      \<and> list_all (\<lambda>z. 0 < TrafficZoneData.count z) (traffic_by_zone r)
      \<and> 0 < length (gate_utilization r)"
  proof (rule get_operational_efficiency_run[of g])
    fix r
    assume res: "\<And>today d. get_operational_efficiency today g d =
         Some (r\<lparr>OperationalEfficiencyResponse.date := date_or d (get_date today)\<rparr>)"
      and T: "4000 \<le> OperationalEfficiencyResponse.total_transactions r"
      and gz: "map GateUtilizationData.zone (gate_utilization r) =
         [''North'', ''North'', ''North'', ''North'', ''West'', ''West'', ''West'', ''West'']"
      and tz: "list_all (\<lambda>z. 4 \<le> TrafficZoneData.count z) (traffic_by_zone r)"
    have "length (map GateUtilizationData.zone (gate_utilization r)) = 8" by (simp only: gz) simp
    then have len: "0 < length (gate_utilization r)" by simp
    have tz0: "list_all (\<lambda>z. 0 < TrafficZoneData.count z) (traffic_by_zone r)"
      using tz by (rule list_all_weaken) simp
    show ?thesis
      by (rule exI, rule conjI, rule res) (use T tz0 len in simp)
  qed
  show "\<exists>r. get_demografi today g d = Some r \<and> 0 < DemografiResponse.total_passengers r"
  proof (rule get_demografi_run[of g])
    fix r
    assume res: "\<And>today d. get_demografi today g d =
         Some (r\<lparr>DemografiResponse.date := date_or d (get_date today)\<rparr>)"
      and T: "3500 \<le> DemografiResponse.total_passengers r"
    show ?thesis
      by (rule exI, rule conjI, rule res) (use T in simp)
  qed
  show "\<exists>r. get_segmentasi_perjalanan today g d = Some r
      \<and> 0 < SegmentasiPerjalananResponse.total_transactions r"
  proof (rule get_segmentasi_perjalanan_run[of g])
    fix r
    assume res: "\<And>today d. get_segmentasi_perjalanan today g d =
         Some (r\<lparr>SegmentasiPerjalananResponse.date := date_or d (get_date today)\<rparr>)"
      and T: "4000 \<le> SegmentasiPerjalananResponse.total_transactions r"
    show ?thesis
      by (rule exI, rule conjI, rule res) (use T in simp)
  qed
  show "\<exists>r. get_segmentasi_loyaltas today g d = Some r
      \<and> 0 < SegmentasiLoyaltasResponse.total_passengers r
      \<and> 0 < sum_list (map LoyaltySegmentData.count (loyalty_segments r))"
  proof (rule get_segmentasi_loyaltas_run[of g])
    fix r
    assume res: "\<And>today d. get_segmentasi_loyaltas today g d =
         Some (r\<lparr>SegmentasiLoyaltasResponse.date := date_or d (get_date today)\<rparr>)"
      and T: "3500 \<le> SegmentasiLoyaltasResponse.total_passengers r"
      and TL: "3 \<le> sum_list (map LoyaltySegmentData.count (loyalty_segments r))"
    show ?thesis
      by (rule exI, rule conjI, rule res) (use T TL in simp)
  qed
  show "\<exists>r. get_behavior_correlation today g d = Some r
      \<and> list_all (\<lambda>x. 0 < pria_count x + wanita_count x) (hour_gender_distribution r)"
  proof (rule get_behavior_correlation_run[of g])
    fix r
    assume res: "\<And>today d. get_behavior_correlation today g d =
         Some (r\<lparr>BehaviorCorrelationResponse.date := date_or d (get_date today)\<rparr>)"
      and ht: "list_all (\<lambda>x. 1 \<le> pria_count x + wanita_count x) (hour_gender_distribution r)"
    have h0: "list_all (\<lambda>x. 0 < pria_count x + wanita_count x) (hour_gender_distribution r)"
      using ht by (rule list_all_weaken) simp
    show ?thesis
      by (rule exI, rule conjI, rule res) (use h0 in simp)
  qed
qed

section \<open>The date argument\<close>

text \<open>
  Claim C2, as stated, fails at the empty string: \<^verbatim>\<open>date or get_date()\<close> takes the
  clock's date for it, as for an absent date. With the clock at 2026-11-04, each of the
  five endpoints answers the date \<open>''''\<close> with a report dated 2026-11-04.
\<close>

theorem empty_date_is_replaced_by_today:
  "map_option OperationalEfficiencyResponse.date
     (get_operational_efficiency ''2026-11-04'' [] (Some [])) = Some ''2026-11-04''
   \<and> map_option DemografiResponse.date
     (get_demografi ''2026-11-04'' [] (Some [])) = Some ''2026-11-04''
   \<and> map_option SegmentasiPerjalananResponse.date
     (get_segmentasi_perjalanan ''2026-11-04'' [] (Some [])) = Some ''2026-11-04''
   \<and> map_option SegmentasiLoyaltasResponse.date
     (get_segmentasi_loyaltas ''2026-11-04'' [] (Some [])) = Some ''2026-11-04''
   \<and> map_option BehaviorCorrelationResponse.date
     (get_behavior_correlation ''2026-11-04'' [] (Some [])) = Some ''2026-11-04''"
proof (intro conjI)
  show "map_option OperationalEfficiencyResponse.date
     (get_operational_efficiency ''2026-11-04'' [] (Some [])) = Some ''2026-11-04''"
  proof (rule get_operational_efficiency_run[of "[]"])
    fix r
    assume "\<And>today d. get_operational_efficiency today [] d =
         Some (r\<lparr>OperationalEfficiencyResponse.date := date_or d (get_date today)\<rparr>)"
    then show ?thesis by (simp add: date_or_def get_date_def)
  qed
  show "map_option DemografiResponse.date
     (get_demografi ''2026-11-04'' [] (Some [])) = Some ''2026-11-04''"
  proof (rule get_demografi_run[of "[]"])
    fix r
    assume "\<And>today d. get_demografi today [] d =
         Some (r\<lparr>DemografiResponse.date := date_or d (get_date today)\<rparr>)"
    then show ?thesis by (simp add: date_or_def get_date_def)
  qed
  show "map_option SegmentasiPerjalananResponse.date
     (get_segmentasi_perjalanan ''2026-11-04'' [] (Some [])) = Some ''2026-11-04''"
  proof (rule get_segmentasi_perjalanan_run[of "[]"])
    fix r
    assume "\<And>today d. get_segmentasi_perjalanan today [] d =
         Some (r\<lparr>SegmentasiPerjalananResponse.date := date_or d (get_date today)\<rparr>)"
    then show ?thesis by (simp add: date_or_def get_date_def)
  qed
  show "map_option SegmentasiLoyaltasResponse.date
     (get_segmentasi_loyaltas ''2026-11-04'' [] (Some [])) = Some ''2026-11-04''"
  proof (rule get_segmentasi_loyaltas_run[of "[]"])
    fix r
    assume "\<And>today d. get_segmentasi_loyaltas today [] d =
         Some (r\<lparr>SegmentasiLoyaltasResponse.date := date_or d (get_date today)\<rparr>)"
    then show ?thesis by (simp add: date_or_def get_date_def)
  qed
  show "map_option BehaviorCorrelationResponse.date
     (get_behavior_correlation ''2026-11-04'' [] (Some [])) = Some ''2026-11-04''"
  proof (rule get_behavior_correlation_run[of "[]"])
    fix r
    assume "\<And>today d. get_behavior_correlation today [] d =
         Some (r\<lparr>BehaviorCorrelationResponse.date := date_or d (get_date today)\<rparr>)"
    then show ?thesis by (simp add: date_or_def get_date_def)
  qed
qed

text \<open>
  Claim C2, amended. For every date string each endpoint returns a report: the string is
  never parsed, validated or rejected. The report's date is that string when it is not
  empty, and the clock's date when it is empty. Whatever the date argument (absent or any
  string), the report is the report of the call without a date, with only its date field
  set: the argument has no effect on the generated values.
\<close>

theorem date_is_an_opaque_label:
  "(\<exists>r. get_operational_efficiency today g (Some dt) = Some r
      \<and> OperationalEfficiencyResponse.date r = (if dt = [] then get_date today else dt))
   \<and> (\<exists>r. get_demografi today g (Some dt) = Some r
      \<and> DemografiResponse.date r = (if dt = [] then get_date today else dt))
   \<and> (\<exists>r. get_segmentasi_perjalanan today g (Some dt) = Some r
      \<and> SegmentasiPerjalananResponse.date r = (if dt = [] then get_date today else dt))
   \<and> (\<exists>r. get_segmentasi_loyaltas today g (Some dt) = Some r
      \<and> SegmentasiLoyaltasResponse.date r = (if dt = [] then get_date today else dt))
   \<and> (\<exists>r. get_behavior_correlation today g (Some dt) = Some r
      \<and> BehaviorCorrelationResponse.date r = (if dt = [] then get_date today else dt))
   \<and> get_operational_efficiency today g d =
       map_option (\<lambda>r. r\<lparr>OperationalEfficiencyResponse.date := date_or d (get_date today)\<rparr>)
         (get_operational_efficiency today g None)
   \<and> get_demografi today g d =
       map_option (\<lambda>r. r\<lparr>DemografiResponse.date := date_or d (get_date today)\<rparr>)
         (get_demografi today g None)
   \<and> get_segmentasi_perjalanan today g d =
       map_option (\<lambda>r. r\<lparr>SegmentasiPerjalananResponse.date := date_or d (get_date today)\<rparr>)
         (get_segmentasi_perjalanan today g None)
   \<and> get_segmentasi_loyaltas today g d =
       map_option (\<lambda>r. r\<lparr>SegmentasiLoyaltasResponse.date := date_or d (get_date today)\<rparr>)
         (get_segmentasi_loyaltas today g None)
   \<and> get_behavior_correlation today g d =
       map_option (\<lambda>r. r\<lparr>BehaviorCorrelationResponse.date := date_or d (get_date today)\<rparr>)
         (get_behavior_correlation today g None)"
proof -
  have oe: "(\<exists>r. get_operational_efficiency today g (Some dt) = Some r
      \<and> OperationalEfficiencyResponse.date r = (if dt = [] then get_date today else dt))
    \<and> get_operational_efficiency today g d =
       map_option (\<lambda>r. r\<lparr>OperationalEfficiencyResponse.date := date_or d (get_date today)\<rparr>)
         (get_operational_efficiency today g None)"
  proof (rule get_operational_efficiency_run[of g])
    fix r
    assume res: "\<And>today d. get_operational_efficiency today g d =
         Some (r\<lparr>OperationalEfficiencyResponse.date := date_or d (get_date today)\<rparr>)"
    show ?thesis by (simp add: res date_or_def)
  qed
  have dm: "(\<exists>r. get_demografi today g (Some dt) = Some r
      \<and> DemografiResponse.date r = (if dt = [] then get_date today else dt))
    \<and> get_demografi today g d =
       map_option (\<lambda>r. r\<lparr>DemografiResponse.date := date_or d (get_date today)\<rparr>)
         (get_demografi today g None)"
  proof (rule get_demografi_run[of g])
    fix r
    assume res: "\<And>today d. get_demografi today g d =
         Some (r\<lparr>DemografiResponse.date := date_or d (get_date today)\<rparr>)"
    show ?thesis by (simp add: res date_or_def)
  qed
  have sp: "(\<exists>r. get_segmentasi_perjalanan today g (Some dt) = Some r
      \<and> SegmentasiPerjalananResponse.date r = (if dt = [] then get_date today else dt))
    \<and> get_segmentasi_perjalanan today g d =
       map_option (\<lambda>r. r\<lparr>SegmentasiPerjalananResponse.date := date_or d (get_date today)\<rparr>)
         (get_segmentasi_perjalanan today g None)"
  proof (rule get_segmentasi_perjalanan_run[of g])
    fix r
    assume res: "\<And>today d. get_segmentasi_perjalanan today g d =
         Some (r\<lparr>SegmentasiPerjalananResponse.date := date_or d (get_date today)\<rparr>)"
    show ?thesis by (simp add: res date_or_def)
  qed
  have sl: "(\<exists>r. get_segmentasi_loyaltas today g (Some dt) = Some r
      \<and> SegmentasiLoyaltasResponse.date r = (if dt = [] then get_date today else dt))
    \<and> get_segmentasi_loyaltas today g d =
       map_option (\<lambda>r. r\<lparr>SegmentasiLoyaltasResponse.date := date_or d (get_date today)\<rparr>)
         (get_segmentasi_loyaltas today g None)"
  proof (rule get_segmentasi_loyaltas_run[of g])
    fix r
    assume res: "\<And>today d. get_segmentasi_loyaltas today g d =
         Some (r\<lparr>SegmentasiLoyaltasResponse.date := date_or d (get_date today)\<rparr>)"
    show ?thesis by (simp add: res date_or_def)
  qed
  have bc: "(\<exists>r. get_behavior_correlation today g (Some dt) = Some r
      \<and> BehaviorCorrelationResponse.date r = (if dt = [] then get_date today else dt))
    \<and> get_behavior_correlation today g d =
       map_option (\<lambda>r. r\<lparr>BehaviorCorrelationResponse.date := date_or d (get_date today)\<rparr>)
         (get_behavior_correlation today g None)"
  proof (rule get_behavior_correlation_run[of g])
    fix r
    assume res: "\<And>today d. get_behavior_correlation today g d =
         Some (r\<lparr>BehaviorCorrelationResponse.date := date_or d (get_date today)\<rparr>)"
    show ?thesis by (simp add: res date_or_def)
  qed
  from oe dm sp sl bc show ?thesis by (simp only: simp_thms)
qed

section \<open>Balance Direction when every random outcome is the lowest\<close>

lemma randint_no_outcomes: "randint a b [] = (a, [])"
  by (simp add: randint_def next_raw_def)

lemma generate_daily_data_no_outcomes: "snd (generate_daily_data b v []) = []"
  by (simp add: generate_daily_data_def uniform_def py_random_def next_raw_def split_beta)

lemma traffic_per_hour_loop_no_outcomes: "snd (traffic_per_hour_loop hs []) = []"
proof (induction hs)
  case Nil
  show ?case by simp
next
  case (Cons h hs)
  define e where "e =
     (if 7 \<le> h \<and> h \<le> 9
      then (let (b, g') = randint 400 600 [] in (b, ''Morning Peak'', g'))
      else if 16 \<le> h \<and> h \<le> 19
      then (let (b, g') = randint 400 600 [] in (b, ''Evening Peak'', g'))
      else (let (b, g') = randint 50 200 [] in (b, [], g')))"
  have "snd (snd e) = []" by (simp add: e_def randint_no_outcomes)
  then obtain b p where "e = (b, p, [])" by (cases e) auto
  then have bp:
    "(if 7 \<le> h \<and> h \<le> 9
      then (let (b, g') = randint 400 600 [] in (b, ''Morning Peak'', g'))
      else if 16 \<le> h \<and> h \<le> 19
      then (let (b, g') = randint 400 600 [] in (b, ''Evening Peak'', g'))
      else (let (b, g') = randint 50 200 [] in (b, [], g'))) = (b, p, [])"
    by (simp only: e_def)
  obtain c where c: "generate_daily_data b (float_literal 15 2) [] = (c, [])"
    using generate_daily_data_no_outcomes[of b "float_literal 15 2"]
    by (cases "generate_daily_data b (float_literal 15 2) []") simp
  obtain rest where rest: "traffic_per_hour_loop hs [] = (rest, [])"
    using Cons.IH by (cases "traffic_per_hour_loop hs []") simp
  show ?case
    by (simp only: traffic_per_hour_loop.simps Let_def bp[unfolded Let_def] c rest prod.case
        snd_conv)
qed

lemma north_gate_no_outcomes: "generate_daily_data 450 (float_literal 2 1) [] = (360, [])"
  by code_simp

lemma west_gate_no_outcomes: "generate_daily_data 400 (float_literal 2 1) [] = (320, [])"
  by code_simp

lemma share_no_outcomes:
  "uniform (float_literal 45 2) (float_literal 55 2) [] = (float_literal 45 2, [])"
  by code_simp

lemma north_share: "py_int (fmul (float_of_int 1440) (float_literal 45 2)) = 648"
  by code_simp

lemma west_share: "py_int (fmul (float_of_int 1280) (float_literal 45 2)) = 576"
  by code_simp

lemma zone_names: "replace ''TAP-NORTH'' ''TAP-'' [] = ''NORTH''"
  "replace ''TAP-WEST'' ''TAP-'' [] = ''WEST''"
  by code_simp+

lemma gate_loop_no_outcomes:
  assumes "T \<noteq> 0"
  shows "\<exists>gs. gate_loop z is T [] = Some (gs, [])
           \<and> map GateUtilizationData.count gs =
               replicate (length is) (if z = ''North'' then 360 else 320)"
proof (induction "is")
  case Nil
  show ?case by simp
next
  case (Cons i "is")
  then obtain gs where r: "gate_loop z is T [] = Some (gs, [])"
    and rc: "map GateUtilizationData.count gs =
               replicate (length is) (if z = ''North'' then 360 else 320)"
    by blast
  show ?case
  proof (cases "z = ''North''")
    case True
    show ?thesis using assms rc r True north_gate_no_outcomes
      by (simp add: randint_no_outcomes int_truediv_Some)
  next
    case False
    show ?thesis using assms rc r False west_gate_no_outcomes
      by (simp add: randint_no_outcomes int_truediv_Some)
  qed
qed

lemma gate_utilization_loop_no_outcomes:
  assumes "T \<noteq> 0"
  shows "\<exists>gs. gate_utilization_loop [''North'', ''West''] T [] = Some (gs, [])
           \<and> map GateUtilizationData.count gs = [360, 360, 360, 360, 320, 320, 320, 320]"
proof -
  have len: "length [1..4::int] = 4" by simp
  from gate_loop_no_outcomes[OF assms, of "''North''" "[1..4]"] obtain ns where
    n: "gate_loop ''North'' [1..4] T [] = Some (ns, [])"
    and nc: "map GateUtilizationData.count ns = replicate 4 360"
    unfolding len by auto
  from gate_loop_no_outcomes[OF assms, of "''West''" "[1..4]"] obtain ws where
    w: "gate_loop ''West'' [1..4] T [] = Some (ws, [])"
    and wc: "map GateUtilizationData.count ws = replicate 4 320"
    unfolding len by auto
  have "gate_utilization_loop [''North'', ''West''] T [] = Some (ns @ ws @ [], [])"
    by (simp only: gate_utilization_loop.simps n w bind.bind_lunit prod.case)
  then show ?thesis using nc wc by (simp add: numeral_eq_Suc)
qed

lemma zone_sum:
  assumes "map GateUtilizationData.zone gs = zs" "map GateUtilizationData.count gs = cs"
  shows "sum_list (map GateUtilizationData.count
           (filter (\<lambda>x. GateUtilizationData.zone x = z) gs)) =
         sum_list (map snd (filter (\<lambda>p. fst p = z) (zip zs cs)))"
  using assms by (induction gs arbitrary: zs cs) auto

lemma balance_direction_loop_no_outcomes:
  assumes "TrafficZoneData.zone zn = ''TAP-NORTH''" "TrafficZoneData.count zn = 1440"
    and "TrafficZoneData.zone zw = ''TAP-WEST''" "TrafficZoneData.count zw = 1280"
  shows "\<exists>bd. balance_direction_loop [zn, zw] [] = Some (bd, [])
     \<and> map (\<lambda>b. (DirectionBalanceData.zone b, DirectionBalanceData.direction b, DirectionBalanceData.count b)) bd =
         [(''NORTH'', ''IN'', 648), (''NORTH'', ''OUT'', 648),
          (''WEST'', ''IN'', 576), (''WEST'', ''OUT'', 576)]"
proof -
  have n: "\<exists>p q. direction_loop zn ''NORTH'' [''IN'', ''OUT''] [] = Some
      ([\<lparr>DirectionBalanceData.zone = ''NORTH'', DirectionBalanceData.direction = ''IN'',
         DirectionBalanceData.count = 648, DirectionBalanceData.percentage = p\<rparr>,
        \<lparr>DirectionBalanceData.zone = ''NORTH'', DirectionBalanceData.direction = ''OUT'',
         DirectionBalanceData.count = 648, DirectionBalanceData.percentage = q\<rparr>], [])"
    by (simp add: assms share_no_outcomes north_share percentage_of_def int_truediv_def)
  have w: "\<exists>p q. direction_loop zw ''WEST'' [''IN'', ''OUT''] [] = Some
      ([\<lparr>DirectionBalanceData.zone = ''WEST'', DirectionBalanceData.direction = ''IN'',
         DirectionBalanceData.count = 576, DirectionBalanceData.percentage = p\<rparr>,
        \<lparr>DirectionBalanceData.zone = ''WEST'', DirectionBalanceData.direction = ''OUT'',
         DirectionBalanceData.count = 576, DirectionBalanceData.percentage = q\<rparr>], [])"
    by (simp add: assms share_no_outcomes west_share percentage_of_def int_truediv_def)
  from n obtain p1 q1 where n': "direction_loop zn ''NORTH'' [''IN'', ''OUT''] [] = Some
      ([\<lparr>DirectionBalanceData.zone = ''NORTH'', DirectionBalanceData.direction = ''IN'',
         DirectionBalanceData.count = 648, DirectionBalanceData.percentage = p1\<rparr>,
        \<lparr>DirectionBalanceData.zone = ''NORTH'', DirectionBalanceData.direction = ''OUT'',
         DirectionBalanceData.count = 648, DirectionBalanceData.percentage = q1\<rparr>], [])"
    by (elim exE)
  from w obtain p2 q2 where w': "direction_loop zw ''WEST'' [''IN'', ''OUT''] [] = Some
      ([\<lparr>DirectionBalanceData.zone = ''WEST'', DirectionBalanceData.direction = ''IN'',
         DirectionBalanceData.count = 576, DirectionBalanceData.percentage = p2\<rparr>,
        \<lparr>DirectionBalanceData.zone = ''WEST'', DirectionBalanceData.direction = ''OUT'',
         DirectionBalanceData.count = 576, DirectionBalanceData.percentage = q2\<rparr>], [])"
    by (elim exE)
  have "balance_direction_loop [zn, zw] [] = Some
      ([\<lparr>DirectionBalanceData.zone = ''NORTH'', DirectionBalanceData.direction = ''IN'',
         DirectionBalanceData.count = 648, DirectionBalanceData.percentage = p1\<rparr>,
        \<lparr>DirectionBalanceData.zone = ''NORTH'', DirectionBalanceData.direction = ''OUT'',
         DirectionBalanceData.count = 648, DirectionBalanceData.percentage = q1\<rparr>] @
       [\<lparr>DirectionBalanceData.zone = ''WEST'', DirectionBalanceData.direction = ''IN'',
         DirectionBalanceData.count = 576, DirectionBalanceData.percentage = p2\<rparr>,
        \<lparr>DirectionBalanceData.zone = ''WEST'', DirectionBalanceData.direction = ''OUT'',
         DirectionBalanceData.count = 576, DirectionBalanceData.percentage = q2\<rparr>] @ [], [])"
    by (simp only: balance_direction_loop.simps Let_def assms zone_names n' w'
        bind.bind_lunit prod.case)
  then show ?thesis by simp
qed

text \<open>
  Claim C1 does not hold of the code. The loop over \<^verbatim>\<open>['IN', 'OUT']\<close> draws a share
  of the zone's count for each direction on its own, where the direction split of
  Kategori 4 and the gender split of Kategori 3 take the second count as what the first
  leaves of the total. When every random outcome is the lowest (every \<^verbatim>\<open>randint\<close> at its
  lower bound, every \<^verbatim>\<open>random()\<close> at 0), the North zone counts 1440 with IN 648 and OUT
  648, and the West zone counts 1280 with IN 576 and OUT 576.
\<close>

theorem balance_directions_are_drawn_separately:
  "\<exists>r. get_operational_efficiency today [] d = Some r
     \<and> map (\<lambda>z. (TrafficZoneData.zone z, TrafficZoneData.count z)) (traffic_by_zone r) =
         [(''TAP-NORTH'', 1440), (''TAP-WEST'', 1280)]
     \<and> map (\<lambda>b. (DirectionBalanceData.zone b, DirectionBalanceData.direction b, DirectionBalanceData.count b))
           (balance_direction r) =
         [(''NORTH'', ''IN'', 648), (''NORTH'', ''OUT'', 648),
          (''WEST'', ''IN'', 576), (''WEST'', ''OUT'', 576)]"
proof (rule get_operational_efficiency_run[of "[]"])
  fix r g1 g2 g3 g4
  assume res: "\<And>today d. get_operational_efficiency today [] d =
       Some (r\<lparr>OperationalEfficiencyResponse.date := date_or d (get_date today)\<rparr>)"
    and T: "randint 4000 6000 [] = (OperationalEfficiencyResponse.total_transactions r, g1)"
    and tph: "traffic_per_hour_loop [6..22] g1 = (OperationalEfficiencyResponse.traffic_per_hour r, g2)"
    and gs: "gate_utilization_loop [''North'', ''West'']
               (OperationalEfficiencyResponse.total_transactions r) g2 =
             Some (gate_utilization r, g3)"
    and gz: "map GateUtilizationData.zone (gate_utilization r) =
       [''North'', ''North'', ''North'', ''North'', ''West'', ''West'', ''West'', ''West'']"
    and tzz: "map TrafficZoneData.zone (traffic_by_zone r) = [''TAP-NORTH'', ''TAP-WEST'']"
    and tzc: "map TrafficZoneData.count (traffic_by_zone r) =
       [sum_list (map GateUtilizationData.count
          (filter (\<lambda>x. GateUtilizationData.zone x = ''North'') (gate_utilization r))),
        sum_list (map GateUtilizationData.count
          (filter (\<lambda>x. GateUtilizationData.zone x = ''West'') (gate_utilization r)))]"
    and bd: "balance_direction_loop (traffic_by_zone r) g3 = Some (balance_direction r, g4)"
  have T4: "OperationalEfficiencyResponse.total_transactions r = 4000" and g1: "g1 = []"
    using T by (simp_all add: randint_no_outcomes)
  have g2: "g2 = []"
    using tph traffic_per_hour_loop_no_outcomes[of "[6..22]"] by (simp only: g1 snd_conv)
  have T0: "(4000::int) \<noteq> 0" by simp
  from gate_utilization_loop_no_outcomes[OF T0] obtain gl where
    gl: "gate_utilization_loop [''North'', ''West''] 4000 [] = Some (gl, [])"
    and glc: "map GateUtilizationData.count gl = [360, 360, 360, 360, 320, 320, 320, 320]"
    by (elim exE conjE)
  have "Some (gate_utilization r, g3) = Some (gl, [])"
    using gs gl by (simp only: T4 g2)
  then have gr: "gate_utilization r = gl" and g3: "g3 = []" by simp_all
  have gc: "map GateUtilizationData.count (gate_utilization r) =
      [360, 360, 360, 360, 320, 320, 320, 320]"
    by (simp only: gr glc)
  have counts: "map TrafficZoneData.count (traffic_by_zone r) = [1440, 1280]"
    by (simp only: tzc zone_sum[OF gz gc]) simp
  obtain zn zw where tz: "traffic_by_zone r = [zn, zw]"
    and zn: "TrafficZoneData.zone zn = ''TAP-NORTH''" "TrafficZoneData.count zn = 1440"
    and zw: "TrafficZoneData.zone zw = ''TAP-WEST''" "TrafficZoneData.count zw = 1280"
    using tzz counts by (auto simp add: map_eq_Cons_conv)
  from balance_direction_loop_no_outcomes[OF zn zw] obtain bl where
    bl: "balance_direction_loop [zn, zw] [] = Some (bl, [])"
    and blc: "map (\<lambda>b. (DirectionBalanceData.zone b, DirectionBalanceData.direction b, DirectionBalanceData.count b)) bl =
         [(''NORTH'', ''IN'', 648), (''NORTH'', ''OUT'', 648),
          (''WEST'', ''IN'', 576), (''WEST'', ''OUT'', 576)]"
    by (elim exE conjE)
  have "Some (balance_direction r, g4) = Some (bl, [])"
    using bd bl by (simp only: tz g3)
  then have br: "balance_direction r = bl" by simp
  have zones: "map (\<lambda>z. (TrafficZoneData.zone z, TrafficZoneData.count z)) (traffic_by_zone r) =
         [(''TAP-NORTH'', 1440), (''TAP-WEST'', 1280)]"
    by (simp add: tz zn zw)
  show ?thesis
    by (rule exI, rule conjI, rule res) (use zones blc in \<open>simp add: br\<close>)
qed

end
